theory Spec2Isabelle
  imports Complex_Main "HOL-Library.Word" "HOL-Library.Signed_Division"
begin

unbundle bit_operations_syntax

section \<open>Conventions of the embedding\<close>

text \<open>
  The repository holds four renderers of the Mandelbrot set: a scalar console program
  (\<^verbatim>\<open>Mandelbrot.cpp\<close>) and three SDL programs whose kernel \<^verbatim>\<open>mandelbrotAVX\<close> evaluates
  four sample points at once in 256-bit registers (\<^verbatim>\<open>MandelbrotSDL2.cpp\<close>,
  \<^verbatim>\<open>MBAVXReal.cpp\<close>, \<^verbatim>\<open>MBThreadsAndAVX.cpp\<close>).

  \<^item> A \<^verbatim>\<open>double\<close> is a \<^typ>\<open>real\<close>. In the definitions of the kernels and of the scalar
    functions the arithmetic is exact; the concrete evaluations made with them stay far
    from the comparison thresholds or are exact in binary64. The loop of
    \<^verbatim>\<open>MBThreadsAndAVX.cpp\<close> and the scalar functions are given a second time with the
    rounding of binary64 after every operation, for the statements that reach the
    threshold of the escape test. Infinities and NaN are outside the model.
  \<^item> A C \<^verbatim>\<open>int\<close> and a 64-bit lane of a \<^verbatim>\<open>__m256i\<close> are an \<^typ>\<open>int\<close>. Every counter
    of the program is bounded by an iteration cap below \<open>2^31\<close>, so no wrap-around
    occurs. Bitwise operations on \<^typ>\<open>int\<close> are those of two's complement, so the
    all-ones lane of a comparison mask is \<open>-1\<close>.
  \<^item> A pixel is a \<^typ>\<open>32 word\<close>, a colour channel an \<^typ>\<open>8 word\<close>.
  \<^item> The compile-time constants \<^verbatim>\<open>SCREEN_WIDTH\<close>, \<^verbatim>\<open>SCREEN_HEIGHT\<close>, \<^verbatim>\<open>MAX_ITER\<close>
    and \<^verbatim>\<open>THREAD_COUNT\<close> are the fields of a record that every function takes;
    \<open>source_config\<close> holds the values written in the source.
\<close>

record config =
  SCREEN_WIDTH :: int
  SCREEN_HEIGHT :: int
  MAX_ITER :: int
  THREAD_COUNT :: int

definition source_config :: config where
  "source_config =
     \<lparr>SCREEN_WIDTH = 800, SCREEN_HEIGHT = 600, MAX_ITER = 1000, THREAD_COUNT = 32\<rparr>"

section \<open>256-bit registers and the intrinsics the kernels use\<close>

text \<open>A register of four lanes; \<open>e0\<close> is the lowest lane, the one \<^verbatim>\<open>v[0]\<close> reads.\<close>

datatype 'a m256 = M256 (e0: 'a) (e1: 'a) (e2: 'a) (e3: 'a)

type_synonym m256d = "real m256"
type_synonym m256i = "int m256"

definition lanewise :: "('a \<Rightarrow> 'b \<Rightarrow> 'c) \<Rightarrow> 'a m256 \<Rightarrow> 'b m256 \<Rightarrow> 'c m256" where
  "lanewise f a b = M256 (f (e0 a) (e0 b)) (f (e1 a) (e1 b)) (f (e2 a) (e2 b)) (f (e3 a) (e3 b))"

text \<open>Subscripting \<^verbatim>\<open>v[k]\<close> for \<open>k\<close> in \<open>0..3\<close>.\<close>

definition elem :: "'a m256 \<Rightarrow> int \<Rightarrow> 'a" where
  "elem v k = (if k = 0 then e0 v else if k = 1 then e1 v else if k = 2 then e2 v else e3 v)"

definition mm256_set1 :: "'a \<Rightarrow> 'a m256" where
  "mm256_set1 x = M256 x x x x"

text \<open>\<^verbatim>\<open>_mm256_set_pd(e3, e2, e1, e0)\<close>: the first argument is the highest lane.\<close>

definition mm256_set_pd :: "real \<Rightarrow> real \<Rightarrow> real \<Rightarrow> real \<Rightarrow> m256d" where
  "mm256_set_pd x3 x2 x1 x0 = M256 x0 x1 x2 x3"

definition mm256_setzero_pd :: m256d where
  "mm256_setzero_pd = M256 0 0 0 0"

definition mm256_setzero_si256 :: m256i where
  "mm256_setzero_si256 = M256 0 0 0 0"

definition mm256_mul_pd :: "m256d \<Rightarrow> m256d \<Rightarrow> m256d" where
  "mm256_mul_pd = lanewise (*)"

definition mm256_add_pd :: "m256d \<Rightarrow> m256d \<Rightarrow> m256d" where
  "mm256_add_pd = lanewise (+)"

definition mm256_sub_pd :: "m256d \<Rightarrow> m256d \<Rightarrow> m256d" where
  "mm256_sub_pd = lanewise (-)"

text \<open>\<^verbatim>\<open>_mm256_fmadd_pd(a, b, c)\<close> is \<open>a * b + c\<close> in every lane.\<close>

definition mm256_fmadd_pd :: "m256d \<Rightarrow> m256d \<Rightarrow> m256d \<Rightarrow> m256d" where
  "mm256_fmadd_pd a b c = mm256_add_pd (mm256_mul_pd a b) c"

text \<open>
  \<^verbatim>\<open>_mm256_cmp_pd(a, b, _CMP_LT_OQ)\<close> followed by \<^verbatim>\<open>_mm256_castpd_si256\<close>: a lane of
  the mask is all ones where \<open>a < b\<close> and zero elsewhere. The mask is kept as the integer
  register that the cast reads it as.
\<close>

definition mm256_cmp_pd_LT_OQ :: "m256d \<Rightarrow> m256d \<Rightarrow> m256i" where
  "mm256_cmp_pd_LT_OQ = lanewise (\<lambda>x y. if x < y then - 1 else 0)"

definition mm256_cmpgt_epi64 :: "m256i \<Rightarrow> m256i \<Rightarrow> m256i" where
  "mm256_cmpgt_epi64 = lanewise (\<lambda>x y. if x > y then - 1 else 0)"

definition mm256_and_si256 :: "m256i \<Rightarrow> m256i \<Rightarrow> m256i" where
  "mm256_and_si256 = lanewise (AND)"

definition mm256_add_epi64 :: "m256i \<Rightarrow> m256i \<Rightarrow> m256i" where
  "mm256_add_epi64 = lanewise (+)"

text \<open>\<^verbatim>\<open>_mm256_testz_si256(a, b)\<close> is 1 when \<open>a AND b\<close> has no bit set.\<close>

definition mm256_testz_si256 :: "m256i \<Rightarrow> m256i \<Rightarrow> bool" where
  "mm256_testz_si256 a b =
     (e0 a AND e0 b = 0 \<and> e1 a AND e1 b = 0 \<and> e2 a AND e2 b = 0 \<and> e3 a AND e3 b = 0)"

text \<open>\<^verbatim>\<open>_mm256_movemask_pd\<close>: bit \<open>k\<close> of the result is the sign bit of lane \<open>k\<close>.\<close>

definition mm256_movemask_pd :: "m256i \<Rightarrow> int" where
  "mm256_movemask_pd m =
     (if e0 m < 0 then 1 else 0) + (if e1 m < 0 then 2 else 0) +
     (if e2 m < 0 then 4 else 0) + (if e3 m < 0 then 8 else 0)"

section \<open>The scalar escape-time functions\<close>

text \<open>
  \<^verbatim>\<open>mandelbrot\<close> of \<^verbatim>\<open>MBThreadsAndAVX.cpp\<close> and \<^verbatim>\<open>MBAVXReal.cpp\<close>:
  \<^verbatim>\<open>while (std::norm(z) <= 4.0 && iter < MAX_ITER) { z = z * z + c; iter++; }\<close>.
  \<^verbatim>\<open>std::norm\<close> is the squared magnitude. Here it is the exact one and is compared
  exactly, which is what the program does whenever the squared magnitude is further
  from 4 than the rounding error. The program compares the rounded value:
  \<open>mandelbrot_while_fl\<close> below does that, and the two differ at \<open>c = (2, 2\<^sup>-\<^sup>3\<^sup>0)\<close>.
\<close>

definition std_norm :: "complex \<Rightarrow> real" where
  "std_norm z = Re z * Re z + Im z * Im z"

function mandelbrot_while :: "int \<Rightarrow> complex \<Rightarrow> complex \<Rightarrow> int \<Rightarrow> int" where
  "mandelbrot_while cap c z iter =
     (if std_norm z \<le> 4 \<and> iter < cap
      then mandelbrot_while cap c (z * z + c) (iter + 1)
      else iter)"
  by pat_completeness auto
termination
  by (relation "measure (\<lambda>(cap, c, z, iter). nat (cap - iter))") auto

declare mandelbrot_while.simps [simp del]

definition mandelbrot :: "config \<Rightarrow> complex \<Rightarrow> int" where
  "mandelbrot cfg c = mandelbrot_while (MAX_ITER cfg) c 0 0"

text \<open>
  \<^verbatim>\<open>mandelbrot\<close> of \<^verbatim>\<open>Mandelbrot.cpp\<close>:
  \<^verbatim>\<open>while (std::abs(z) < 2.0 && iterations < max_iter) { z = z * z + c; iterations++; }\<close>.
\<close>

function mandelbrot_abs_while :: "int \<Rightarrow> complex \<Rightarrow> complex \<Rightarrow> int \<Rightarrow> int" where
  "mandelbrot_abs_while cap c z iterations =
     (if cmod z < 2 \<and> iterations < cap
      then mandelbrot_abs_while cap c (z * z + c) (iterations + 1)
      else iterations)"
  by pat_completeness auto
termination
  by (relation "measure (\<lambda>(cap, c, z, iterations). nat (cap - iterations))") auto

declare mandelbrot_abs_while.simps [simp del]

definition mandelbrot_abs :: "int \<Rightarrow> complex \<Rightarrow> int" where
  "mandelbrot_abs max_iter c = mandelbrot_abs_while max_iter c 0 0"

section \<open>The sample-space mapping\<close>

text \<open>
  The kernels compute the coordinates inline:
  \<^verbatim>\<open>(j + k - SCREEN_WIDTH / 2.0) * 4.0 / (SCREEN_WIDTH * zoom) + offsetX\<close> and
  \<^verbatim>\<open>(i - SCREEN_HEIGHT / 2.0) * 4.0 / (SCREEN_HEIGHT * zoom) + offsetY\<close>.
\<close>

definition sample_re :: "config \<Rightarrow> real \<Rightarrow> real \<Rightarrow> int \<Rightarrow> real" where
  "sample_re cfg offsetX zoom col =
     (real_of_int col - real_of_int (SCREEN_WIDTH cfg) / 2) * 4
       / (real_of_int (SCREEN_WIDTH cfg) * zoom) + offsetX"

definition sample_im :: "config \<Rightarrow> real \<Rightarrow> real \<Rightarrow> int \<Rightarrow> real" where
  "sample_im cfg offsetY zoom row =
     (real_of_int row - real_of_int (SCREEN_HEIGHT cfg) / 2) * 4
       / (real_of_int (SCREEN_HEIGHT cfg) * zoom) + offsetY"

definition batch_ca :: "config \<Rightarrow> real \<Rightarrow> real \<Rightarrow> int \<Rightarrow> m256d" where
  "batch_ca cfg offsetX zoom j =
     mm256_set_pd (sample_re cfg offsetX zoom (j + 3)) (sample_re cfg offsetX zoom (j + 2))
                  (sample_re cfg offsetX zoom (j + 1)) (sample_re cfg offsetX zoom (j + 0))"

definition batch_cb :: "config \<Rightarrow> real \<Rightarrow> real \<Rightarrow> int \<Rightarrow> m256d" where
  "batch_cb cfg offsetY zoom i = mm256_set1 (sample_im cfg offsetY zoom i)"

section \<open>Colours and pixels\<close>

text \<open>\<^verbatim>\<open>struct Color { uint8_t r, g, b; }\<close>\<close>

record Color =
  color_r :: "8 word"
  color_g :: "8 word"
  color_b :: "8 word"

text \<open>
  \<^verbatim>\<open>static_cast<uint8_t>(x)\<close> of a \<^verbatim>\<open>double\<close> drops the fraction (towards zero). The
  operand is always \<open>128 + 127 * sin _\<close>, between 1 and 255.
\<close>

definition static_cast_uint8 :: "real \<Rightarrow> 8 word" where
  "static_cast_uint8 x = word_of_int (if 0 \<le> x then \<lfloor>x\<rfloor> else \<lceil>x\<rceil>)"

text \<open>\<^verbatim>\<open>getColor\<close> of \<^verbatim>\<open>MBAVXReal.cpp\<close> and \<^verbatim>\<open>MBThreadsAndAVX.cpp\<close>.\<close>

definition getColor :: "config \<Rightarrow> int \<Rightarrow> Color" where
  "getColor cfg iter =
     (if iter = MAX_ITER cfg then \<lparr>color_r = 0, color_g = 0, color_b = 0\<rparr>
      else (let t = real_of_int iter / real_of_int (MAX_ITER cfg);
                r = static_cast_uint8 (128 + 127 * sin (6.28318 * t + 0));
                g = static_cast_uint8 (128 + 127 * sin (6.28318 * t + 2.09439));
                b = static_cast_uint8 (128 + 127 * sin (6.28318 * t + 4.18879))
            in \<lparr>color_r = r, color_g = g, color_b = b\<rparr>))"

text \<open>
  \<^verbatim>\<open>getColor\<close> of \<^verbatim>\<open>MandelbrotSDL2.cpp\<close>, where \<^verbatim>\<open>uint8_t t = iter / MAX_ITER;\<close> is
  an integer division stored in a byte.
\<close>

definition getColor_SDL2 :: "config \<Rightarrow> int \<Rightarrow> Color" where
  "getColor_SDL2 cfg iter =
     (if iter = MAX_ITER cfg then \<lparr>color_r = 0, color_g = 0, color_b = 0\<rparr>
      else (let t = real_of_int (uint (word_of_int (iter sdiv MAX_ITER cfg) :: 8 word));
                r = static_cast_uint8 (128 + 127 * sin (6.28318 * t + 0));
                g = static_cast_uint8 (128 + 127 * sin (6.28318 * t + 2.09439));
                b = static_cast_uint8 (128 + 127 * sin (6.28318 * t + 4.18879))
            in \<lparr>color_r = r, color_g = g, color_b = b\<rparr>))"

text \<open>\<^verbatim>\<open>(color.r << 24) | (color.g << 16) | (color.b << 8) | 0xFF\<close>, stored as \<^verbatim>\<open>Uint32\<close>.\<close>

definition pack_rgba :: "Color \<Rightarrow> 32 word" where
  "pack_rgba c =
     push_bit 24 (ucast (color_r c)) OR push_bit 16 (ucast (color_g c))
       OR push_bit 8 (ucast (color_b c)) OR 0xFF"

text \<open>
  The only effect of a kernel is a sequence of stores \<^verbatim>\<open>pixels[i * (bytesPerRow / 4) + col] = v\<close>.
  A kernel is modelled by the stores it performs, in program order; the buffer after the
  call is the buffer before it with these stores applied in that order. The buffer is a
  map from cell index to pixel: \<^verbatim>\<open>pixels\<close> is a raw pointer, and nothing in the code
  bounds the index.
\<close>

record pixel_store =
  st_row :: int
  st_col :: int
  st_val :: "32 word"

type_synonym pixels = "int \<Rightarrow> 32 word"

definition pixel_index :: "int \<Rightarrow> pixel_store \<Rightarrow> int" where
  "pixel_index bytesPerRow st = st_row st * (bytesPerRow sdiv 4) + st_col st"

definition write_pixel :: "int \<Rightarrow> pixels \<Rightarrow> pixel_store \<Rightarrow> pixels" where
  "write_pixel bytesPerRow px st = px (pixel_index bytesPerRow st := st_val st)"

definition write_pixels :: "int \<Rightarrow> pixels \<Rightarrow> pixel_store list \<Rightarrow> pixels" where
  "write_pixels bytesPerRow px sts = foldl (write_pixel bytesPerRow) px sts"

section \<open>The loops over the grid\<close>

text \<open>\<^verbatim>\<open>for (int j = 0; j < SCREEN_WIDTH; j += 4) body(j)\<close>, entered at \<open>j\<close>.\<close>

function for_cols :: "int \<Rightarrow> (int \<Rightarrow> 'a list) \<Rightarrow> int \<Rightarrow> 'a list" where
  "for_cols w body j = (if j < w then body j @ for_cols w body (j + 4) else [])"
  by pat_completeness auto
termination
  by (relation "measure (\<lambda>(w, body, j). nat (w - j))") auto

declare for_cols.simps [simp del]

text \<open>\<^verbatim>\<open>for (int i = startY; i < endY; ++i) body(i)\<close>, entered at \<open>i\<close>.\<close>

function for_rows :: "int \<Rightarrow> (int \<Rightarrow> 'a list) \<Rightarrow> int \<Rightarrow> 'a list" where
  "for_rows endY body i = (if i < endY then body i @ for_rows endY body (i + 1) else [])"
  by pat_completeness auto
termination
  by (relation "measure (\<lambda>(endY, body, i). nat (endY - i))") auto

declare for_rows.simps [simp del]

section \<open>The kernel of MBThreadsAndAVX.cpp\<close>

text \<open>
  The registers that live across the passes of a batch loop: the two parts of \<open>z\<close> and
  the per-lane counter (\<^verbatim>\<open>_iter\<close> in \<^verbatim>\<open>MBThreadsAndAVX.cpp\<close>, \<^verbatim>\<open>_n\<close> in the other
  two files). In \<^verbatim>\<open>MBThreadsAndAVX.cpp\<close> they are locals of \<^verbatim>\<open>mandelbrotAVX\<close>,
  declared and initialised for every batch.
\<close>

record lanes =
  lane_zr :: m256d
  lane_zi :: m256d
  lane_count :: m256i

definition lanes_init :: lanes where
  "lanes_init =
     \<lparr>lane_zr = mm256_setzero_pd, lane_zi = mm256_setzero_pd, lane_count = mm256_set1 0\<rparr>"

text \<open>
  The mask of a pass: a lane is all ones while \<open>zr\<^sup>2 + zi\<^sup>2 < 4\<close>. It is the lane's
  "still iterating" flag.
\<close>

definition AVX_mask :: "lanes \<Rightarrow> m256i" where
  "AVX_mask s =
     (let zr2 = mm256_mul_pd (lane_zr s) (lane_zr s);
          zi2 = mm256_mul_pd (lane_zi s) (lane_zi s);
          abs = mm256_add_pd zr2 zi2
      in mm256_cmp_pd_LT_OQ abs (mm256_set1 4))"

text \<open>
  The rest of a pass, after the \<^verbatim>\<open>break\<close> test: \<^verbatim>\<open>_zi\<close> and \<^verbatim>\<open>_zr\<close> are assigned from
  the old values in all four lanes, and \<^verbatim>\<open>_one\<close> is added to all four lanes of
  \<^verbatim>\<open>_iter\<close>. The mask is not an operand of any of the three assignments.
\<close>

definition AVX_advance :: "m256d \<Rightarrow> m256d \<Rightarrow> lanes \<Rightarrow> lanes" where
  "AVX_advance ca cb s =
     (let zr2 = mm256_mul_pd (lane_zr s) (lane_zr s);
          zi2 = mm256_mul_pd (lane_zi s) (lane_zi s);
          zi' = mm256_add_pd
                  (mm256_mul_pd (mm256_set1 2) (mm256_mul_pd (lane_zr s) (lane_zi s))) cb;
          zr' = mm256_add_pd (mm256_sub_pd zr2 zi2) ca
      in \<lparr>lane_zr = zr', lane_zi = zi',
          lane_count = mm256_add_epi64 (lane_count s) (mm256_set1 1)\<rparr>)"

text \<open>\<^verbatim>\<open>for (int k = 0; k < max_iterations; ++k) { ...; if (testz) break; ... }\<close>\<close>

function AVX_for :: "int \<Rightarrow> m256d \<Rightarrow> m256d \<Rightarrow> int \<Rightarrow> lanes \<Rightarrow> lanes" where
  "AVX_for max_iterations ca cb k s =
     (if k < max_iterations
      then (if mm256_testz_si256 (AVX_mask s) (AVX_mask s) then s
            else AVX_for max_iterations ca cb (k + 1) (AVX_advance ca cb s))
      else s)"
  by pat_completeness auto
termination
  by (relation "measure (\<lambda>(max_iterations, ca, cb, k, s). nat (max_iterations - k))") auto

declare AVX_for.simps [simp del]

definition AVX_batch :: "int \<Rightarrow> m256d \<Rightarrow> m256d \<Rightarrow> lanes" where
  "AVX_batch max_iterations ca cb = AVX_for max_iterations ca cb 0 lanes_init"

text \<open>
  \<^verbatim>\<open>for (int k = 0; k < 4; ++k) { int iter = ((int64_t*)&_iter)[3 - k]; ...
  pixels[i * (bytesPerRow / 4) + j + k] = ...; }\<close>
\<close>

definition AVX_batch_stores :: "config \<Rightarrow> int \<Rightarrow> int \<Rightarrow> m256i \<Rightarrow> pixel_store list" where
  "AVX_batch_stores cfg i j iter =
     map (\<lambda>k. \<lparr>st_row = i, st_col = j + k,
               st_val = pack_rgba (getColor cfg (elem iter (3 - k)))\<rparr>) [0, 1, 2, 3]"

definition AVX_stores ::
  "config \<Rightarrow> real \<Rightarrow> real \<Rightarrow> real \<Rightarrow> int \<Rightarrow> int \<Rightarrow> int \<Rightarrow> pixel_store list" where
  "AVX_stores cfg offsetX offsetY zoom max_iterations startY endY =
     for_rows endY
       (\<lambda>i. for_cols (SCREEN_WIDTH cfg)
          (\<lambda>j. AVX_batch_stores cfg i j
                 (lane_count (AVX_batch max_iterations (batch_ca cfg offsetX zoom j)
                                                       (batch_cb cfg offsetY zoom i))))
          0)
       startY"

definition mandelbrotAVX ::
  "config \<Rightarrow> real \<Rightarrow> real \<Rightarrow> real \<Rightarrow> int \<Rightarrow> pixels \<Rightarrow> int \<Rightarrow> int \<Rightarrow> int \<Rightarrow> pixels" where
  "mandelbrotAVX cfg offsetX offsetY zoom max_iterations px bytesPerRow startY endY =
     write_pixels bytesPerRow px (AVX_stores cfg offsetX offsetY zoom max_iterations startY endY)"

section \<open>The arithmetic of double\<close>

text \<open>
  The value of an operation on two \<^verbatim>\<open>double\<close>s is the exact result rounded to the
  nearest number with a significand of 53 bits, a tie going to the even significand.
  \<open>round_even\<close> is the integer nearest to a real, with that rule for ties; \<open>binary64\<close>
  scales a real by the power of two of its binade, rounds and scales back. The range of
  the exponent is not limited. The concrete evaluations made with \<open>binary64\<close> have all
  their values between \<open>2\<^sup>-\<^sup>6\<^sup>0\<close> and 64. Elsewhere a square too large for a \<^verbatim>\<open>double\<close> is
  a large number here and an infinity in the program, both above 4, and a square too
  small for a \<^verbatim>\<open>double\<close> is lost, here as in the program, when it is added to a number
  near 4.
\<close>

definition round_even :: "real \<Rightarrow> int" where
  "round_even x =
     (if x - of_int \<lfloor>x\<rfloor> = 1 / 2 then (if even \<lfloor>x\<rfloor> then \<lfloor>x\<rfloor> else \<lfloor>x\<rfloor> + 1)
      else round x)"

definition binary64 :: "real \<Rightarrow> real" where
  "binary64 x =
     (if x = 0 then 0
      else (let e = \<lfloor>log 2 \<bar>x\<bar>\<rfloor>
            in of_int (round_even (x / 2 powi (e - 52))) * 2 powi (e - 52)))"

text \<open>
  The loop of \<^verbatim>\<open>MBThreadsAndAVX.cpp\<close> once more, with the rounding \<open>fl\<close> after every
  \<^verbatim>\<open>_mm256_mul_pd\<close>, \<^verbatim>\<open>_mm256_add_pd\<close> and \<^verbatim>\<open>_mm256_sub_pd\<close>. The comparison with 4 is
  made on the rounded sum of the two rounded squares. The file calls no fused
  multiply-add, and none is taken here.
\<close>

definition mm256_mul_pd_fl :: "(real \<Rightarrow> real) \<Rightarrow> m256d \<Rightarrow> m256d \<Rightarrow> m256d" where
  "mm256_mul_pd_fl fl a b = lanewise (\<lambda>x y. fl (x * y)) a b"

definition mm256_add_pd_fl :: "(real \<Rightarrow> real) \<Rightarrow> m256d \<Rightarrow> m256d \<Rightarrow> m256d" where
  "mm256_add_pd_fl fl a b = lanewise (\<lambda>x y. fl (x + y)) a b"

definition mm256_sub_pd_fl :: "(real \<Rightarrow> real) \<Rightarrow> m256d \<Rightarrow> m256d \<Rightarrow> m256d" where
  "mm256_sub_pd_fl fl a b = lanewise (\<lambda>x y. fl (x - y)) a b"

definition AVX_mask_fl :: "(real \<Rightarrow> real) \<Rightarrow> lanes \<Rightarrow> m256i" where
  "AVX_mask_fl fl s =
     (let zr2 = mm256_mul_pd_fl fl (lane_zr s) (lane_zr s);
          zi2 = mm256_mul_pd_fl fl (lane_zi s) (lane_zi s);
          abs = mm256_add_pd_fl fl zr2 zi2
      in mm256_cmp_pd_LT_OQ abs (mm256_set1 4))"

definition AVX_advance_fl :: "(real \<Rightarrow> real) \<Rightarrow> m256d \<Rightarrow> m256d \<Rightarrow> lanes \<Rightarrow> lanes" where
  "AVX_advance_fl fl ca cb s =
     (let zr2 = mm256_mul_pd_fl fl (lane_zr s) (lane_zr s);
          zi2 = mm256_mul_pd_fl fl (lane_zi s) (lane_zi s);
          zi' = mm256_add_pd_fl fl
                  (mm256_mul_pd_fl fl (mm256_set1 2)
                     (mm256_mul_pd_fl fl (lane_zr s) (lane_zi s))) cb;
          zr' = mm256_add_pd_fl fl (mm256_sub_pd_fl fl zr2 zi2) ca
      in \<lparr>lane_zr = zr', lane_zi = zi',
          lane_count = mm256_add_epi64 (lane_count s) (mm256_set1 1)\<rparr>)"

function AVX_for_fl ::
  "(real \<Rightarrow> real) \<Rightarrow> int \<Rightarrow> m256d \<Rightarrow> m256d \<Rightarrow> int \<Rightarrow> lanes \<Rightarrow> lanes" where
  "AVX_for_fl fl max_iterations ca cb k s =
     (if k < max_iterations
      then (if mm256_testz_si256 (AVX_mask_fl fl s) (AVX_mask_fl fl s) then s
            else AVX_for_fl fl max_iterations ca cb (k + 1) (AVX_advance_fl fl ca cb s))
      else s)"
  by pat_completeness auto
termination
  by (relation "measure (\<lambda>(fl, max_iterations, ca, cb, k, s). nat (max_iterations - k))") auto

declare AVX_for_fl.simps [simp del]

definition AVX_batch_fl :: "(real \<Rightarrow> real) \<Rightarrow> int \<Rightarrow> m256d \<Rightarrow> m256d \<Rightarrow> lanes" where
  "AVX_batch_fl fl max_iterations ca cb = AVX_for_fl fl max_iterations ca cb 0 lanes_init"

text \<open>
  The two scalar functions once more. \<^verbatim>\<open>std::norm\<close> is \<^verbatim>\<open>x * x + y * y\<close>, two rounded
  products and their rounded sum; \<^verbatim>\<open>z * z\<close> is two rounded products and their rounded
  difference for the real part, two rounded products and their rounded sum for the
  imaginary part; \<^verbatim>\<open>+ c\<close> is one rounded sum in each part; \<^verbatim>\<open>std::abs\<close> is the magnitude,
  rounded once.
\<close>

definition std_norm_fl :: "(real \<Rightarrow> real) \<Rightarrow> complex \<Rightarrow> real" where
  "std_norm_fl fl z = fl (fl (Re z * Re z) + fl (Im z * Im z))"

definition complex_times_fl :: "(real \<Rightarrow> real) \<Rightarrow> complex \<Rightarrow> complex \<Rightarrow> complex" where
  "complex_times_fl fl z w =
     Complex (fl (fl (Re z * Re w) - fl (Im z * Im w)))
             (fl (fl (Re z * Im w) + fl (Im z * Re w)))"

definition complex_plus_fl :: "(real \<Rightarrow> real) \<Rightarrow> complex \<Rightarrow> complex \<Rightarrow> complex" where
  "complex_plus_fl fl z w = Complex (fl (Re z + Re w)) (fl (Im z + Im w))"

function mandelbrot_while_fl ::
  "(real \<Rightarrow> real) \<Rightarrow> int \<Rightarrow> complex \<Rightarrow> complex \<Rightarrow> int \<Rightarrow> int" where
  "mandelbrot_while_fl fl cap c z iter =
     (if std_norm_fl fl z \<le> 4 \<and> iter < cap
      then mandelbrot_while_fl fl cap c (complex_plus_fl fl (complex_times_fl fl z z) c) (iter + 1)
      else iter)"
  by pat_completeness auto
termination
  by (relation "measure (\<lambda>(fl, cap, c, z, iter). nat (cap - iter))") auto

declare mandelbrot_while_fl.simps [simp del]

definition mandelbrot_fl :: "(real \<Rightarrow> real) \<Rightarrow> config \<Rightarrow> complex \<Rightarrow> int" where
  "mandelbrot_fl fl cfg c = mandelbrot_while_fl fl (MAX_ITER cfg) c 0 0"

function mandelbrot_abs_while_fl ::
  "(real \<Rightarrow> real) \<Rightarrow> int \<Rightarrow> complex \<Rightarrow> complex \<Rightarrow> int \<Rightarrow> int" where
  "mandelbrot_abs_while_fl fl cap c z iterations =
     (if fl (cmod z) < 2 \<and> iterations < cap
      then mandelbrot_abs_while_fl fl cap c (complex_plus_fl fl (complex_times_fl fl z z) c)
             (iterations + 1)
      else iterations)"
  by pat_completeness auto
termination
  by (relation "measure (\<lambda>(fl, cap, c, z, iterations). nat (cap - iterations))") auto

declare mandelbrot_abs_while_fl.simps [simp del]

definition mandelbrot_abs_fl :: "(real \<Rightarrow> real) \<Rightarrow> int \<Rightarrow> complex \<Rightarrow> int" where
  "mandelbrot_abs_fl fl max_iter c = mandelbrot_abs_while_fl fl max_iter c 0 0"

section \<open>The work partition of MBThreadsAndAVX.cpp\<close>

text \<open>
  \<^verbatim>\<open>int rows_per_thread = SCREEN_HEIGHT / THREAD_COUNT;\<close>
  \<^verbatim>\<open>int startY = i * rows_per_thread;\<close>
  \<^verbatim>\<open>int endY = (i == THREAD_COUNT - 1) ? SCREEN_HEIGHT : (i + 1) * rows_per_thread;\<close>
  The division of C truncates.
\<close>

definition rows_per_thread :: "config \<Rightarrow> int" where
  "rows_per_thread cfg = SCREEN_HEIGHT cfg sdiv THREAD_COUNT cfg"

definition thread_startY :: "config \<Rightarrow> int \<Rightarrow> int" where
  "thread_startY cfg i = i * rows_per_thread cfg"

definition thread_endY :: "config \<Rightarrow> int \<Rightarrow> int" where
  "thread_endY cfg i =
     (if i = THREAD_COUNT cfg - 1 then SCREEN_HEIGHT cfg else (i + 1) * rows_per_thread cfg)"

text \<open>
  \<^verbatim>\<open>mandelbrotThreads\<close> starts one thread per range and joins them all. The threads are
  run here one after the other, in the order of their creation.
\<close>

function threads_for :: "config \<Rightarrow> (int \<Rightarrow> int \<Rightarrow> pixels \<Rightarrow> pixels) \<Rightarrow> int \<Rightarrow> pixels \<Rightarrow> pixels" where
  "threads_for cfg worker i px =
     (if i < THREAD_COUNT cfg
      then threads_for cfg worker (i + 1) (worker (thread_startY cfg i) (thread_endY cfg i) px)
      else px)"
  by pat_completeness auto
termination
  by (relation "measure (\<lambda>(cfg, worker, i, px). nat (THREAD_COUNT cfg - i))") auto

declare threads_for.simps [simp del]

definition mandelbrotThreads ::
  "config \<Rightarrow> real \<Rightarrow> real \<Rightarrow> real \<Rightarrow> int \<Rightarrow> pixels \<Rightarrow> int \<Rightarrow> pixels" where
  "mandelbrotThreads cfg offsetX offsetY zoom max_iterations px bytesPerRow =
     threads_for cfg
       (\<lambda>startY endY p.
          mandelbrotAVX cfg offsetX offsetY zoom max_iterations p bytesPerRow startY endY)
       0 px"

section \<open>The kernel of MBAVXReal.cpp\<close>

text \<open>
  The registers are globals, all assigned in \<^verbatim>\<open>mandelbrotAVX\<close> before they are read:
  \<^verbatim>\<open>_iter = _mm256_set1_epi64x(max_iterations)\<close>, \<^verbatim>\<open>_zr = _zi = 0\<close> and
  \<^verbatim>\<open>_n = _mm256_setzero_si256()\<close> for every batch. One pass of the loop assigns \<open>z\<close>
  first and tests afterwards, on the squares of the old \<open>z\<close>; \<open>mask2\<close> is the lane's
  "still iterating" flag, and the counter \<^verbatim>\<open>_n\<close> grows by \<open>1 AND mask2\<close>.
\<close>

definition AVXReal_pass :: "int \<Rightarrow> m256d \<Rightarrow> m256d \<Rightarrow> lanes \<Rightarrow> m256i \<times> lanes" where
  "AVXReal_pass max_iterations ca cb s =
     (let iter = mm256_set1 max_iterations;
          zr2 = mm256_mul_pd (lane_zr s) (lane_zr s);
          zi2 = mm256_mul_pd (lane_zi s) (lane_zi s);
          a = mm256_sub_pd zr2 zi2;
          a = mm256_add_pd a ca;
          b = mm256_mul_pd (lane_zr s) (lane_zi s);
          b = mm256_fmadd_pd (mm256_set1 2) b cb;
          zr = a;
          zi = b;
          a = mm256_add_pd zr2 zi2;
          mask1 = mm256_cmp_pd_LT_OQ a (mm256_set1 4);
          mask2 = mm256_cmpgt_epi64 iter (lane_count s);
          mask2 = mm256_and_si256 mask2 mask1;
          c = mm256_and_si256 (mm256_set1 1) mask2;
          n = mm256_add_epi64 (lane_count s) c
      in (mask2, \<lparr>lane_zr = zr, lane_zi = zi, lane_count = n\<rparr>))"

text \<open>
  \<^verbatim>\<open>for (int iter = 0; iter < MAX_ITER; iter++) { ...; if (testz) break; }\<close>: the bound
  is the constant, not the parameter \<^verbatim>\<open>max_iterations\<close>.
\<close>

function AVXReal_for :: "config \<Rightarrow> int \<Rightarrow> m256d \<Rightarrow> m256d \<Rightarrow> int \<Rightarrow> lanes \<Rightarrow> lanes" where
  "AVXReal_for cfg max_iterations ca cb iter s =
     (if iter < MAX_ITER cfg
      then (let (mask2, s') = AVXReal_pass max_iterations ca cb s
            in if mm256_testz_si256 mask2 mask2 then s'
               else AVXReal_for cfg max_iterations ca cb (iter + 1) s')
      else s)"
  by pat_completeness auto
termination
  by (relation "measure (\<lambda>(cfg, max_iterations, ca, cb, iter, s). nat (MAX_ITER cfg - iter))") auto

declare AVXReal_for.simps [simp del]

definition AVXReal_batch :: "config \<Rightarrow> int \<Rightarrow> m256d \<Rightarrow> m256d \<Rightarrow> lanes" where
  "AVXReal_batch cfg max_iterations ca cb =
     AVXReal_for cfg max_iterations ca cb 0
       \<lparr>lane_zr = mm256_setzero_pd, lane_zi = mm256_setzero_pd,
        lane_count = mm256_setzero_si256\<rparr>"

text \<open>
  \<^verbatim>\<open>Color color1 = getColor(int(_n[3]));\<close> ... \<^verbatim>\<open>Color color4 = getColor(int(_n[0]));\<close>
  \<^verbatim>\<open>pixels[i * (bytesPerRow / 4) + j + 0] = (color1 ...);\<close> ...
  \<^verbatim>\<open>pixels[i * (bytesPerRow / 4) + j + 3] = (color4 ...);\<close>
\<close>

definition AVXReal_batch_stores :: "config \<Rightarrow> int \<Rightarrow> int \<Rightarrow> m256i \<Rightarrow> pixel_store list" where
  "AVXReal_batch_stores cfg i j n =
     (let color1 = getColor cfg (elem n 3);
          color2 = getColor cfg (elem n 2);
          color3 = getColor cfg (elem n 1);
          color4 = getColor cfg (elem n 0)
      in [\<lparr>st_row = i, st_col = j + 0, st_val = pack_rgba color1\<rparr>,
          \<lparr>st_row = i, st_col = j + 1, st_val = pack_rgba color2\<rparr>,
          \<lparr>st_row = i, st_col = j + 2, st_val = pack_rgba color3\<rparr>,
          \<lparr>st_row = i, st_col = j + 3, st_val = pack_rgba color4\<rparr>])"

definition AVXReal_stores ::
  "config \<Rightarrow> real \<Rightarrow> real \<Rightarrow> real \<Rightarrow> int \<Rightarrow> pixel_store list" where
  "AVXReal_stores cfg offsetX offsetY zoom max_iterations =
     for_rows (SCREEN_HEIGHT cfg)
       (\<lambda>i. for_cols (SCREEN_WIDTH cfg)
          (\<lambda>j. AVXReal_batch_stores cfg i j
                 (lane_count (AVXReal_batch cfg max_iterations (batch_ca cfg offsetX zoom j)
                                                                (batch_cb cfg offsetY zoom i))))
          0)
       0"

definition AVXReal_mandelbrotAVX ::
  "config \<Rightarrow> real \<Rightarrow> real \<Rightarrow> real \<Rightarrow> int \<Rightarrow> pixels \<Rightarrow> int \<Rightarrow> pixels" where
  "AVXReal_mandelbrotAVX cfg offsetX offsetY zoom max_iterations px bytesPerRow =
     write_pixels bytesPerRow px (AVXReal_stores cfg offsetX offsetY zoom max_iterations)"

section \<open>The kernel of MandelbrotSDL2.cpp\<close>

text \<open>
  The registers are globals here too. Everything between the label \<^verbatim>\<open>repeat:\<close> and
  \<^verbatim>\<open>goto repeat\<close> is one pass: it assigns \<^verbatim>\<open>_iter\<close>, \<^verbatim>\<open>_ca\<close>, \<^verbatim>\<open>_cb\<close>, sets
  \<^verbatim>\<open>_zr\<close> and \<^verbatim>\<open>_zi\<close> to zero, computes one step of the recurrence and the two masks,
  and adds \<open>1 AND mask2\<close> to \<^verbatim>\<open>_n\<close>. The register \<^verbatim>\<open>_n\<close> is the only one read
  before it is assigned, and no statement of the function assigns it anything but
  \<^verbatim>\<open>_mm256_add_epi64(_n, _c)\<close>: it is the state that a pass receives and returns.
\<close>

definition SDL2_pass :: "int \<Rightarrow> m256d \<Rightarrow> m256d \<Rightarrow> m256i \<Rightarrow> m256i \<times> lanes" where
  "SDL2_pass iterations ca cb n =
     (let iter = mm256_set1 iterations;
          zr = mm256_setzero_pd;
          zi = mm256_setzero_pd;
          zr2 = mm256_mul_pd zr zr;
          zi2 = mm256_mul_pd zi zi;
          a = mm256_sub_pd zr2 zi2;
          a = mm256_add_pd a ca;
          b = mm256_mul_pd zr zi;
          b = mm256_fmadd_pd b (mm256_set1 2) cb;
          zr = a;
          zi = b;
          a = mm256_add_pd zr2 zi2;
          mask1 = mm256_cmp_pd_LT_OQ a (mm256_set1 4);
          mask2 = mm256_cmpgt_epi64 iter n;
          mask2 = mm256_and_si256 mask2 mask1;
          c = mm256_and_si256 (mm256_set1 1) mask2;
          n = mm256_add_epi64 n c
      in (mask2, \<lparr>lane_zr = zr, lane_zi = zi, lane_count = n\<rparr>))"

text \<open>\<^verbatim>\<open>repeat: ...; if (_mm256_movemask_pd(_mm256_castsi256_pd(_mask2)) > 0) goto repeat;\<close>\<close>

function SDL2_repeat :: "int \<Rightarrow> m256d \<Rightarrow> m256d \<Rightarrow> m256i \<Rightarrow> lanes" where
  "SDL2_repeat iterations ca cb n =
     (let (mask2, s) = SDL2_pass iterations ca cb n
      in if mm256_movemask_pd mask2 > 0 then SDL2_repeat iterations ca cb (lane_count s)
         else s)"
  by pat_completeness auto
termination
proof (relation "measure (\<lambda>(iterations, ca, cb, n).
         nat (iterations - e0 n) + nat (iterations - e1 n)
       + nat (iterations - e2 n) + nat (iterations - e3 n))", goal_cases)
  case 1
  show ?case by simp
next
  case (2 iterations ca cb n x mask2 s)
  obtain n0 n1 n2 n3 where n: "n = M256 n0 n1 n2 n3" by (cases n)
  have p: "SDL2_pass iterations ca cb n =
      (M256 (if n0 < iterations then - 1 else 0) (if n1 < iterations then - 1 else 0)
            (if n2 < iterations then - 1 else 0) (if n3 < iterations then - 1 else 0),
       \<lparr>lane_zr = ca, lane_zi = cb,
        lane_count = M256 (if n0 < iterations then n0 + 1 else n0)
                          (if n1 < iterations then n1 + 1 else n1)
                          (if n2 < iterations then n2 + 1 else n2)
                          (if n3 < iterations then n3 + 1 else n3)\<rparr>)"
    by (cases ca; cases cb) (simp add: SDL2_pass_def n lanewise_def mm256_set1_def mm256_setzero_pd_def
          mm256_mul_pd_def mm256_add_pd_def mm256_sub_pd_def mm256_fmadd_pd_def
          mm256_cmp_pd_LT_OQ_def mm256_cmpgt_epi64_def mm256_and_si256_def mm256_add_epi64_def)
  define f where "f = (\<lambda>x. if x < iterations then x + 1 else x)"
  from 2 p have m: "mask2 = M256 (if n0 < iterations then - 1 else 0) (if n1 < iterations then - 1 else 0)
            (if n2 < iterations then - 1 else 0) (if n3 < iterations then - 1 else 0)"
    and s: "lane_count s = M256 (f n0) (f n1) (f n2) (f n3)"
    by (simp_all add: f_def)
  have le: "nat (iterations - f y) \<le> nat (iterations - y)" for y
    unfolding f_def by (cases "y < iterations") simp_all
  have less: "y < iterations \<Longrightarrow> nat (iterations - f y) < nat (iterations - y)" for y
    unfolding f_def by simp
  have "0 < mm256_movemask_pd mask2" using 2 by simp
  then have "n0 < iterations \<or> n1 < iterations \<or> n2 < iterations \<or> n3 < iterations"
    unfolding m mm256_movemask_pd_def m256.sel by (simp split: if_splits)
  then have "nat (iterations - f n0) + nat (iterations - f n1) + nat (iterations - f n2)
        + nat (iterations - f n3)
      < nat (iterations - n0) + nat (iterations - n1) + nat (iterations - n2)
        + nat (iterations - n3)"
  proof (elim disjE)
    assume "n0 < iterations"
    from less[OF this] le[of n1] le[of n2] le[of n3] show ?thesis by linarith
  next
    assume "n1 < iterations"
    from less[OF this] le[of n0] le[of n2] le[of n3] show ?thesis by linarith
  next
    assume "n2 < iterations"
    from less[OF this] le[of n0] le[of n1] le[of n3] show ?thesis by linarith
  next
    assume "n3 < iterations"
    from less[OF this] le[of n0] le[of n1] le[of n2] show ?thesis by linarith
  qed
  then show ?case
    unfolding s n by simp
qed

declare SDL2_repeat.simps [simp del]

text \<open>The two grid loops, threading a state through the batches.\<close>

function for_cols_st :: "int \<Rightarrow> (int \<Rightarrow> 's \<Rightarrow> 's) \<Rightarrow> int \<Rightarrow> 's \<Rightarrow> 's" where
  "for_cols_st w body j s = (if j < w then for_cols_st w body (j + 4) (body j s) else s)"
  by pat_completeness auto
termination
  by (relation "measure (\<lambda>(w, body, j, s). nat (w - j))") auto

declare for_cols_st.simps [simp del]

function for_rows_st :: "int \<Rightarrow> (int \<Rightarrow> 's \<Rightarrow> 's) \<Rightarrow> int \<Rightarrow> 's \<Rightarrow> 's" where
  "for_rows_st endY body i s = (if i < endY then for_rows_st endY body (i + 1) (body i s) else s)"
  by pat_completeness auto
termination
  by (relation "measure (\<lambda>(endY, body, i, s). nat (endY - i))") auto

declare for_rows_st.simps [simp del]

text \<open>The global \<^verbatim>\<open>_n\<close> and the stores performed so far.\<close>

record SDL2_state =
  global_n :: m256i
  stores :: "pixel_store list"

text \<open>A global without initialiser is zero when the program starts.\<close>

definition SDL2_n_at_start :: m256i where
  "SDL2_n_at_start = M256 0 0 0 0"

definition SDL2_batch_stores :: "config \<Rightarrow> int \<Rightarrow> int \<Rightarrow> m256i \<Rightarrow> pixel_store list" where
  "SDL2_batch_stores cfg i j n =
     (let color1 = getColor_SDL2 cfg (elem n 3);
          color2 = getColor_SDL2 cfg (elem n 2);
          color3 = getColor_SDL2 cfg (elem n 1);
          color4 = getColor_SDL2 cfg (elem n 0)
      in [\<lparr>st_row = i, st_col = j + 0, st_val = pack_rgba color1\<rparr>,
          \<lparr>st_row = i, st_col = j + 1, st_val = pack_rgba color2\<rparr>,
          \<lparr>st_row = i, st_col = j + 2, st_val = pack_rgba color3\<rparr>,
          \<lparr>st_row = i, st_col = j + 3, st_val = pack_rgba color4\<rparr>])"

text \<open>The body of the column loop: one batch, from the label to the four stores.\<close>

definition SDL2_batch ::
  "config \<Rightarrow> real \<Rightarrow> real \<Rightarrow> real \<Rightarrow> int \<Rightarrow> int \<Rightarrow> int \<Rightarrow> SDL2_state \<Rightarrow> SDL2_state" where
  "SDL2_batch cfg offsetX offsetY zoom iterations i j st =
     (let s = SDL2_repeat iterations (batch_ca cfg offsetX zoom j) (batch_cb cfg offsetY zoom i)
                (global_n st);
          n = lane_count s
      in \<lparr>global_n = n, stores = stores st @ SDL2_batch_stores cfg i j n\<rparr>)"

text \<open>The call takes the value of the global \<^verbatim>\<open>_n\<close> and returns it with the buffer.\<close>

definition SDL2_mandelbrotAVX ::
  "config \<Rightarrow> real \<Rightarrow> real \<Rightarrow> real \<Rightarrow> int \<Rightarrow> pixels \<Rightarrow> int \<Rightarrow> m256i \<Rightarrow> m256i \<times> pixels" where
  "SDL2_mandelbrotAVX cfg offsetX offsetY zoom iterations px bytesPerRow n =
     (let st = for_rows_st (SCREEN_HEIGHT cfg)
                 (\<lambda>i. for_cols_st (SCREEN_WIDTH cfg)
                         (SDL2_batch cfg offsetX offsetY zoom iterations i) 0)
                 0 \<lparr>global_n = n, stores = []\<rparr>
      in (global_n st, write_pixels bytesPerRow px (stores st)))"

section \<open>The inputs of main and of the end-to-end scenario\<close>

text \<open>
  \<^verbatim>\<open>main\<close> starts with \<^verbatim>\<open>zoom = 1.0\<close>, \<^verbatim>\<open>offsetX = -0.5\<close>, \<^verbatim>\<open>offsetY = 0.0\<close> and calls
  the kernel with \<^verbatim>\<open>MAX_ITER\<close> as the cap.
\<close>

definition initial_zoom :: real where
  "initial_zoom = 1"

definition initial_offsetX :: real where
  "initial_offsetX = - 0.5"

definition initial_offsetY :: real where
  "initial_offsetY = 0"

text \<open>
  The batch of row 285, columns 100 to 103, of the first frame that \<^verbatim>\<open>main\<close> draws, and
  the registers of \<^verbatim>\<open>MBThreadsAndAVX.cpp\<close> after one, two and three passes on it.
\<close>

definition row285_ca :: m256d where
  "row285_ca = batch_ca source_config initial_offsetX initial_zoom 100"

definition row285_cb :: m256d where
  "row285_cb = batch_cb source_config initial_offsetY initial_zoom 285"

definition row285_pass1 :: lanes where
  "row285_pass1 = AVX_advance row285_ca row285_cb lanes_init"

definition row285_pass2 :: lanes where
  "row285_pass2 = AVX_advance row285_ca row285_cb row285_pass1"

definition row285_pass3 :: lanes where
  "row285_pass3 = AVX_advance row285_ca row285_cb row285_pass2"

text \<open>
  \<^verbatim>\<open>MandelbrotSDL2.cpp\<close> when the program starts, and the body of its column loop in
  row 0 of the first frame.
\<close>

definition SDL2_state_at_start :: SDL2_state where
  "SDL2_state_at_start = \<lparr>global_n = SDL2_n_at_start, stores = []\<rparr>"

definition SDL2_first_row_body :: "int \<Rightarrow> SDL2_state \<Rightarrow> SDL2_state" where
  "SDL2_first_row_body =
     SDL2_batch source_config initial_offsetX initial_offsetY initial_zoom (MAX_ITER source_config) 0"

text \<open>A configuration with more threads than rows.\<close>

definition more_threads_than_rows :: config where
  "more_threads_than_rows =
     \<lparr>SCREEN_WIDTH = 800, SCREEN_HEIGHT = 3, MAX_ITER = 1000, THREAD_COUNT = 5\<rparr>"

text \<open>The grid of the end-to-end scenario: 4 columns, 1 row, cap 50.\<close>

definition scenario_config :: config where
  "scenario_config = \<lparr>SCREEN_WIDTH = 4, SCREEN_HEIGHT = 1, MAX_ITER = 50, THREAD_COUNT = 1\<rparr>"

section \<open>Facts about the batch loop of MBThreadsAndAVX.cpp and the scalar functions\<close>

lemmas intrinsics =
  lanewise_def mm256_set1_def mm256_set_pd_def mm256_setzero_pd_def mm256_setzero_si256_def
  mm256_mul_pd_def mm256_add_pd_def mm256_sub_pd_def mm256_fmadd_pd_def mm256_cmp_pd_LT_OQ_def
  mm256_cmpgt_epi64_def mm256_and_si256_def mm256_add_epi64_def mm256_testz_si256_def
  mm256_movemask_pd_def

lemma AVX_batch_cap_le0: "max_iterations \<le> 0 \<Longrightarrow> AVX_batch max_iterations ca cb = lanes_init"
  by (simp add: AVX_batch_def AVX_for.simps)

lemma AVX_first_pass:
  "AVX_advance ca cb lanes_init = \<lparr>lane_zr = ca, lane_zi = cb, lane_count = mm256_set1 1\<rparr>"
  by (cases ca; cases cb) (simp add: AVX_advance_def lanes_init_def intrinsics)

lemma AVX_mask_init: "AVX_mask lanes_init = mm256_set1 (- 1)"
  by (simp add: AVX_mask_def lanes_init_def intrinsics)

lemma AVX_batch_first:
  "1 \<le> max_iterations \<Longrightarrow>
   AVX_batch max_iterations ca cb =
     AVX_for max_iterations ca cb 1 \<lparr>lane_zr = ca, lane_zi = cb, lane_count = mm256_set1 1\<rparr>"
  by (simp add: AVX_batch_def AVX_for.simps[of _ _ _ 0] AVX_mask_init AVX_first_pass
        mm256_testz_si256_def mm256_set1_def)

lemma cmod_gt2_iff: "cmod (Complex x y) > 2 \<longleftrightarrow> x * x + y * y > 4"
proof -
  have "cmod (Complex x y) > 2 \<longleftrightarrow> sqrt (x\<^sup>2 + y\<^sup>2) > sqrt 4"
    by (simp add: cmod_def)
  also have "\<dots> \<longleftrightarrow> x\<^sup>2 + y\<^sup>2 > 4" by (rule real_sqrt_less_iff)
  finally show ?thesis by (simp add: power2_eq_square)
qed

lemma AVX_mask_outside:
  assumes "\<forall>k\<in>{0, 1, 2, 3}. 2 < cmod (Complex (elem ca k) (elem cb k))"
  shows "AVX_mask \<lparr>lane_zr = ca, lane_zi = cb, lane_count = n\<rparr> = mm256_set1 0"
  using assms by (simp add: AVX_mask_def intrinsics elem_def cmod_gt2_iff)

lemma AVX_batch_outside:
  assumes "\<forall>k\<in>{0, 1, 2, 3}. 2 < cmod (Complex (elem ca k) (elem cb k))"
  shows "lane_count (AVX_batch max_iterations ca cb) = mm256_set1 (if 1 \<le> max_iterations then 1 else 0)"
proof (cases "1 \<le> max_iterations")
  case True
  then show ?thesis
    by (simp add: AVX_batch_first AVX_for.simps[of _ _ _ 1] AVX_mask_outside[OF assms]
          mm256_testz_si256_def mm256_set1_def)
next
  case False
  then show ?thesis by (simp add: AVX_batch_cap_le0 lanes_init_def)
qed

lemma mandelbrot_while_outside:
  assumes "cmod c > 2"
  shows "mandelbrot_while cap c 0 0 = (if 1 \<le> cap then 1 else 0)"
proof -
  have n: "std_norm c > 4" using assms cmod_gt2_iff[of "Re c" "Im c"] by (simp add: std_norm_def)
  show ?thesis
  proof (cases "1 \<le> cap")
    case True
    then have "mandelbrot_while cap c 0 0 = mandelbrot_while cap c c 1"
      by (subst mandelbrot_while.simps) (simp add: std_norm_def)
    also have "\<dots> = 1" using n by (subst mandelbrot_while.simps) simp
    finally show ?thesis using True by simp
  next
    case False
    then show ?thesis by (subst mandelbrot_while.simps) simp
  qed
qed

lemma mandelbrot_abs_while_outside:
  assumes "cmod c > 2"
  shows "mandelbrot_abs_while cap c 0 0 = (if 1 \<le> cap then 1 else 0)"
proof (cases "1 \<le> cap")
  case True
  then have "mandelbrot_abs_while cap c 0 0 = mandelbrot_abs_while cap c c 1"
    by (subst mandelbrot_abs_while.simps) simp
  also have "\<dots> = 1" using assms by (subst mandelbrot_abs_while.simps) simp
  finally show ?thesis using True by simp
next
  case False
  then show ?thesis by (subst mandelbrot_abs_while.simps) simp
qed

lemma elem_set1: "elem (mm256_set1 x) k = x"
  by (simp add: elem_def mm256_set1_def)

section \<open>Rounding to binary64\<close>

text \<open>
  Within a binade the rounding is the rounding of the scaled value to an integer; a
  number above 2 is not rounded below 2.
\<close>

lemma binary64_in_binade:
  assumes "2 powi e \<le> \<bar>x\<bar>" "\<bar>x\<bar> < 2 powi (e + 1)"
  shows "binary64 x = of_int (round_even (x / 2 powi (e - 52))) * 2 powi (e - 52)"
proof -
  have x0: "0 < \<bar>x\<bar>" using assms(1) by (smt (verit) zero_less_power_int)
  have p: "2 powr (of_int k) = (2::real) powi k" for k
    by (simp add: powr_real_of_int')
  have "of_int e \<le> log 2 \<bar>x\<bar>"
    using assms(1) x0 by (simp add: le_log_iff p)
  moreover have "log 2 \<bar>x\<bar> < of_int e + 1"
    using assms(2) x0 p[of "e + 1"] by (simp add: log_less_iff)
  ultimately have "\<lfloor>log 2 \<bar>x\<bar>\<rfloor> = e" by (intro floor_unique)
  moreover have "x \<noteq> 0" using x0 by auto
  ultimately show ?thesis by (simp add: binary64_def)
qed

lemma round_even_ge: "of_int n \<le> x \<Longrightarrow> n \<le> round_even x"
  by (auto simp add: round_even_def round_def le_floor_iff)

lemma binary64_ge_2:
  assumes "2 < x"
  shows "2 \<le> binary64 x"
proof -
  define e where "e = \<lfloor>log 2 \<bar>x\<bar>\<rfloor>"
  define u :: real where "u = 2 powi (e - 52)"
  define K :: real where "K = 2 powi 52"
  have x0: "0 < x" "x \<noteq> 0" "\<bar>x\<bar> = x" using assms by simp_all
  have "log 2 2 \<le> log 2 x" using assms by (simp del: log_eq_one)
  then have e1: "1 \<le> e" unfolding e_def x0 by (simp add: le_floor_iff)
  have "of_int e \<le> log 2 x" unfolding e_def x0 by simp
  then have "2 powr (of_int e) \<le> x" using x0 by (simp add: le_log_iff)
  then have ex: "2 powi e \<le> x" by (simp add: powr_real_of_int')
  have pos: "0 < u" by (simp add: u_def)
  have "(2::real) powi e = 2 powi (52 + (e - 52))" by simp
  also have "\<dots> = K * u" unfolding K_def u_def by (rule power_int_add) simp
  finally have Ku: "K * u = 2 powi e" by simp
  have Kint: "K = of_int (2 ^ 52)" by (simp add: K_def)
  have "K \<le> x / u" using ex pos Ku by (simp add: pos_le_divide_eq)
  then have "2 ^ 52 \<le> round_even (x / u)" unfolding Kint by (rule round_even_ge)
  then have "K \<le> of_int (round_even (x / u))" unfolding Kint by (simp only: of_int_le_iff)
  then have "K * u \<le> of_int (round_even (x / u)) * u" using pos by simp
  moreover have "(2::real) powi 1 \<le> 2 powi e" using e1 by (intro power_int_increasing) simp_all
  ultimately have "2 \<le> of_int (round_even (x / u)) * u" unfolding Ku by simp
  then show ?thesis using x0 by (simp add: binary64_def u_def e_def Let_def)
qed

text \<open>The values that the statements below round.\<close>

lemma binary64_0: "binary64 0 = 0"
  by (simp add: binary64_def)

lemma binary64_2: "binary64 2 = 2"
  by (subst binary64_in_binade[of 1]) (simp_all add: round_even_def round_def)

lemma binary64_3: "binary64 3 = 3"
  by (subst binary64_in_binade[of 1]) (simp_all add: round_even_def round_def)

lemma binary64_4: "binary64 4 = 4"
  by (subst binary64_in_binade[of 2]) (simp_all add: round_even_def round_def)

lemma binary64_6: "binary64 6 = 6"
  by (subst binary64_in_binade[of 2]) (simp_all add: round_even_def round_def)

lemma binary64_9: "binary64 9 = 9"
  by (subst binary64_in_binade[of 3]) (simp_all add: round_even_def round_def)

lemma binary64_36: "binary64 36 = 36"
  by (subst binary64_in_binade[of 5]) (simp_all add: round_even_def round_def)

lemma binary64_2m30: "binary64 (1 / 2 ^ 30) = 1 / 2 ^ 30"
  by (subst binary64_in_binade[of "- 30"]) (simp_all add: round_even_def round_def)

lemma binary64_2m29: "binary64 (1 / 2 ^ 29) = 1 / 2 ^ 29"
  by (subst binary64_in_binade[of "- 29"]) (simp_all add: round_even_def round_def)

lemma binary64_2m28: "binary64 (1 / 2 ^ 28) = 1 / 2 ^ 28"
  by (subst binary64_in_binade[of "- 28"]) (simp_all add: round_even_def round_def)

lemma binary64_5_2m30: "binary64 (5 / 2 ^ 30) = 5 / 2 ^ 30"
  by (subst binary64_in_binade[of "- 28"]) (simp_all add: round_even_def round_def)

lemma binary64_2m60: "binary64 (1 / 2 ^ 60) = 1 / 2 ^ 60"
  by (subst binary64_in_binade[of "- 60"]) (simp_all add: round_even_def round_def)

lemma binary64_25_2m60: "binary64 (25 / 2 ^ 60) = 25 / 2 ^ 60"
  by (subst binary64_in_binade[of "- 56"]) (simp_all add: round_even_def round_def)

lemma binary64_above_4: "binary64 (4 + 1 / 2 ^ 60) = 4"
  by (subst binary64_in_binade[of 2]) (simp_all add: round_even_def round_def)

lemma binary64_below_4: "binary64 (4 - 1 / 2 ^ 60) = 4"
  by (subst binary64_in_binade[of 1]) (simp_all add: round_even_def round_def)

lemma binary64_above_36: "binary64 (36 + 25 / 2 ^ 60) = 36"
  by (subst binary64_in_binade[of 5]) (simp_all add: round_even_def round_def)

section \<open>The rounded loop of MBThreadsAndAVX.cpp and the rounded scalar functions\<close>

lemmas intrinsics_fl = mm256_mul_pd_fl_def mm256_add_pd_fl_def mm256_sub_pd_fl_def

lemma AVX_batch_fl_cap_le0:
  "max_iterations \<le> 0 \<Longrightarrow> AVX_batch_fl fl max_iterations ca cb = lanes_init"
  by (simp add: AVX_batch_fl_def AVX_for_fl.simps)

lemma AVX_fl_first_pass:
  assumes "fl 0 = 0" "lanewise (\<lambda>x y. fl x) ca ca = ca" "lanewise (\<lambda>x y. fl x) cb cb = cb"
  shows "AVX_advance_fl fl ca cb lanes_init = \<lparr>lane_zr = ca, lane_zi = cb, lane_count = mm256_set1 1\<rparr>"
  using assms
  by (cases ca; cases cb) (simp add: AVX_advance_fl_def lanes_init_def intrinsics intrinsics_fl)

lemma AVX_mask_fl_init: "fl 0 = 0 \<Longrightarrow> AVX_mask_fl fl lanes_init = mm256_set1 (- 1)"
  by (simp add: AVX_mask_fl_def lanes_init_def intrinsics intrinsics_fl)

lemma AVX_batch_fl_first:
  assumes "fl 0 = 0" "lanewise (\<lambda>x y. fl x) ca ca = ca" "lanewise (\<lambda>x y. fl x) cb cb = cb"
    and "1 \<le> max_iterations"
  shows "AVX_batch_fl fl max_iterations ca cb =
     AVX_for_fl fl max_iterations ca cb 1 \<lparr>lane_zr = ca, lane_zi = cb, lane_count = mm256_set1 1\<rparr>"
  using assms
  by (simp add: AVX_batch_fl_def AVX_for_fl.simps[of _ _ _ _ 0] AVX_mask_fl_init
        AVX_fl_first_pass mm256_testz_si256_def mm256_set1_def)

lemma AVX_mask_fl_outside:
  assumes "\<forall>k\<in>{0, 1, 2, 3}. 4 \<le> std_norm_fl fl (Complex (elem ca k) (elem cb k))"
  shows "AVX_mask_fl fl \<lparr>lane_zr = ca, lane_zi = cb, lane_count = n\<rparr> = mm256_set1 0"
  using assms by (simp add: AVX_mask_fl_def intrinsics intrinsics_fl elem_def std_norm_fl_def)

lemma fixed_lanes:
  assumes "\<forall>k\<in>{0, 1, 2, 3}. fl (elem ca k) = elem ca k"
  shows "lanewise (\<lambda>x y. fl x) ca ca = ca"
  using assms by (cases ca) (simp add: lanewise_def elem_def)

lemma AVX_batch_fl_outside:
  assumes "fl 0 = 0"
    and "\<forall>k\<in>{0, 1, 2, 3}. fl (elem ca k) = elem ca k"
    and "\<forall>k\<in>{0, 1, 2, 3}. fl (elem cb k) = elem cb k"
    and "\<forall>k\<in>{0, 1, 2, 3}. 4 \<le> std_norm_fl fl (Complex (elem ca k) (elem cb k))"
  shows "lane_count (AVX_batch_fl fl max_iterations ca cb)
           = mm256_set1 (if 1 \<le> max_iterations then 1 else 0)"
proof (cases "1 \<le> max_iterations")
  case True
  have "AVX_batch_fl fl max_iterations ca cb =
     AVX_for_fl fl max_iterations ca cb 1 \<lparr>lane_zr = ca, lane_zi = cb, lane_count = mm256_set1 1\<rparr>"
    using assms(1) fixed_lanes[of fl ca, OF assms(2)] fixed_lanes[of fl cb, OF assms(3)] True
    by (rule AVX_batch_fl_first)
  with True show ?thesis
    by (simp add: AVX_for_fl.simps[of _ _ _ _ 1] AVX_mask_fl_outside[of fl ca cb, OF assms(4)]
          mm256_testz_si256_def mm256_set1_def)
next
  case False
  then show ?thesis by (simp add: AVX_batch_fl_cap_le0 lanes_init_def)
qed

lemma first_step_fl:
  assumes "fl 0 = 0" "fl (Re c) = Re c" "fl (Im c) = Im c"
  shows "complex_plus_fl fl (complex_times_fl fl 0 0) c = c"
  using assms by (simp add: complex_plus_fl_def complex_times_fl_def)

lemma mandelbrot_while_fl_first:
  assumes "fl 0 = 0" "fl (Re c) = Re c" "fl (Im c) = Im c" "1 \<le> cap"
  shows "mandelbrot_while_fl fl cap c 0 0 = mandelbrot_while_fl fl cap c c 1"
  using assms
  by (subst mandelbrot_while_fl.simps) (simp add: std_norm_fl_def first_step_fl)

lemma mandelbrot_while_fl_outside:
  assumes "fl 0 = 0" "fl (Re c) = Re c" "fl (Im c) = Im c" "4 < std_norm_fl fl c"
  shows "mandelbrot_while_fl fl cap c 0 0 = (if 1 \<le> cap then 1 else 0)"
proof (cases "1 \<le> cap")
  case True
  have "mandelbrot_while_fl fl cap c c 1 = 1"
    using assms(4) by (subst mandelbrot_while_fl.simps) simp
  with True assms(1,2,3) show ?thesis by (simp add: mandelbrot_while_fl_first)
next
  case False
  then show ?thesis by (subst mandelbrot_while_fl.simps) simp
qed

lemma mandelbrot_abs_while_fl_outside:
  assumes "fl 0 = 0" "fl (Re c) = Re c" "fl (Im c) = Im c" "2 \<le> fl (cmod c)"
  shows "mandelbrot_abs_while_fl fl cap c 0 0 = (if 1 \<le> cap then 1 else 0)"
proof (cases "1 \<le> cap")
  case True
  then have "mandelbrot_abs_while_fl fl cap c 0 0 = mandelbrot_abs_while_fl fl cap c c 1"
    using assms(1,2,3) by (subst mandelbrot_abs_while_fl.simps) (simp add: first_step_fl)
  also have "\<dots> = 1" using assms(4) by (subst mandelbrot_abs_while_fl.simps) simp
  finally show ?thesis using True by simp
next
  case False
  then show ?thesis by (subst mandelbrot_abs_while_fl.simps) simp
qed

text \<open>
  With the identity in place of the rounding, the rounded loop and the rounded scalar
  function are the exact ones.
\<close>

lemma AVX_for_fl_exact: "AVX_for_fl (\<lambda>x. x) max_iterations ca cb k s = AVX_for max_iterations ca cb k s"
proof (induction max_iterations ca cb k s rule: AVX_for.induct)
  case (1 max_iterations ca cb k s)
  have m: "AVX_mask_fl (\<lambda>x. x) s = AVX_mask s" for s
    by (simp add: AVX_mask_fl_def AVX_mask_def intrinsics_fl mm256_mul_pd_def mm256_add_pd_def)
  have a: "AVX_advance_fl (\<lambda>x. x) ca cb s = AVX_advance ca cb s" for s
    by (simp add: AVX_advance_fl_def AVX_advance_def intrinsics_fl mm256_mul_pd_def
          mm256_add_pd_def mm256_sub_pd_def)
  show ?case
    using 1 by (subst AVX_for_fl.simps, subst AVX_for.simps) (simp add: m a)
qed

lemma mandelbrot_while_fl_exact:
  "mandelbrot_while_fl (\<lambda>x. x) cap c z iter = mandelbrot_while cap c z iter"
proof (induction cap c z iter rule: mandelbrot_while.induct)
  case (1 cap c z iter)
  have s: "complex_plus_fl (\<lambda>x. x) (complex_times_fl (\<lambda>x. x) z z) c = z * z + c" for z
    by (simp add: complex_plus_fl_def complex_times_fl_def complex_eq_iff)
  show ?case
    using 1 by (subst mandelbrot_while_fl.simps, subst mandelbrot_while.simps)
      (simp add: s std_norm_fl_def std_norm_def)
qed

text \<open>
  The point \<open>c = (2, 2\<^sup>-\<^sup>3\<^sup>0)\<close> is outside the circle of radius 2: \<open>|c|\<^sup>2 = 4 + 2\<^sup>-\<^sup>6\<^sup>0\<close>. In
  binary64 the sum of the squares is 4.0. The kernel tests \<^verbatim>\<open>< 4\<close> and stops with the
  count 1; the scalar \<^verbatim>\<open>mandelbrot\<close> of the same file tests \<^verbatim>\<open><= 4.0\<close>, goes through the
  loop once more and returns 2.
\<close>

lemma boundary_norm: "std_norm_fl binary64 (Complex 2 (1 / 2 ^ 30)) = 4"
proof -
  have a: "2 * 2 = (4::real)" "(1 / 2 ^ 30) * (1 / 2 ^ 30) = (1 / 2 ^ 60 :: real)" by simp_all
  show ?thesis
    unfolding std_norm_fl_def complex.sel a binary64_4 binary64_2m60 binary64_above_4 ..
qed

lemma boundary_kernel:
  "lane_count (AVX_batch_fl binary64 1000 (mm256_set1 2) (mm256_set1 (1 / 2 ^ 30))) = mm256_set1 1"
proof -
  have fa: "\<forall>k\<in>{0, 1, 2, 3}. binary64 (elem (mm256_set1 2) k) = elem (mm256_set1 2) k"
    by (simp add: elem_set1 binary64_2)
  have fb: "\<forall>k\<in>{0, 1, 2, 3}. binary64 (elem (mm256_set1 (1 / 2 ^ 30)) k) = elem (mm256_set1 (1 / 2 ^ 30)) k"
    unfolding elem_set1 using binary64_2m30 by simp
  have n: "\<forall>k\<in>{0, 1, 2, 3}. 4 \<le> std_norm_fl binary64
             (Complex (elem (mm256_set1 2) k) (elem (mm256_set1 (1 / 2 ^ 30)) k))"
    unfolding elem_set1 boundary_norm by simp
  from AVX_batch_fl_outside[of binary64 _ _ 1000, OF binary64_0 fa fb n] show ?thesis by simp
qed

lemma boundary_second_step:
  "complex_plus_fl binary64
     (complex_times_fl binary64 (Complex 2 (1 / 2 ^ 30)) (Complex 2 (1 / 2 ^ 30)))
     (Complex 2 (1 / 2 ^ 30)) = Complex 6 (5 / 2 ^ 30)"
proof -
  have a: "(1 / 2 ^ 30) * (1 / 2 ^ 30) = (1 / 2 ^ 60 :: real)"
    "2 * (1 / 2 ^ 30) = (1 / 2 ^ 29 :: real)" "(1 / 2 ^ 30) * 2 = (1 / 2 ^ 29 :: real)"
    "1 / 2 ^ 29 + 1 / 2 ^ 29 = (1 / 2 ^ 28 :: real)"
    "1 / 2 ^ 28 + 1 / 2 ^ 30 = (5 / 2 ^ 30 :: real)" "2 * 2 = (4::real)" "4 + 2 = (6::real)"
    by simp_all
  show ?thesis
    unfolding complex_plus_fl_def complex_times_fl_def complex.sel a binary64_4 binary64_2m60
      binary64_below_4 binary64_2m29 binary64_2m28 binary64_6 binary64_5_2m30 ..
qed

lemma boundary_second_norm: "std_norm_fl binary64 (Complex 6 (5 / 2 ^ 30)) = 36"
proof -
  have a: "6 * 6 = (36::real)" "(5 / 2 ^ 30) * (5 / 2 ^ 30) = (25 / 2 ^ 60 :: real)" by simp_all
  show ?thesis
    unfolding std_norm_fl_def complex.sel a binary64_36 binary64_25_2m60 binary64_above_36 ..
qed

lemma boundary_scalar: "mandelbrot_fl binary64 source_config (Complex 2 (1 / 2 ^ 30)) = 2"
proof -
  let ?c = "Complex 2 (1 / 2 ^ 30)"
  have m: "MAX_ITER source_config = 1000" by (simp add: source_config_def)
  have f: "binary64 (Re ?c) = Re ?c" "binary64 (Im ?c) = Im ?c"
    unfolding complex.sel by (rule binary64_2, rule binary64_2m30)
  have "mandelbrot_while_fl binary64 1000 ?c 0 0 = mandelbrot_while_fl binary64 1000 ?c ?c 1"
    using binary64_0 f by (rule mandelbrot_while_fl_first) simp
  also have "\<dots> = mandelbrot_while_fl binary64 1000 ?c (Complex 6 (5 / 2 ^ 30)) 2"
    by (subst mandelbrot_while_fl.simps) (simp only: boundary_norm boundary_second_step, simp)
  also have "\<dots> = 2"
    by (subst mandelbrot_while_fl.simps) (simp only: boundary_second_norm, simp)
  finally show ?thesis by (simp add: mandelbrot_fl_def m)
qed

lemma three_kernel_cap_one:
  "lane_count (AVX_batch_fl binary64 1 (mm256_set1 3) (mm256_set1 0)) = mm256_set1 1"
proof -
  have n: "std_norm_fl binary64 (Complex 3 0) = 9"
    by (simp add: std_norm_fl_def binary64_0 binary64_9)
  have fa: "\<forall>k\<in>{0, 1, 2, 3}. binary64 (elem (mm256_set1 3) k) = elem (mm256_set1 3) k"
    by (simp add: elem_set1 binary64_3)
  have fb: "\<forall>k\<in>{0, 1, 2, 3}. binary64 (elem (mm256_set1 0) k) = elem (mm256_set1 0) k"
    by (simp add: elem_set1 binary64_0)
  have h: "\<forall>k\<in>{0, 1, 2, 3}. 4 \<le> std_norm_fl binary64
             (Complex (elem (mm256_set1 3) k) (elem (mm256_set1 0) k))"
    by (simp add: elem_set1 n)
  from AVX_batch_fl_outside[of binary64 _ _ 1, OF binary64_0 fa fb h] show ?thesis by simp
qed

section \<open>Sample points outside the circle of radius 2\<close>

text \<open>
  C1, as amended. The arithmetic is that of binary64. For a batch whose four sample
  points all have \<open>|c| > 2\<close> and a squared magnitude that the program computes above 4.0,
  every lane of the batch loop of \<^verbatim>\<open>MBThreadsAndAVX.cpp\<close> returns the count of the
  scalar \<^verbatim>\<open>mandelbrot\<close> (both the one of the same file and the one of \<^verbatim>\<open>Mandelbrot.cpp\<close>)
  for the same \<open>c\<close> and the same cap. That count is 1 when the cap is at least 1 and 0
  otherwise, so it is strictly below the cap exactly when the cap is at least 2. The
  first hypothesis says that the coordinates are \<^verbatim>\<open>double\<close>s.
\<close>

theorem C1_outside_counts:
  assumes "\<forall>k\<in>{0, 1, 2, 3}. binary64 (elem ca k) = elem ca k \<and> binary64 (elem cb k) = elem cb k"
    and "\<forall>k\<in>{0, 1, 2, 3}. 2 < cmod (Complex (elem ca k) (elem cb k))"
    and "\<forall>k\<in>{0, 1, 2, 3}. 4 < std_norm_fl binary64 (Complex (elem ca k) (elem cb k))"
    and "MAX_ITER cfg = maxIter"
    and "k \<in> {0, 1, 2, 3}"
  shows "elem (lane_count (AVX_batch_fl binary64 maxIter ca cb)) k
           = mandelbrot_fl binary64 cfg (Complex (elem ca k) (elem cb k))
       \<and> elem (lane_count (AVX_batch_fl binary64 maxIter ca cb)) k
           = mandelbrot_abs_fl binary64 maxIter (Complex (elem ca k) (elem cb k))
       \<and> elem (lane_count (AVX_batch_fl binary64 maxIter ca cb)) k = (if 1 \<le> maxIter then 1 else 0)
       \<and> (elem (lane_count (AVX_batch_fl binary64 maxIter ca cb)) k < maxIter \<longleftrightarrow> 2 \<le> maxIter)"
proof -
  let ?c = "Complex (elem ca k) (elem cb k)"
  from assms(1) have fa: "\<forall>k\<in>{0, 1, 2, 3}. binary64 (elem ca k) = elem ca k"
    and fb: "\<forall>k\<in>{0, 1, 2, 3}. binary64 (elem cb k) = elem cb k" by simp_all
  from assms(3) have n: "\<forall>k\<in>{0, 1, 2, 3}. 4 \<le> std_norm_fl binary64 (Complex (elem ca k) (elem cb k))"
    by (simp add: less_imp_le)
  have kernel: "elem (lane_count (AVX_batch_fl binary64 maxIter ca cb)) k = (if 1 \<le> maxIter then 1 else 0)"
    using AVX_batch_fl_outside[of binary64 ca cb maxIter, OF binary64_0 fa fb n]
    by (simp add: elem_set1)
  from fa fb assms(5) have f: "binary64 (Re ?c) = Re ?c" "binary64 (Im ?c) = Im ?c" by auto
  from assms(3,5) have "4 < std_norm_fl binary64 ?c" by blast
  with f have scalar: "mandelbrot_fl binary64 cfg ?c = (if 1 \<le> maxIter then 1 else 0)"
    unfolding mandelbrot_fl_def assms(4) by (intro mandelbrot_while_fl_outside binary64_0)
  from assms(2,5) have "2 < cmod ?c" by blast
  then have "2 \<le> binary64 (cmod ?c)" by (rule binary64_ge_2)
  with f have scalar_abs: "mandelbrot_abs_fl binary64 maxIter ?c = (if 1 \<le> maxIter then 1 else 0)"
    unfolding mandelbrot_abs_fl_def by (intro mandelbrot_abs_while_fl_outside binary64_0)
  show ?thesis unfolding kernel scalar scalar_abs by simp arith
qed

text \<open>
  The statement at the cap of the source, 1000, for the batch \<open>c = 3\<close> in all four lanes,
  whose squared magnitude is computed as 9.
\<close>

theorem C1_outside_counts_witness:
  "binary64 (elem (mm256_set1 3) 0) = elem (mm256_set1 3) 0
   \<and> binary64 (elem (mm256_set1 0) 0) = elem (mm256_set1 0) 0
   \<and> 2 < cmod (Complex (elem (mm256_set1 3) 0) (elem (mm256_set1 0) 0))
   \<and> 4 < std_norm_fl binary64 (Complex (elem (mm256_set1 3) 0) (elem (mm256_set1 0) 0))
   \<and> MAX_ITER source_config = 1000 \<and> (0::int) \<in> {0, 1, 2, 3}
   \<and> elem (lane_count (AVX_batch_fl binary64 1000 (mm256_set1 3) (mm256_set1 0))) 0
       = mandelbrot_fl binary64 source_config (Complex 3 0)
   \<and> elem (lane_count (AVX_batch_fl binary64 1000 (mm256_set1 3) (mm256_set1 0))) 0
       = mandelbrot_abs_fl binary64 1000 (Complex 3 0)
   \<and> elem (lane_count (AVX_batch_fl binary64 1000 (mm256_set1 3) (mm256_set1 0))) 0 = 1
   \<and> elem (lane_count (AVX_batch_fl binary64 1000 (mm256_set1 3) (mm256_set1 0))) 0 < 1000"
proof -
  have n: "std_norm_fl binary64 (Complex 3 0) = 9"
    by (simp add: std_norm_fl_def binary64_0 binary64_9)
  have h1: "\<forall>k\<in>{0, 1, 2, 3}. binary64 (elem (mm256_set1 3) k) = elem (mm256_set1 3) k
              \<and> binary64 (elem (mm256_set1 0) k) = elem (mm256_set1 0) k"
    by (simp add: elem_set1 binary64_0 binary64_3)
  have h2: "\<forall>k\<in>{0, 1, 2, 3}. 2 < cmod (Complex (elem (mm256_set1 3) k) (elem (mm256_set1 0) k))"
    by (simp add: elem_set1 cmod_gt2_iff)
  have h3: "\<forall>k\<in>{0, 1, 2, 3}. 4 < std_norm_fl binary64 (Complex (elem (mm256_set1 3) k) (elem (mm256_set1 0) k))"
    by (simp add: elem_set1 n)
  have h4: "MAX_ITER source_config = 1000" by (simp add: source_config_def)
  have h5: "(0::int) \<in> {0, 1, 2, 3}" by simp
  show ?thesis
    using C1_outside_counts[OF h1 h2 h3 h4 h5] h4
    by (simp add: elem_set1 cmod_gt2_iff n binary64_0 binary64_3)
qed

text \<open>
  With the cap 1 the count of a point outside the circle is 1, which is not below the
  cap: "strictly less than maxIter for every maxIter" fails. At \<open>c = (2, 2\<^sup>-\<^sup>3\<^sup>0)\<close>, outside
  the circle, with the cap 1000 of the source, the kernel returns 1 and the scalar
  \<^verbatim>\<open>mandelbrot\<close> of the same file returns 2: "equals the count of the scalar" fails.
\<close>

theorem C1_outside_counterexample:
  "2 < cmod (Complex 3 0) \<and> (0::int) \<le> 1
   \<and> \<not> elem (lane_count (AVX_batch 1 (mm256_set1 3) (mm256_set1 0))) 0 < 1
   \<and> \<not> elem (lane_count (AVX_batch_fl binary64 1 (mm256_set1 3) (mm256_set1 0))) 0 < 1
   \<and> 2 < cmod (Complex 2 (1 / 2 ^ 30)) \<and> (0::int) \<le> MAX_ITER source_config
   \<and> binary64 2 = 2 \<and> binary64 (1 / 2 ^ 30) = 1 / 2 ^ 30
   \<and> std_norm_fl binary64 (Complex 2 (1 / 2 ^ 30)) = 4
   \<and> elem (lane_count (AVX_batch_fl binary64 (MAX_ITER source_config)
                          (mm256_set1 2) (mm256_set1 (1 / 2 ^ 30)))) 0 = 1
   \<and> mandelbrot_fl binary64 source_config (Complex 2 (1 / 2 ^ 30)) = 2"
proof -
  have "\<forall>k\<in>{0, 1, 2, 3}. 2 < cmod (Complex (elem (mm256_set1 3) k) (elem (mm256_set1 0) k))"
    by (simp add: elem_set1 cmod_gt2_iff)
  from AVX_batch_outside[OF this, of 1]
  have one: "\<not> elem (lane_count (AVX_batch 1 (mm256_set1 3) (mm256_set1 0))) 0 < 1"
    by (simp add: elem_set1)
  have m: "MAX_ITER source_config = 1000" by (simp add: source_config_def)
  have out: "2 < cmod (Complex 3 0)" "2 < cmod (Complex 2 (1 / 2 ^ 30))"
    by (simp_all add: cmod_gt2_iff)
  show ?thesis
    unfolding m boundary_kernel boundary_scalar boundary_norm three_kernel_cap_one elem_set1
      binary64_2 binary64_2m30
    using one out by simp
qed

section \<open>Facts about the batch loop of MBAVXReal.cpp\<close>

lemma AVXReal_pass_cap_le0:
  assumes "max_iterations \<le> 0"
  shows "AVXReal_pass max_iterations ca cb
           \<lparr>lane_zr = mm256_setzero_pd, lane_zi = mm256_setzero_pd, lane_count = mm256_setzero_si256\<rparr>
         = (M256 0 0 0 0, \<lparr>lane_zr = ca, lane_zi = cb, lane_count = M256 0 0 0 0\<rparr>)"
  using assms by (cases ca; cases cb) (simp add: AVXReal_pass_def intrinsics)

lemma AVXReal_batch_cap_le0:
  assumes "max_iterations \<le> 0" "0 < MAX_ITER cfg"
  shows "AVXReal_batch cfg max_iterations ca cb
         = \<lparr>lane_zr = ca, lane_zi = cb, lane_count = M256 0 0 0 0\<rparr>"
  using assms(2)
  by (simp add: AVXReal_batch_def AVXReal_for.simps[of _ _ _ _ 0] AVXReal_pass_cap_le0[OF assms(1)]
        mm256_testz_si256_def)

lemma AVXReal_first_pass:
  assumes "1 \<le> max_iterations"
  shows "AVXReal_pass max_iterations ca cb
           \<lparr>lane_zr = mm256_setzero_pd, lane_zi = mm256_setzero_pd, lane_count = mm256_setzero_si256\<rparr>
         = (M256 (- 1) (- 1) (- 1) (- 1), \<lparr>lane_zr = ca, lane_zi = cb, lane_count = M256 1 1 1 1\<rparr>)"
  using assms by (cases ca; cases cb) (simp add: AVXReal_pass_def intrinsics)

lemma AVXReal_second_pass_outside:
  assumes "\<forall>k\<in>{0, 1, 2, 3}. 2 < cmod (Complex (elem ca k) (elem cb k))"
  shows "fst (AVXReal_pass max_iterations ca cb \<lparr>lane_zr = ca, lane_zi = cb, lane_count = n\<rparr>)
           = M256 0 0 0 0
       \<and> lane_count (snd (AVXReal_pass max_iterations ca cb \<lparr>lane_zr = ca, lane_zi = cb, lane_count = n\<rparr>))
           = n"
  using assms by (cases n) (simp add: AVXReal_pass_def intrinsics elem_def cmod_gt2_iff)

lemma AVXReal_batch_outside:
  assumes out: "\<forall>k\<in>{0, 1, 2, 3}. 2 < cmod (Complex (elem ca k) (elem cb k))"
    and "1 \<le> max_iterations" "1 \<le> MAX_ITER cfg"
  shows "lane_count (AVXReal_batch cfg max_iterations ca cb) = M256 1 1 1 1"
proof -
  let ?s1 = "\<lparr>lane_zr = ca, lane_zi = cb, lane_count = M256 1 1 1 1\<rparr>"
  have b: "AVXReal_batch cfg max_iterations ca cb = AVXReal_for cfg max_iterations ca cb 1 ?s1"
    using assms(3)
    by (simp add: AVXReal_batch_def AVXReal_for.simps[of _ _ _ _ 0] AVXReal_first_pass[OF assms(2)]
          mm256_testz_si256_def)
  obtain m s where p: "AVXReal_pass max_iterations ca cb ?s1 = (m, s)" by (cases "AVXReal_pass max_iterations ca cb ?s1")
  with AVXReal_second_pass_outside[OF out, of max_iterations "M256 1 1 1 1"]
  have m: "m = M256 0 0 0 0" and s: "lane_count s = M256 1 1 1 1" by simp_all
  show ?thesis
    unfolding b by (simp add: AVXReal_for.simps[of _ _ _ _ 1] p m s mm256_testz_si256_def)
qed

section \<open>A cap that is zero or negative\<close>

text \<open>
  C9, as amended. With a cap that is zero or negative every lane of both batch loops
  returns the count 0. The loop of \<^verbatim>\<open>MBThreadsAndAVX.cpp\<close> runs no pass and leaves \<open>z\<close>
  at zero. The loop of \<^verbatim>\<open>MBAVXReal.cpp\<close> is bounded by the constant \<^verbatim>\<open>MAX_ITER\<close> and
  compares the cap only inside the mask: it runs one pass, which assigns \<open>z = 0\<^sup>2 + c\<close>
  to every lane before the mask stops the counter.
\<close>

theorem C9_nonpositive_cap:
  assumes "max_iterations \<le> 0" and "0 < MAX_ITER cfg"
  shows "lane_count (AVX_batch max_iterations ca cb) = M256 0 0 0 0
       \<and> lane_zr (AVX_batch max_iterations ca cb) = M256 0 0 0 0
       \<and> lane_zi (AVX_batch max_iterations ca cb) = M256 0 0 0 0
       \<and> lane_count (AVXReal_batch cfg max_iterations ca cb) = M256 0 0 0 0
       \<and> lane_zr (AVXReal_batch cfg max_iterations ca cb) = ca
       \<and> lane_zi (AVXReal_batch cfg max_iterations ca cb) = cb"
  using AVXReal_batch_cap_le0[OF assms] AVX_batch_cap_le0[OF assms(1)]
  by (simp add: lanes_init_def mm256_set1_def mm256_setzero_pd_def)

theorem C9_nonpositive_cap_witness:
  "(0::int) \<le> 0 \<and> 0 < MAX_ITER source_config
   \<and> lane_count (AVX_batch 0 (mm256_set1 1) (mm256_set1 0)) = M256 0 0 0 0
   \<and> lane_zr (AVX_batch 0 (mm256_set1 1) (mm256_set1 0)) = M256 0 0 0 0
   \<and> lane_count (AVXReal_batch source_config 0 (mm256_set1 1) (mm256_set1 0)) = M256 0 0 0 0
   \<and> lane_zr (AVXReal_batch source_config 0 (mm256_set1 1) (mm256_set1 0)) = M256 1 1 1 1"
proof -
  have h: "(0::int) \<le> 0" "0 < MAX_ITER source_config" by (simp_all add: source_config_def)
  show ?thesis
    using C9_nonpositive_cap[OF h, of "mm256_set1 1" "mm256_set1 0"] h(2)
    by (simp add: mm256_set1_def)
qed

text \<open>
  The kernel of \<^verbatim>\<open>MBAVXReal.cpp\<close> called with the cap 0 on the batch \<open>c = 1\<close>: the real
  part of \<open>z\<close> is 1 in every lane when the loop ends, not the initial 0.
\<close>

theorem C9_AVXReal_updates_z_counterexample:
  "(0::int) \<le> 0
   \<and> lane_zr (AVXReal_batch source_config 0 (mm256_set1 1) (mm256_set1 0)) \<noteq> mm256_setzero_pd"
proof -
  have "(0::int) \<le> 0" "0 < MAX_ITER source_config" by (simp_all add: source_config_def)
  from AVXReal_batch_cap_le0[OF this] show ?thesis
    by (simp add: mm256_set1_def mm256_setzero_pd_def)
qed

section \<open>The end-to-end scenario\<close>

lemma for_cols_once: "j < w \<Longrightarrow> w \<le> j + 4 \<Longrightarrow> for_cols w body j = body j"
  by (simp add: for_cols.simps[of w body j] for_cols.simps[of w body "j + 4"])

lemma for_rows_once: "i < endY \<Longrightarrow> endY \<le> i + 1 \<Longrightarrow> for_rows endY body i = body i"
  by (simp add: for_rows.simps[of endY body i] for_rows.simps[of endY body "i + 1"])

lemma scenario_ca: "batch_ca scenario_config initial_offsetX initial_zoom 0 = M256 (- 5 / 2) (- 3 / 2) (- 1 / 2) (1 / 2)"
  by (simp add: batch_ca_def sample_re_def scenario_config_def initial_offsetX_def initial_zoom_def mm256_set_pd_def)

lemma scenario_cb: "batch_cb scenario_config initial_offsetY initial_zoom 0 = M256 (- 2) (- 2) (- 2) (- 2)"
  by (simp add: batch_cb_def sample_im_def scenario_config_def initial_offsetY_def initial_zoom_def mm256_set1_def)

lemma scenario_outside:
  "\<forall>k\<in>{0, 1, 2, 3}. 2 < cmod (Complex (elem (batch_ca scenario_config initial_offsetX initial_zoom 0) k)
                                       (elem (batch_cb scenario_config initial_offsetY initial_zoom 0) k))"
  by (simp add: scenario_ca scenario_cb elem_def cmod_gt2_iff)

lemma scenario_scalar:
  assumes "k \<in> {0, 1, 2, 3}"
  shows "mandelbrot scenario_config
           (Complex (sample_re scenario_config initial_offsetX initial_zoom k) (sample_im scenario_config initial_offsetY initial_zoom 0)) = 1"
proof -
  have "2 < cmod (Complex (sample_re scenario_config initial_offsetX initial_zoom k) (sample_im scenario_config initial_offsetY initial_zoom 0))"
    using assms by (auto simp add: sample_re_def sample_im_def scenario_config_def cmod_gt2_iff initial_offsetX_def initial_offsetY_def initial_zoom_def)
  from mandelbrot_while_outside[OF this, of 50] show ?thesis
    by (simp add: mandelbrot_def scenario_config_def)
qed

lemma scenario_AVX_stores:
  "AVX_stores scenario_config initial_offsetX initial_offsetY initial_zoom 50 0 1 =
     map (\<lambda>k. \<lparr>st_row = 0, st_col = k, st_val = pack_rgba (getColor scenario_config 1)\<rparr>) [0, 1, 2, 3]"
proof -
  have w: "SCREEN_WIDTH scenario_config = 4" by (simp add: scenario_config_def)
  show ?thesis
    by (simp add: AVX_stores_def for_rows_once for_cols_once w AVX_batch_outside[OF scenario_outside]
          AVX_batch_stores_def elem_set1)
qed

lemma scenario_AVXReal_stores:
  "AVXReal_stores scenario_config initial_offsetX initial_offsetY initial_zoom 50 =
     map (\<lambda>k. \<lparr>st_row = 0, st_col = k, st_val = pack_rgba (getColor scenario_config 1)\<rparr>) [0, 1, 2, 3]"
proof -
  have w: "SCREEN_WIDTH scenario_config = 4" "SCREEN_HEIGHT scenario_config = 1"
     "1 \<le> MAX_ITER scenario_config" by (simp_all add: scenario_config_def)
  show ?thesis
    by (simp add: AVXReal_stores_def for_rows_once for_cols_once w
          AVXReal_batch_outside[OF scenario_outside _ w(3)]
          AVXReal_batch_stores_def elem_def)
qed

lemma write_four:
  "write_pixels bpr px (map (\<lambda>k. \<lparr>st_row = 0, st_col = k, st_val = v\<rparr>) [0, 1, 2, 3]) =
     px(0 := v, 1 := v, 2 := v, 3 := v)"
  by (simp add: write_pixels_def write_pixel_def pixel_index_def)

text \<open>
  On the grid of 4 columns and 1 row with the cap 50, offset \<open>(-0.5, 0)\<close> and zoom 1, the
  four sample points are \<open>(k - 2.5, -2)\<close>, all outside the circle of radius 2, and the four
  counts are 1. The cell of column \<open>k\<close> then holds, after \<^verbatim>\<open>mandelbrotAVX\<close> of
  \<^verbatim>\<open>MBThreadsAndAVX.cpp\<close> and after \<^verbatim>\<open>mandelbrotAVX\<close> of \<^verbatim>\<open>MBAVXReal.cpp\<close>, the packed
  colour of the count that the scalar \<^verbatim>\<open>mandelbrot\<close> returns for the sample point of
  column \<open>k\<close>. With four equal counts this says nothing about which lane goes to which
  column; the last section looks at a batch whose counts differ.
\<close>

lemma scenario_cells:
  "mandelbrotAVX scenario_config initial_offsetX initial_offsetY initial_zoom 50 px bytesPerRow 0 1 0
     = pack_rgba (getColor scenario_config (mandelbrot scenario_config
         (Complex (sample_re scenario_config initial_offsetX initial_zoom 0) (sample_im scenario_config initial_offsetY initial_zoom 0))))
   \<and> mandelbrotAVX scenario_config initial_offsetX initial_offsetY initial_zoom 50 px bytesPerRow 0 1 1
     = pack_rgba (getColor scenario_config (mandelbrot scenario_config
         (Complex (sample_re scenario_config initial_offsetX initial_zoom 1) (sample_im scenario_config initial_offsetY initial_zoom 0))))
   \<and> mandelbrotAVX scenario_config initial_offsetX initial_offsetY initial_zoom 50 px bytesPerRow 0 1 2
     = pack_rgba (getColor scenario_config (mandelbrot scenario_config
         (Complex (sample_re scenario_config initial_offsetX initial_zoom 2) (sample_im scenario_config initial_offsetY initial_zoom 0))))
   \<and> mandelbrotAVX scenario_config initial_offsetX initial_offsetY initial_zoom 50 px bytesPerRow 0 1 3
     = pack_rgba (getColor scenario_config (mandelbrot scenario_config
         (Complex (sample_re scenario_config initial_offsetX initial_zoom 3) (sample_im scenario_config initial_offsetY initial_zoom 0))))
   \<and> AVXReal_mandelbrotAVX scenario_config initial_offsetX initial_offsetY initial_zoom 50 px bytesPerRow 0
     = pack_rgba (getColor scenario_config (mandelbrot scenario_config
         (Complex (sample_re scenario_config initial_offsetX initial_zoom 0) (sample_im scenario_config initial_offsetY initial_zoom 0))))
   \<and> AVXReal_mandelbrotAVX scenario_config initial_offsetX initial_offsetY initial_zoom 50 px bytesPerRow 1
     = pack_rgba (getColor scenario_config (mandelbrot scenario_config
         (Complex (sample_re scenario_config initial_offsetX initial_zoom 1) (sample_im scenario_config initial_offsetY initial_zoom 0))))
   \<and> AVXReal_mandelbrotAVX scenario_config initial_offsetX initial_offsetY initial_zoom 50 px bytesPerRow 2
     = pack_rgba (getColor scenario_config (mandelbrot scenario_config
         (Complex (sample_re scenario_config initial_offsetX initial_zoom 2) (sample_im scenario_config initial_offsetY initial_zoom 0))))
   \<and> AVXReal_mandelbrotAVX scenario_config initial_offsetX initial_offsetY initial_zoom 50 px bytesPerRow 3
     = pack_rgba (getColor scenario_config (mandelbrot scenario_config
         (Complex (sample_re scenario_config initial_offsetX initial_zoom 3) (sample_im scenario_config initial_offsetY initial_zoom 0))))"
  by (simp add: mandelbrotAVX_def AVXReal_mandelbrotAVX_def scenario_AVX_stores
        scenario_AVXReal_stores write_four scenario_scalar del: list.map)

section \<open>A batch whose lanes leave the circle at different passes\<close>

lemma row285_ca: "row285_ca = M256 (- 2) (- 399 / 200) (- 199 / 100) (- 397 / 200)"
  by (simp add: row285_ca_def batch_ca_def sample_re_def source_config_def mm256_set_pd_def
        initial_offsetX_def initial_zoom_def)

lemma row285_cb: "row285_cb = M256 (- 1 / 10) (- 1 / 10) (- 1 / 10) (- 1 / 10)"
  by (simp add: row285_cb_def batch_cb_def sample_im_def source_config_def mm256_set1_def
        initial_offsetY_def initial_zoom_def)

lemmas AVX_eval = AVX_mask_def AVX_advance_def lanewise_def mm256_set1_def mm256_mul_pd_def
  mm256_add_pd_def mm256_sub_pd_def mm256_cmp_pd_LT_OQ_def mm256_add_epi64_def

lemma row285_pass1:
  "row285_pass1 = \<lparr>lane_zr = M256 (- 2) (- 399 / 200) (- 199 / 100) (- 397 / 200),
                    lane_zi = M256 (- 1 / 10) (- 1 / 10) (- 1 / 10) (- 1 / 10),
                    lane_count = M256 1 1 1 1\<rparr>"
  by (simp add: row285_pass1_def AVX_first_pass mm256_set1_def row285_ca row285_cb)

lemma row285_pass2:
  "row285_pass2 = \<lparr>lane_zr = M256 (199 / 100) (79001 / 40000) (19601 / 10000) (77809 / 40000),
                    lane_zi = M256 (3 / 10) (299 / 1000) (149 / 500) (297 / 1000),
                    lane_count = M256 2 2 2 2\<rparr>"
  by (simp add: row285_pass2_def row285_pass1 row285_ca row285_cb AVX_eval)

lemma row285_pass3:
  "row285_pass3 = \<lparr>lane_zr = M256 (18701 / 10000) (2906116401 / 1600000000)
                                   (176318801 / 100000000) (2737106081 / 1600000000),
                    lane_zi = M256 (547 / 500) (21621299 / 20000000)
                                   (2670549 / 2500000) (21109273 / 20000000),
                    lane_count = M256 3 3 3 3\<rparr>"
  by (simp add: row285_pass3_def row285_pass2 row285_ca row285_cb AVX_eval)

lemma row285_mask1: "AVX_mask row285_pass1 = M256 0 (- 1) (- 1) (- 1)"
  by (simp add: row285_pass1 AVX_eval)

lemma row285_mask2: "AVX_mask row285_pass2 = M256 0 (- 1) (- 1) (- 1)"
  by (simp add: row285_pass2 AVX_eval)

lemma row285_mask3: "AVX_mask row285_pass3 = M256 0 0 0 0"
  by (simp add: row285_pass3 AVX_eval)

lemma row285_batch: "3 < max_iterations \<Longrightarrow> AVX_batch max_iterations row285_ca row285_cb = row285_pass3"
  by (simp add: AVX_batch_def AVX_for.simps[of _ _ _ 0] AVX_for.simps[of _ _ _ 1]
        AVX_for.simps[of _ _ _ 2] AVX_for.simps[of _ _ _ 3] AVX_mask_init
        row285_pass1_def[symmetric] row285_pass2_def[symmetric] row285_pass3_def[symmetric]
        row285_mask1 row285_mask2 row285_mask3 mm256_testz_si256_def mm256_set1_def)

lemma row285_scalar0: "mandelbrot source_config (Complex (e0 row285_ca) (e0 row285_cb)) = 1"
proof -
  have "2 < cmod (Complex (e0 row285_ca) (e0 row285_cb))"
    by (simp add: row285_ca row285_cb cmod_gt2_iff)
  from mandelbrot_while_outside[OF this, of 1000] show ?thesis
    by (simp add: mandelbrot_def source_config_def)
qed

lemmas AVXReal_eval = AVXReal_pass_def lanewise_def mm256_set1_def mm256_mul_pd_def
  mm256_add_pd_def mm256_sub_pd_def mm256_fmadd_pd_def mm256_cmp_pd_LT_OQ_def
  mm256_cmpgt_epi64_def mm256_and_si256_def mm256_add_epi64_def

lemma row285_Real_pass2:
  "AVXReal_pass 1000 row285_ca row285_cb
      \<lparr>lane_zr = row285_ca, lane_zi = row285_cb, lane_count = M256 1 1 1 1\<rparr>
   = (M256 0 (- 1) (- 1) (- 1),
      \<lparr>lane_zr = lane_zr row285_pass2, lane_zi = lane_zi row285_pass2, lane_count = M256 1 2 2 2\<rparr>)"
  by (simp add: row285_pass2 row285_ca row285_cb AVXReal_eval)

lemma row285_Real_pass3:
  "AVXReal_pass 1000 row285_ca row285_cb
      \<lparr>lane_zr = lane_zr row285_pass2, lane_zi = lane_zi row285_pass2, lane_count = M256 1 2 2 2\<rparr>
   = (M256 0 (- 1) (- 1) (- 1),
      \<lparr>lane_zr = lane_zr row285_pass3, lane_zi = lane_zi row285_pass3, lane_count = M256 1 3 3 3\<rparr>)"
  by (simp add: row285_pass2 row285_pass3 row285_ca row285_cb AVXReal_eval)

lemma row285_Real_pass4:
  "fst (AVXReal_pass 1000 row285_ca row285_cb
      \<lparr>lane_zr = lane_zr row285_pass3, lane_zi = lane_zi row285_pass3, lane_count = M256 1 3 3 3\<rparr>)
     = M256 0 0 0 0
   \<and> lane_count (snd (AVXReal_pass 1000 row285_ca row285_cb
      \<lparr>lane_zr = lane_zr row285_pass3, lane_zi = lane_zi row285_pass3, lane_count = M256 1 3 3 3\<rparr>))
     = M256 1 3 3 3"
  by (simp add: row285_pass3 row285_ca row285_cb AVXReal_eval)

lemma row285_Real_batch:
  "lane_count (AVXReal_batch source_config 1000 row285_ca row285_cb) = M256 1 3 3 3"
proof -
  have mi: "MAX_ITER source_config = 1000" by (simp add: source_config_def)
  obtain m s where p: "AVXReal_pass 1000 row285_ca row285_cb
      \<lparr>lane_zr = lane_zr row285_pass3, lane_zi = lane_zi row285_pass3, lane_count = M256 1 3 3 3\<rparr> = (m, s)"
    by (cases "AVXReal_pass 1000 row285_ca row285_cb
      \<lparr>lane_zr = lane_zr row285_pass3, lane_zi = lane_zi row285_pass3, lane_count = M256 1 3 3 3\<rparr>")
  with row285_Real_pass4 have m: "m = M256 0 0 0 0" and s: "lane_count s = M256 1 3 3 3" by simp_all
  show ?thesis
    by (simp add: AVXReal_batch_def mi AVXReal_for.simps[of _ _ _ _ 0] AVXReal_for.simps[of _ _ _ _ 1]
        AVXReal_for.simps[of _ _ _ _ 2] AVXReal_for.simps[of _ _ _ _ 3]
        AVXReal_first_pass row285_Real_pass2 row285_Real_pass3 p m s mm256_testz_si256_def)
qed

text \<open>
  How a pass changes the counters: \<^verbatim>\<open>MBAVXReal.cpp\<close> adds 1 to the lanes whose mask is
  set, \<^verbatim>\<open>MBThreadsAndAVX.cpp\<close> adds 1 to every lane.
\<close>

lemma AVXReal_pass_masked_count:
  "lane_count (snd (AVXReal_pass max_iterations ca cb s))
     = lanewise (\<lambda>m n. if m = 0 then n else n + 1)
         (fst (AVXReal_pass max_iterations ca cb s)) (lane_count s)"
  by (simp add: AVXReal_pass_def Let_def intrinsics)

lemma AVX_advance_unmasked_count:
  "lane_count (AVX_advance ca cb s) = lanewise (\<lambda>n one. n + one) (lane_count s) (mm256_set1 1)"
  by (simp add: AVX_advance_def Let_def intrinsics)

text \<open>
  C2 at the batch of row 285, columns 100 to 103, of the first frame of \<^verbatim>\<open>main\<close> in
  \<^verbatim>\<open>MBThreadsAndAVX.cpp\<close>. Lane 0 holds \<open>c = (-2, -0.1)\<close>. After the first pass its
  counter is 1 and its flag is off (\<open>|z|\<^sup>2 = 4.01\<close>); the other lanes are still on, so the
  loop goes on and the counter of lane 0 becomes 2. Its flag is off again in the next
  pass and the counter becomes 3. The loop ends there with 3 in every lane, where the
  scalar \<^verbatim>\<open>mandelbrot\<close> of the same file returns 1 for the point of lane 0. The loop of
  \<^verbatim>\<open>MBAVXReal.cpp\<close>, which adds \<open>1 AND mask2\<close>, returns 1 for lane 0 and 3 for the others.
\<close>

theorem C2_escaped_lane_keeps_counting:
  "e0 (lane_count row285_pass1) = 1
   \<and> e0 (AVX_mask row285_pass1) = 0
   \<and> \<not> mm256_testz_si256 (AVX_mask row285_pass1) (AVX_mask row285_pass1)
   \<and> e0 (lane_count row285_pass2) = 2
   \<and> e0 (AVX_mask row285_pass2) = 0
   \<and> \<not> mm256_testz_si256 (AVX_mask row285_pass2) (AVX_mask row285_pass2)
   \<and> e0 (lane_count row285_pass3) = 3
   \<and> AVX_batch (MAX_ITER source_config) row285_ca row285_cb = row285_pass3
   \<and> mandelbrot source_config (Complex (e0 row285_ca) (e0 row285_cb)) = 1
   \<and> lane_count (AVXReal_batch source_config (MAX_ITER source_config) row285_ca row285_cb)
       = M256 1 3 3 3"
proof -
  have mi: "MAX_ITER source_config = 1000" by (simp add: source_config_def)
  show ?thesis
    unfolding mi
    by (simp add: row285_mask1 row285_mask2 row285_batch row285_scalar0 row285_Real_batch
          mm256_testz_si256_def)
       (simp add: row285_pass1 row285_pass2 row285_pass3)
qed

section \<open>The colour mapper at its two boundary inputs\<close>

text \<open>
  The value of \<open>sin\<close> at the two phase constants of \<^verbatim>\<open>getColor\<close>, from the Maclaurin
  polynomial of degree 17 and its remainder bound.
\<close>

lemma sin_poly18:
  "(\<Sum>m<18. sin_coeff m * (x::real) ^ m) =
     x - x ^ 3 / 6 + x ^ 5 / 120 - x ^ 7 / 5040 + x ^ 9 / 362880 - x ^ 11 / 39916800
       + x ^ 13 / 6227020800 - x ^ 15 / 1307674368000 + x ^ 17 / 355687428096000"
  by (simp add: eval_nat_numeral sin_coeff_Suc cos_coeff_Suc del: of_nat_Suc)

lemma sin_phase_g: "109 / 127 \<le> sin (2.09439::real) \<and> sin (2.09439::real) < 110 / 127"
proof -
  define P where "P = (\<Sum>m<18. sin_coeff m * (2.09439::real) ^ m)"
  have b: "\<bar>sin (2.09439::real) - P\<bar> \<le> inverse (fact 18) * \<bar>2.09439\<bar> ^ 18"
    unfolding P_def by (rule Maclaurin_sin_bound)
  have e: "inverse (fact 18) * \<bar>2.09439::real\<bar> ^ 18 \<le> 3 / 100000"
    by (simp add: fact_numeral power_divide)
  have p: "866 / 1000 \<le> P \<and> P \<le> 8661 / 10000"
    unfolding P_def sin_poly18
    by (simp add: power_divide)
  from b e p show ?thesis by (simp add: abs_le_iff)
qed

lemma sin_phase_b: "- 110 / 127 \<le> sin (4.18879::real) \<and> sin (4.18879::real) < - 109 / 127"
proof -
  define P where "P = (\<Sum>m<18. sin_coeff m * (4.18879::real) ^ m)"
  have b: "\<bar>sin (4.18879::real) - P\<bar> \<le> inverse (fact 18) * \<bar>4.18879\<bar> ^ 18"
    unfolding P_def by (rule Maclaurin_sin_bound)
  have e: "inverse (fact 18) * \<bar>4.18879::real\<bar> ^ 18 \<le> 3 / 100000"
    by (simp add: fact_numeral power_divide)
  have p: "- 8661 / 10000 \<le> P \<and> P \<le> - 8659 / 10000"
    unfolding P_def sin_poly18
    by (simp add: power_divide)
  from b e p show ?thesis by (simp add: abs_le_iff)
qed

lemma static_cast_uint8_floor:
  "of_int n \<le> x \<Longrightarrow> x < of_int n + 1 \<Longrightarrow> 0 \<le> n \<Longrightarrow> static_cast_uint8 x = word_of_int n"
proof -
  assume a: "of_int n \<le> x" "x < of_int n + 1" "0 \<le> n"
  then have "\<lfloor>x\<rfloor> = n" by (intro floor_unique) simp_all
  moreover have "0 \<le> x" using a by (meson of_int_0_le_iff order_trans)
  ultimately show ?thesis by (simp add: static_cast_uint8_def)
qed

lemma channel_r: "static_cast_uint8 128 = 128"
  by (simp add: static_cast_uint8_def)

lemma channel_g: "static_cast_uint8 (128 + 127 * sin 2.09439) = 237"
  using static_cast_uint8_floor[of 237 "128 + 127 * sin 2.09439"] sin_phase_g by simp

lemma channel_b: "static_cast_uint8 (128 + 127 * sin 4.18879) = 18"
  using static_cast_uint8_floor[of 18 "128 + 127 * sin 4.18879"] sin_phase_b by simp

lemma sqrt3_bounds: "1732 / 1000 < sqrt 3 \<and> sqrt 3 < 17321 / 10000"
proof
  show "1732 / 1000 < sqrt 3" by (rule real_less_rsqrt) (simp add: power2_eq_square)
  show "sqrt 3 < 17321 / 10000" by (rule real_less_lsqrt) (simp_all add: power2_eq_square)
qed

lemma sin_two_thirds_pi: "sin (2 * pi / 3) = sqrt 3 / 2"
proof -
  have "sin (2 * pi / 3) = sin (pi - pi / 3)" by simp
  also have "\<dots> = sqrt 3 / 2" by (simp only: sin_pi_minus sin_60)
  finally show ?thesis .
qed

lemma sin_four_thirds_pi: "sin (4 * pi / 3) = - (sqrt 3 / 2)"
proof -
  have "sin (4 * pi / 3) = sin (pi / 3 + pi)" by simp
  also have "\<dots> = - (sqrt 3 / 2)" by (simp only: sin_periodic_pi sin_60)
  finally show ?thesis .
qed

lemma exact_channel_g: "static_cast_uint8 (128 + 127 * sin (2 * pi / 3)) = 237"
  using static_cast_uint8_floor[of 237 "128 + 127 * sin (2 * pi / 3)"] sqrt3_bounds
  by (simp add: sin_two_thirds_pi)

lemma exact_channel_b: "static_cast_uint8 (128 + 127 * sin (4 * pi / 3)) = 18"
  using static_cast_uint8_floor[of 18 "128 + 127 * sin (4 * pi / 3)"] sqrt3_bounds
  by (simp add: sin_four_thirds_pi)

lemma round_channel_g: "round (128 + 127 * sin (2 * pi / 3)) = 238"
  unfolding sin_two_thirds_pi round_def using sqrt3_bounds by (intro floor_unique) simp_all

lemma getColor_0:
  "MAX_ITER cfg \<noteq> 0 \<Longrightarrow> getColor cfg 0 = \<lparr>color_r = 128, color_g = 237, color_b = 18\<rparr>"
  by (simp add: getColor_def channel_r channel_g[simplified] channel_b[simplified])

lemma getColor_SDL2_0:
  "MAX_ITER cfg \<noteq> 0 \<Longrightarrow> getColor_SDL2 cfg 0 = \<lparr>color_r = 128, color_g = 237, color_b = 18\<rparr>"
  by (simp add: getColor_SDL2_def channel_r channel_g[simplified] channel_b[simplified])

text \<open>
  In \<^verbatim>\<open>MandelbrotSDL2.cpp\<close> the ratio \<^verbatim>\<open>iter / MAX_ITER\<close> is an integer division: it is 0
  for every count below the cap, and every such count gets the colour of the count 0.
\<close>

lemma getColor_SDL2_below_cap:
  assumes "0 \<le> iter" "iter < MAX_ITER cfg"
  shows "getColor_SDL2 cfg iter = \<lparr>color_r = 128, color_g = 237, color_b = 18\<rparr>"
proof -
  have "iter sdiv MAX_ITER cfg = 0" using assms by (simp add: signed_divide_int_def)
  then show ?thesis using assms
    by (simp add: getColor_SDL2_def channel_r channel_g[simplified] channel_b[simplified])
qed

text \<open>
  A channel is \<open>128 + 127 sin _\<close>, between 1 and 255, so the conversion to a byte drops
  its fraction and nothing else.
\<close>

lemma channel_range: "1 \<le> 128 + 127 * sin x \<and> 128 + 127 * sin x \<le> 255" for x :: real
proof -
  have "- 1 \<le> sin x" "sin x \<le> 1" by simp_all
  then show ?thesis by linarith
qed

lemma static_cast_uint8_channel:
  "uint (static_cast_uint8 (128 + 127 * sin x)) = \<lfloor>128 + 127 * sin x\<rfloor>"
proof -
  define v where "v = 128 + 127 * sin x"
  from channel_range[of x] have r: "1 \<le> v" "v \<le> 255" by (simp_all add: v_def)
  then have "1 \<le> \<lfloor>v\<rfloor>" "\<lfloor>v\<rfloor> < 256" by (simp_all add: le_floor_iff floor_less_iff)
  then have "uint (word_of_int \<lfloor>v\<rfloor> :: 8 word) = \<lfloor>v\<rfloor>"
    by (simp add: uint_word_of_int take_bit_int_eq_self)
  with r show ?thesis unfolding v_def[symmetric] by (simp add: static_cast_uint8_def)
qed

lemma getColor_sinusoid:
  assumes "iter \<noteq> MAX_ITER cfg"
  shows "uint (color_r (getColor cfg iter))
           = \<lfloor>128 + 127 * sin (6.28318 * (real_of_int iter / real_of_int (MAX_ITER cfg)) + 0)\<rfloor>"
    and "uint (color_g (getColor cfg iter))
           = \<lfloor>128 + 127 * sin (6.28318 * (real_of_int iter / real_of_int (MAX_ITER cfg)) + 2.09439)\<rfloor>"
    and "uint (color_b (getColor cfg iter))
           = \<lfloor>128 + 127 * sin (6.28318 * (real_of_int iter / real_of_int (MAX_ITER cfg)) + 4.18879)\<rfloor>"
  using assms unfolding getColor_def Let_def
  by (simp_all only: if_False Color.simps static_cast_uint8_channel)

text \<open>
  The red channel at the counts 1 and 3 of the source, where the cap is 1000: the sine of
  a small angle lies between the angle less a sixth of its cube and the angle.
\<close>

lemma sin_small_1: "0 \<le> sin (0.00628318::real) \<and> sin (0.00628318::real) < 1 / 127"
proof
  have "(0.00628318::real) \<le> pi" using pi_ge_two by simp
  then show "0 \<le> sin (0.00628318::real)" by (intro sin_ge_zero) simp_all
  have "sin (0.00628318::real) \<le> 0.00628318" by (intro sin_x_le_x) simp
  then show "sin (0.00628318::real) < 1 / 127" by simp
qed

lemma sin_small_3: "2 / 127 \<le> sin (0.01884954::real) \<and> sin (0.01884954::real) < 3 / 127"
proof
  have "\<bar>sin (0.01884954::real) - (\<Sum>m<3. sin_coeff m * 0.01884954 ^ m)\<bar>
      \<le> inverse (fact 3) * \<bar>0.01884954\<bar> ^ 3"
    by (rule Maclaurin_sin_bound)
  moreover have "(\<Sum>m<3. sin_coeff m * (0.01884954::real) ^ m) = 0.01884954"
    by (simp add: eval_nat_numeral sin_coeff_Suc cos_coeff_Suc del: of_nat_Suc)
  moreover have "inverse (fact 3) * \<bar>0.01884954::real\<bar> ^ 3 \<le> 1 / 100000"
    by (simp add: fact_numeral power_divide)
  ultimately show "2 / 127 \<le> sin (0.01884954::real)" by (simp add: abs_le_iff)
  have "sin (0.01884954::real) \<le> 0.01884954" by (intro sin_x_le_x) simp
  then show "sin (0.01884954::real) < 3 / 127" by simp
qed

lemma red_1: "color_r (getColor source_config 1) = 128"
  using static_cast_uint8_floor[of 128 "128 + 127 * sin 0.00628318"] sin_small_1
  by (simp add: getColor_def source_config_def)

lemma red_3: "color_r (getColor source_config 3) = 130"
  using static_cast_uint8_floor[of 130 "128 + 127 * sin 0.01884954"] sin_small_3
  by (simp add: getColor_def source_config_def)

text \<open>
  C6, as amended. At the cap the colour is black, for every cap. At the count 0, for a
  positive cap, the colour is \<open>(128 + 127 sin 0, 128 + 127 sin(2\<pi>/3), 128 + 127 sin(4\<pi>/3))\<close>
  with the fraction of each channel dropped, which is \<open>(128, 237, 18)\<close>; the constants
  2.09439 and 4.18879 that the code adds in place of \<open>2\<pi>/3\<close> and \<open>4\<pi>/3\<close> give the same
  three bytes. Both variants of \<^verbatim>\<open>getColor\<close> agree on the two inputs. At every other
  count, for a positive cap, \<^verbatim>\<open>getColor\<close> of \<^verbatim>\<open>MBAVXReal.cpp\<close> and \<^verbatim>\<open>MBThreadsAndAVX.cpp\<close>
  returns the three sinusoids of the ratio \<open>t = iter / MAX_ITER\<close>, with the constants
  6.28318, 2.09439 and 4.18879 of the code, each with its fraction dropped.
\<close>

theorem C6_color_boundaries:
  "getColor cfg (MAX_ITER cfg) = \<lparr>color_r = 0, color_g = 0, color_b = 0\<rparr>
   \<and> getColor_SDL2 cfg (MAX_ITER cfg) = \<lparr>color_r = 0, color_g = 0, color_b = 0\<rparr>
   \<and> (0 < MAX_ITER cfg \<longrightarrow>
        getColor cfg 0 = \<lparr>color_r = static_cast_uint8 (128 + 127 * sin 0),
                           color_g = static_cast_uint8 (128 + 127 * sin (2 * pi / 3)),
                           color_b = static_cast_uint8 (128 + 127 * sin (4 * pi / 3))\<rparr>
        \<and> getColor cfg 0 = \<lparr>color_r = 128, color_g = 237, color_b = 18\<rparr>
        \<and> getColor_SDL2 cfg 0 = getColor cfg 0)
   \<and> (0 < MAX_ITER cfg \<and> iter \<noteq> MAX_ITER cfg \<longrightarrow>
        uint (color_r (getColor cfg iter))
          = \<lfloor>128 + 127 * sin (6.28318 * (real_of_int iter / real_of_int (MAX_ITER cfg)) + 0)\<rfloor>
        \<and> uint (color_g (getColor cfg iter))
          = \<lfloor>128 + 127 * sin (6.28318 * (real_of_int iter / real_of_int (MAX_ITER cfg)) + 2.09439)\<rfloor>
        \<and> uint (color_b (getColor cfg iter))
          = \<lfloor>128 + 127 * sin (6.28318 * (real_of_int iter / real_of_int (MAX_ITER cfg)) + 4.18879)\<rfloor>)"
proof (intro conjI impI)
  show "getColor cfg (MAX_ITER cfg) = \<lparr>color_r = 0, color_g = 0, color_b = 0\<rparr>"
    by (simp add: getColor_def)
  show "getColor_SDL2 cfg (MAX_ITER cfg) = \<lparr>color_r = 0, color_g = 0, color_b = 0\<rparr>"
    by (simp add: getColor_SDL2_def)
next
  assume "0 < MAX_ITER cfg"
  then have n: "MAX_ITER cfg \<noteq> 0" by simp
  show "getColor cfg 0 = \<lparr>color_r = 128, color_g = 237, color_b = 18\<rparr>"
    by (rule getColor_0[OF n])
  then show "getColor cfg 0 = \<lparr>color_r = static_cast_uint8 (128 + 127 * sin 0),
                           color_g = static_cast_uint8 (128 + 127 * sin (2 * pi / 3)),
                           color_b = static_cast_uint8 (128 + 127 * sin (4 * pi / 3))\<rparr>"
    by (simp add: exact_channel_g exact_channel_b channel_r)
  show "getColor_SDL2 cfg 0 = getColor cfg 0"
    by (simp add: getColor_0[OF n] getColor_SDL2_0[OF n])
next
  assume "0 < MAX_ITER cfg \<and> iter \<noteq> MAX_ITER cfg"
  then have i: "iter \<noteq> MAX_ITER cfg" by simp
  show "uint (color_r (getColor cfg iter))
          = \<lfloor>128 + 127 * sin (6.28318 * (real_of_int iter / real_of_int (MAX_ITER cfg)) + 0)\<rfloor>"
    by (rule getColor_sinusoid(1)[OF i])
  show "uint (color_g (getColor cfg iter))
          = \<lfloor>128 + 127 * sin (6.28318 * (real_of_int iter / real_of_int (MAX_ITER cfg)) + 2.09439)\<rfloor>"
    by (rule getColor_sinusoid(2)[OF i])
  show "uint (color_b (getColor cfg iter))
          = \<lfloor>128 + 127 * sin (6.28318 * (real_of_int iter / real_of_int (MAX_ITER cfg)) + 4.18879)\<rfloor>"
    by (rule getColor_sinusoid(3)[OF i])
qed

lemma red_channel_3:
  "\<lfloor>128 + 127 * sin (6.28318 * (real_of_int 3 / real_of_int 1000) + 0)\<rfloor> = (130::int)"
proof -
  have a: "6.28318 * (real_of_int 3 / real_of_int 1000) + 0 = (0.01884954::real)" by simp
  show ?thesis unfolding a using sin_small_3 by (intro floor_unique) simp_all
qed

text \<open>The statement at the constants of the source and at the count 3.\<close>

theorem C6_color_boundaries_witness:
  "getColor source_config 1000 = \<lparr>color_r = 0, color_g = 0, color_b = 0\<rparr>
   \<and> 0 < MAX_ITER source_config
   \<and> getColor source_config 0 = \<lparr>color_r = 128, color_g = 237, color_b = 18\<rparr>
   \<and> (3::int) \<noteq> MAX_ITER source_config
   \<and> uint (color_r (getColor source_config 3))
       = \<lfloor>128 + 127 * sin (6.28318 * (real_of_int 3 / real_of_int 1000) + 0)\<rfloor>
   \<and> uint (color_r (getColor source_config 3)) = 130"
proof -
  have h: "0 < MAX_ITER source_config" "(3::int) \<noteq> MAX_ITER source_config"
    and m: "MAX_ITER source_config = 1000" by (simp_all add: source_config_def)
  from C6_color_boundaries[of source_config 3] h
  have "getColor source_config 1000 = \<lparr>color_r = 0, color_g = 0, color_b = 0\<rparr>"
    "getColor source_config 0 = \<lparr>color_r = 128, color_g = 237, color_b = 18\<rparr>"
    "uint (color_r (getColor source_config 3))
       = \<lfloor>128 + 127 * sin (6.28318 * (real_of_int 3 / real_of_int 1000) + 0)\<rfloor>"
    unfolding m by blast+
  with h show ?thesis unfolding red_channel_3 by blast
qed

text \<open>
  The green channel of \<open>getColor(0)\<close> is 237; \<open>128 + 127 sin(2\<pi>/3) = 237.98...\<close> rounded to
  the nearest integer is 238.
\<close>

theorem C6_green_not_rounded_counterexample:
  "0 < MAX_ITER source_config
   \<and> color_g (getColor source_config 0) \<noteq> word_of_int (round (128 + 127 * sin (2 * pi / 3)))"
proof -
  have h: "0 < MAX_ITER source_config" "MAX_ITER source_config \<noteq> 0" by (simp_all add: source_config_def)
  show ?thesis using h(1) by (simp add: getColor_0[OF h(2)] round_channel_g)
qed

section \<open>The global counter register of MandelbrotSDL2.cpp\<close>

text \<open>
  A run of the \<^verbatim>\<open>repeat\<close> loop raises every lane of \<^verbatim>\<open>_n\<close> that is below the cap to
  the cap and leaves the other lanes as they are, whatever \<open>c\<close> is.
\<close>

lemma SDL2_pass_eq:
  "SDL2_pass iterations ca cb n =
     (lanewise (\<lambda>x y. if x < y then - 1 else 0) n (mm256_set1 iterations),
      \<lparr>lane_zr = ca, lane_zi = cb,
       lane_count = lanewise (\<lambda>x y. if x < y then x + 1 else x) n (mm256_set1 iterations)\<rparr>)"
  by (cases ca; cases cb; cases n) (simp add: SDL2_pass_def intrinsics)

lemma SDL2_movemask:
  "0 < mm256_movemask_pd (lanewise (\<lambda>x y. if x < y then - 1 else 0) n (mm256_set1 iterations))
     \<longleftrightarrow> e0 n < iterations \<or> e1 n < iterations \<or> e2 n < iterations \<or> e3 n < iterations"
  by (simp add: mm256_movemask_pd_def lanewise_def mm256_set1_def)

lemma SDL2_repeat_count:
  "lane_count (SDL2_repeat iterations ca cb n) = lanewise max n (mm256_set1 iterations)"
proof (induction iterations ca cb n rule: SDL2_repeat.induct)
  case (1 iterations ca cb n)
  let ?n' = "lanewise (\<lambda>x y. if x < y then x + 1 else x) n (mm256_set1 iterations)"
  show ?case
  proof (cases "e0 n < iterations \<or> e1 n < iterations \<or> e2 n < iterations \<or> e3 n < iterations")
    case True
    then have "lane_count (SDL2_repeat iterations ca cb n) = lane_count (SDL2_repeat iterations ca cb ?n')"
      by (subst SDL2_repeat.simps) (simp add: SDL2_pass_eq SDL2_movemask)
    also have "\<dots> = lanewise max ?n' (mm256_set1 iterations)"
      using "1.IH"[OF refl, of "fst (SDL2_pass iterations ca cb n)" "snd (SDL2_pass iterations ca cb n)"]
        True
      by (simp add: SDL2_pass_eq SDL2_movemask)
    also have "\<dots> = lanewise max n (mm256_set1 iterations)"
      by (cases n) (simp add: lanewise_def mm256_set1_def)
    finally show ?thesis .
  next
    case False
    then have "lane_count (SDL2_repeat iterations ca cb n) = ?n'"
      by (subst SDL2_repeat.simps) (simp add: SDL2_pass_eq SDL2_movemask)
    also have "\<dots> = lanewise max n (mm256_set1 iterations)"
      using False by (cases n) (simp add: lanewise_def mm256_set1_def)
    finally show ?thesis .
  qed
qed

lemma SDL2_batch_n:
  "global_n (SDL2_batch cfg offsetX offsetY zoom iterations i j st)
     = lanewise max (global_n st) (mm256_set1 iterations)"
  by (simp add: SDL2_batch_def SDL2_repeat_count Let_def)

lemma SDL2_batch_stores_of:
  "stores (SDL2_batch cfg offsetX offsetY zoom iterations i j st)
     = stores st @ SDL2_batch_stores cfg i j (lanewise max (global_n st) (mm256_set1 iterations))"
  by (simp add: SDL2_batch_def SDL2_repeat_count Let_def)

lemma for_cols_st_inv:
  assumes "\<And>j s. Q s \<Longrightarrow> Q (body j s)" and "Q s"
  shows "Q (for_cols_st w body j s)"
  using assms
proof (induction w body j s rule: for_cols_st.induct)
  case (1 w body j s)
  show ?case
  proof (cases "j < w")
    case True
    then have "for_cols_st w body j s = for_cols_st w body (j + 4) (body j s)"
      by (subst for_cols_st.simps) simp
    moreover have "Q (body j s)" by (rule "1.prems"(1)[OF "1.prems"(2)])
    ultimately show ?thesis using "1.IH"[OF True "1.prems"(1)] by simp
  next
    case False
    with 1 show ?thesis by (subst for_cols_st.simps) simp
  qed
qed

lemma for_rows_st_inv:
  assumes "\<And>i s. Q s \<Longrightarrow> Q (body i s)" and "Q s"
  shows "Q (for_rows_st endY body i s)"
  using assms
proof (induction endY body i s rule: for_rows_st.induct)
  case (1 endY body i s)
  show ?case
  proof (cases "i < endY")
    case True
    then have "for_rows_st endY body i s = for_rows_st endY body (i + 1) (body i s)"
      by (subst for_rows_st.simps) simp
    moreover have "Q (body i s)" by (rule "1.prems"(1)[OF "1.prems"(2)])
    ultimately show ?thesis using "1.IH"[OF True "1.prems"(1)] by simp
  next
    case False
    with 1 show ?thesis by (subst for_rows_st.simps) simp
  qed
qed


lemma lanewise_max_set1:
  "lanewise max (mm256_set1 (max a b)) (mm256_set1 b) = mm256_set1 (max a (b::int))"
  by (simp add: lanewise_def mm256_set1_def max_def)

lemma SDL2_batch_stores_val:
  "x \<in> set (SDL2_batch_stores cfg i j (mm256_set1 m)) \<Longrightarrow> st_val x = pack_rgba (getColor_SDL2 cfg m)"
  by (auto simp add: SDL2_batch_stores_def elem_set1)

lemma SDL2_batch_stores_first:
  "\<exists>x\<in>set (SDL2_batch_stores cfg i j n). st_row x = i \<and> st_col x = j"
  by (simp add: SDL2_batch_stores_def Let_def)

text \<open>The state after a call whose global starts uniform.\<close>

lemma SDL2_call_uniform:
  fixes n0 iterations :: int
  assumes wh: "0 < SCREEN_WIDTH cfg" "0 < SCREEN_HEIGHT cfg"
    and st: "st = for_rows_st (SCREEN_HEIGHT cfg)
                 (\<lambda>i. for_cols_st (SCREEN_WIDTH cfg)
                         (SDL2_batch cfg offsetX offsetY zoom iterations i) 0)
                 0 \<lparr>global_n = mm256_set1 n0, stores = []\<rparr>"
    and m: "m = max n0 iterations"
  shows "global_n st = mm256_set1 m
       \<and> (\<forall>x\<in>set (stores st). st_val x = pack_rgba (getColor_SDL2 cfg m))
       \<and> (\<exists>x\<in>set (stores st). st_row x = 0 \<and> st_col x = 0)"
proof -
  let ?v = "pack_rgba (getColor_SDL2 cfg m)"
  let ?Q = "\<lambda>s. global_n s = mm256_set1 m
       \<and> (\<forall>x\<in>set (stores s). st_val x = ?v)
       \<and> (\<exists>x\<in>set (stores s). st_row x = 0 \<and> st_col x = 0)"
  let ?body = "SDL2_batch cfg offsetX offsetY zoom iterations"
  let ?st0 = "\<lparr>global_n = mm256_set1 n0, stores = []\<rparr>"
  have step: "?Q (?body i j s)" if "?Q s" for i j s
    using that SDL2_batch_stores_val[of _ cfg i j m]
    by (auto simp add: SDL2_batch_n SDL2_batch_stores_of m lanewise_max_set1)
  have m0: "lanewise max (mm256_set1 n0) (mm256_set1 iterations) = mm256_set1 m"
    by (simp add: lanewise_def mm256_set1_def m)
  have first: "?Q (?body 0 0 ?st0)"
    using SDL2_batch_stores_val[of _ cfg 0 0 m] SDL2_batch_stores_first[of cfg 0 0 "mm256_set1 m"]
    by (auto simp add: SDL2_batch_n SDL2_batch_stores_of m0)
  have row0: "?Q (for_cols_st (SCREEN_WIDTH cfg) (?body 0) 0 ?st0)"
  proof -
    have "for_cols_st (SCREEN_WIDTH cfg) (?body 0) 0 ?st0
        = for_cols_st (SCREEN_WIDTH cfg) (?body 0) 4 (?body 0 0 ?st0)"
      using wh(1) by (subst for_cols_st.simps) simp
    moreover have "?Q (for_cols_st (SCREEN_WIDTH cfg) (?body 0) 4 (?body 0 0 ?st0))"
      by (rule for_cols_st_inv[where Q = ?Q, OF step first])
    ultimately show ?thesis by simp
  qed
  have rows: "?Q (for_cols_st (SCREEN_WIDTH cfg) (?body i) 0 s)" if "?Q s" for i s
    by (rule for_cols_st_inv[where Q = ?Q, OF step that])
  have "st = for_rows_st (SCREEN_HEIGHT cfg) (\<lambda>i. for_cols_st (SCREEN_WIDTH cfg) (?body i) 0) 1
               (for_cols_st (SCREEN_WIDTH cfg) (?body 0) 0 ?st0)"
    unfolding st using wh(2) by (subst for_rows_st.simps) simp
  moreover have "?Q (for_rows_st (SCREEN_HEIGHT cfg) (\<lambda>i. for_cols_st (SCREEN_WIDTH cfg) (?body i) 0) 1
               (for_cols_st (SCREEN_WIDTH cfg) (?body 0) 0 ?st0))"
    by (rule for_rows_st_inv[where Q = ?Q and body = "\<lambda>i. for_cols_st (SCREEN_WIDTH cfg) (?body i) 0",
          OF rows row0])
  ultimately show ?thesis by simp
qed

lemma write_pixels_uniform:
  assumes "\<forall>x\<in>set sts. st_val x = v" "\<exists>x\<in>set sts. pixel_index bpr x = idx"
  shows "write_pixels bpr px sts idx = v"
  using assms
proof (induction sts arbitrary: px rule: rev_induct)
  case Nil
  then show ?case by simp
next
  case (snoc x xs)
  show ?case
  proof (cases "pixel_index bpr x = idx")
    case True
    with snoc.prems show ?thesis by (simp add: write_pixels_def write_pixel_def)
  next
    case False
    with snoc.prems have "\<exists>x\<in>set xs. pixel_index bpr x = idx" by auto
    moreover from snoc.prems have "\<forall>x\<in>set xs. st_val x = v" by simp
    ultimately have "write_pixels bpr px xs idx = v" by (rule snoc.IH[rotated])
    with False show ?thesis by (simp add: write_pixels_def write_pixel_def)
  qed
qed

lemma SDL2_call_result:
  assumes wh: "0 < SCREEN_WIDTH cfg" "0 < SCREEN_HEIGHT cfg"
  shows "fst (SDL2_mandelbrotAVX cfg offsetX offsetY zoom iterations px bpr (mm256_set1 n0))
           = mm256_set1 (max n0 iterations)
       \<and> snd (SDL2_mandelbrotAVX cfg offsetX offsetY zoom iterations px bpr (mm256_set1 n0)) 0
           = pack_rgba (getColor_SDL2 cfg (max n0 iterations))"
proof -
  note u = SDL2_call_uniform[OF wh refl refl, of offsetX offsetY zoom iterations n0]
  let ?st = "for_rows_st (SCREEN_HEIGHT cfg)
                 (\<lambda>i. for_cols_st (SCREEN_WIDTH cfg)
                         (SDL2_batch cfg offsetX offsetY zoom iterations i) 0)
                 0 \<lparr>global_n = mm256_set1 n0, stores = []\<rparr>"
  from u obtain x where x: "x \<in> set (stores ?st)" "st_row x = 0" "st_col x = 0" by blast
  then have "pixel_index bpr x = 0" by (simp add: pixel_index_def)
  with x(1) have "\<exists>x\<in>set (stores ?st). pixel_index bpr x = 0" by blast
  with u show ?thesis
    by (simp add: SDL2_mandelbrotAVX_def Let_def write_pixels_uniform)
qed


lemma pack_black: "pack_rgba \<lparr>color_r = 0, color_g = 0, color_b = 0\<rparr> = 0xFF"
  by (simp add: pack_rgba_def)

lemma pack_first: "pack_rgba \<lparr>color_r = 128, color_g = 237, color_b = 18\<rparr> = 0x80ED12FF"
  by (simp add: pack_rgba_def)

text \<open>
  C4 in \<^verbatim>\<open>MandelbrotSDL2.cpp\<close>, first frame of \<^verbatim>\<open>main\<close>. The column loop of row 0 runs
  the batch \<open>j = 0\<close> from the zero-initialised global \<^verbatim>\<open>_n\<close> and goes on at \<open>j = 4\<close> with
  the state that batch leaves, in which \<^verbatim>\<open>_n\<close> is 1000 in every lane. The batch \<open>j = 4\<close>
  starts from that value: the mask of its first pass is zero in all lanes, its counters
  stay at 1000, and its four pixels are black.
\<close>

theorem C4_counter_not_reset:
  "for_cols_st (SCREEN_WIDTH source_config) SDL2_first_row_body 0 SDL2_state_at_start
     = for_cols_st (SCREEN_WIDTH source_config) SDL2_first_row_body 4
         (SDL2_first_row_body 0 SDL2_state_at_start)
   \<and> global_n (SDL2_first_row_body 0 SDL2_state_at_start) = M256 1000 1000 1000 1000
   \<and> fst (SDL2_pass (MAX_ITER source_config)
             (batch_ca source_config initial_offsetX initial_zoom 4)
             (batch_cb source_config initial_offsetY initial_zoom 0)
             (global_n (SDL2_first_row_body 0 SDL2_state_at_start))) = M256 0 0 0 0
   \<and> global_n (SDL2_first_row_body 4 (SDL2_first_row_body 0 SDL2_state_at_start))
       = M256 1000 1000 1000 1000
   \<and> map st_val (SDL2_batch_stores source_config 0 4
         (global_n (SDL2_first_row_body 4 (SDL2_first_row_body 0 SDL2_state_at_start))))
       = [0xFF, 0xFF, 0xFF, 0xFF]"
proof -
  have w: "0 < SCREEN_WIDTH source_config" and m: "MAX_ITER source_config = 1000"
    by (simp_all add: source_config_def)
  have n1: "global_n (SDL2_first_row_body 0 SDL2_state_at_start) = M256 1000 1000 1000 1000"
    by (simp add: SDL2_first_row_body_def SDL2_state_at_start_def SDL2_n_at_start_def SDL2_batch_n m
          lanewise_def mm256_set1_def)
  have n2: "global_n (SDL2_first_row_body 4 (SDL2_first_row_body 0 SDL2_state_at_start))
       = M256 1000 1000 1000 1000"
    unfolding SDL2_first_row_body_def SDL2_batch_n[of source_config _ _ _ _ 0 4]
    unfolding SDL2_first_row_body_def[symmetric] n1
    by (simp add: m lanewise_def mm256_set1_def)
  have l: "for_cols_st (SCREEN_WIDTH source_config) SDL2_first_row_body 0 SDL2_state_at_start
     = for_cols_st (SCREEN_WIDTH source_config) SDL2_first_row_body 4
         (SDL2_first_row_body 0 SDL2_state_at_start)"
    using w by (subst for_cols_st.simps) simp
  have p: "fst (SDL2_pass (MAX_ITER source_config)
             (batch_ca source_config initial_offsetX initial_zoom 4)
             (batch_cb source_config initial_offsetY initial_zoom 0)
             (global_n (SDL2_first_row_body 0 SDL2_state_at_start))) = M256 0 0 0 0"
    unfolding n1 by (simp add: SDL2_pass_eq m lanewise_def mm256_set1_def)
  have s: "map st_val (SDL2_batch_stores source_config 0 4
         (global_n (SDL2_first_row_body 4 (SDL2_first_row_body 0 SDL2_state_at_start))))
       = [0xFF, 0xFF, 0xFF, 0xFF]"
    unfolding n2 by (simp add: SDL2_batch_stores_def elem_def getColor_SDL2_def m pack_black)
  from l n1 p n2 s show ?thesis by blast
qed

text \<open>
  C5 in \<^verbatim>\<open>MandelbrotSDL2.cpp\<close>. A first call with the cap 3 leaves 3 in every lane of
  \<^verbatim>\<open>_n\<close> and the colour of a count below the cap in cell 0. A call with the cap 1000
  raises \<^verbatim>\<open>_n\<close> to 1000. A further call with the arguments of the first one then
  returns 1000 in every lane and stores black in cell 0.
\<close>

theorem C5_result_depends_on_earlier_call:
  "fst (SDL2_mandelbrotAVX source_config initial_offsetX initial_offsetY initial_zoom 3
          px bytesPerRow SDL2_n_at_start) = M256 3 3 3 3
   \<and> snd (SDL2_mandelbrotAVX source_config initial_offsetX initial_offsetY initial_zoom 3
          px bytesPerRow SDL2_n_at_start) 0 = 0x80ED12FF
   \<and> fst (SDL2_mandelbrotAVX source_config initial_offsetX initial_offsetY initial_zoom 1000
          px1 bytesPerRow (M256 3 3 3 3)) = M256 1000 1000 1000 1000
   \<and> fst (SDL2_mandelbrotAVX source_config initial_offsetX initial_offsetY initial_zoom 3
          px2 bytesPerRow (M256 1000 1000 1000 1000)) = M256 1000 1000 1000 1000
   \<and> snd (SDL2_mandelbrotAVX source_config initial_offsetX initial_offsetY initial_zoom 3
          px2 bytesPerRow (M256 1000 1000 1000 1000)) 0 = 0xFF"
proof -
  have wh: "0 < SCREEN_WIDTH source_config" "0 < SCREEN_HEIGHT source_config"
    and m: "MAX_ITER source_config = 1000"
    by (simp_all add: source_config_def)
  have c3: "getColor_SDL2 source_config 3 = \<lparr>color_r = 128, color_g = 237, color_b = 18\<rparr>"
    by (rule getColor_SDL2_below_cap) (simp_all add: m)
  have c1000: "getColor_SDL2 source_config 1000 = \<lparr>color_r = 0, color_g = 0, color_b = 0\<rparr>"
    by (simp add: getColor_SDL2_def m)
  from SDL2_call_result[OF wh, of initial_offsetX initial_offsetY initial_zoom 3 px bytesPerRow 0]
    SDL2_call_result[OF wh, of initial_offsetX initial_offsetY initial_zoom 1000 px1 bytesPerRow 3]
    SDL2_call_result[OF wh, of initial_offsetX initial_offsetY initial_zoom 3 px2 bytesPerRow 1000]
  show ?thesis
    by (simp add: mm256_set1_def SDL2_n_at_start_def c3 c1000 pack_black pack_first)
qed

section \<open>The row ranges of the threads\<close>

lemma rows_per_thread_div:
  "0 \<le> SCREEN_HEIGHT cfg \<Longrightarrow> 1 \<le> THREAD_COUNT cfg \<Longrightarrow>
   rows_per_thread cfg = SCREEN_HEIGHT cfg div THREAD_COUNT cfg"
  by (cases "SCREEN_HEIGHT cfg = 0") (simp_all add: rows_per_thread_def signed_divide_int_def)

lemma rows_per_thread_bounds:
  assumes "0 \<le> SCREEN_HEIGHT cfg" "1 \<le> THREAD_COUNT cfg"
  shows "0 \<le> rows_per_thread cfg"
    and "THREAD_COUNT cfg * rows_per_thread cfg \<le> SCREEN_HEIGHT cfg"
proof -
  have r: "rows_per_thread cfg = SCREEN_HEIGHT cfg div THREAD_COUNT cfg"
    by (rule rows_per_thread_div[OF assms])
  show "0 \<le> rows_per_thread cfg"
    unfolding r using assms by (simp add: pos_imp_zdiv_nonneg_iff)
  have "SCREEN_HEIGHT cfg = THREAD_COUNT cfg * (SCREEN_HEIGHT cfg div THREAD_COUNT cfg)
          + SCREEN_HEIGHT cfg mod THREAD_COUNT cfg"
    by simp
  moreover have "0 \<le> SCREEN_HEIGHT cfg mod THREAD_COUNT cfg"
    using assms(2) by simp
  ultimately show "THREAD_COUNT cfg * rows_per_thread cfg \<le> SCREEN_HEIGHT cfg"
    unfolding r by linarith
qed

lemma thread_range_ordered:
  assumes "0 \<le> SCREEN_HEIGHT cfg" "1 \<le> THREAD_COUNT cfg" "0 \<le> i" "i < THREAD_COUNT cfg"
  shows "0 \<le> thread_startY cfg i" and "thread_startY cfg i \<le> thread_endY cfg i"
    and "thread_endY cfg i \<le> SCREEN_HEIGHT cfg"
proof -
  note b = rows_per_thread_bounds[OF assms(1,2)]
  let ?r = "rows_per_thread cfg" and ?N = "THREAD_COUNT cfg"
  show "0 \<le> thread_startY cfg i" using assms(3) b(1) by (simp add: thread_startY_def)
  have le: "(i + 1) * ?r \<le> ?N * ?r"
    using assms(4) b(1) by (intro mult_right_mono) simp_all
  have s: "i * ?r \<le> (i + 1) * ?r" using b(1) by (intro mult_right_mono) simp_all
  have l: "(?N - 1) * ?r \<le> ?N * ?r" using b(1) by (intro mult_right_mono) simp_all
  show "thread_startY cfg i \<le> thread_endY cfg i"
  proof (cases "i = ?N - 1")
    case True
    with l b(2) show ?thesis by (simp add: thread_startY_def thread_endY_def)
  next
    case False
    with s show ?thesis by (simp add: thread_startY_def thread_endY_def)
  qed
  show "thread_endY cfg i \<le> SCREEN_HEIGHT cfg"
    using le b(2) by (simp add: thread_endY_def)
qed

lemma thread_range_next:
  assumes "i \<noteq> THREAD_COUNT cfg - 1"
  shows "thread_endY cfg i = thread_startY cfg (i + 1)"
  using assms by (simp add: thread_startY_def thread_endY_def)

lemma thread_range_last:
  "thread_endY cfg (THREAD_COUNT cfg - 1) = SCREEN_HEIGHT cfg"
  by (simp add: thread_endY_def)

lemma thread_range_before:
  assumes "0 \<le> SCREEN_HEIGHT cfg" "1 \<le> THREAD_COUNT cfg" "0 \<le> i" "i < j" "j < THREAD_COUNT cfg"
  shows "thread_endY cfg i \<le> thread_startY cfg j"
proof -
  note b = rows_per_thread_bounds[OF assms(1,2)]
  have "(i + 1) * rows_per_thread cfg \<le> j * rows_per_thread cfg"
    using assms(4) b(1) by (intro mult_right_mono) simp_all
  then show ?thesis using assms(4,5) by (simp add: thread_startY_def thread_endY_def)
qed

lemma thread_range_cover:
  assumes "0 \<le> SCREEN_HEIGHT cfg" "1 \<le> THREAD_COUNT cfg" "0 \<le> y" "y < SCREEN_HEIGHT cfg"
  shows "\<exists>i\<in>{0..<THREAD_COUNT cfg}. thread_startY cfg i \<le> y \<and> y < thread_endY cfg i"
proof (cases "(THREAD_COUNT cfg - 1) * rows_per_thread cfg \<le> y")
  case True
  then have "thread_startY cfg (THREAD_COUNT cfg - 1) \<le> y \<and> y < thread_endY cfg (THREAD_COUNT cfg - 1)"
    using assms(4) by (simp add: thread_startY_def thread_endY_def)
  moreover have "THREAD_COUNT cfg - 1 \<in> {0..<THREAD_COUNT cfg}" using assms(2) by simp
  ultimately show ?thesis by blast
next
  case False
  let ?r = "rows_per_thread cfg" and ?N = "THREAD_COUNT cfg"
  note b = rows_per_thread_bounds[OF assms(1,2)]
  from False have lt: "y < (?N - 1) * ?r" by simp
  have rpos: "0 < ?r"
  proof (rule ccontr)
    assume "\<not> 0 < ?r"
    with b(1) have "?r = 0" by simp
    with lt assms(3) show False by simp
  qed
  define i where "i = y div ?r"
  have y: "y = ?r * i + y mod ?r" by (simp add: i_def)
  have m: "0 \<le> y mod ?r" "y mod ?r < ?r" using rpos by simp_all
  have i0: "0 \<le> i" using assms(3) rpos by (simp add: i_def pos_imp_zdiv_nonneg_iff)
  have lo: "i * ?r \<le> y" using y m(1) by (simp add: mult.commute)
  have hi: "y < (i + 1) * ?r" using y m(2) by (simp add: algebra_simps)
  have "i * ?r < (?N - 1) * ?r" using lo lt by linarith
  then have iN: "i < ?N - 1" using rpos by (simp add: mult_less_cancel_right)
  then have "thread_startY cfg i \<le> y \<and> y < thread_endY cfg i"
    using lo hi by (simp add: thread_startY_def thread_endY_def)
  moreover have "i \<in> {0..<?N}" using i0 iN by simp
  ultimately show ?thesis by blast
qed

text \<open>
  C7. For a height of at least 1 and at least one thread, the ranges
  \<open>[startY, endY)\<close> that \<^verbatim>\<open>mandelbrotThreads\<close> computes for the threads \<open>0 .. THREAD_COUNT - 1\<close>
  have the union \<open>[0, SCREEN_HEIGHT)\<close>, are pairwise disjoint, and satisfy
  \<open>startY \<le> endY\<close>. With more threads than rows all ranges but the last are empty.
\<close>

theorem C7_partition:
  assumes "1 \<le> SCREEN_HEIGHT cfg" and "1 \<le> THREAD_COUNT cfg"
  shows "(\<Union>i\<in>{0..<THREAD_COUNT cfg}. {thread_startY cfg i..<thread_endY cfg i})
           = {0..<SCREEN_HEIGHT cfg}
       \<and> (\<forall>i\<in>{0..<THREAD_COUNT cfg}. \<forall>j\<in>{0..<THREAD_COUNT cfg}. i \<noteq> j \<longrightarrow>
             {thread_startY cfg i..<thread_endY cfg i} \<inter> {thread_startY cfg j..<thread_endY cfg j} = {})
       \<and> (\<forall>i\<in>{0..<THREAD_COUNT cfg}. thread_startY cfg i \<le> thread_endY cfg i)"
proof (intro conjI)
  have h: "0 \<le> SCREEN_HEIGHT cfg" using assms(1) by simp
  show "(\<Union>i\<in>{0..<THREAD_COUNT cfg}. {thread_startY cfg i..<thread_endY cfg i})
           = {0..<SCREEN_HEIGHT cfg}"
  proof (intro set_eqI iffI)
    fix y assume "y \<in> (\<Union>i\<in>{0..<THREAD_COUNT cfg}. {thread_startY cfg i..<thread_endY cfg i})"
    then obtain i where i: "0 \<le> i" "i < THREAD_COUNT cfg" "thread_startY cfg i \<le> y" "y < thread_endY cfg i"
      by auto
    from thread_range_ordered[OF h assms(2) i(1,2)] i(3,4)
    show "y \<in> {0..<SCREEN_HEIGHT cfg}" by simp
  next
    fix y assume "y \<in> {0..<SCREEN_HEIGHT cfg}"
    then have "0 \<le> y" "y < SCREEN_HEIGHT cfg" by simp_all
    from thread_range_cover[OF h assms(2) this]
    show "y \<in> (\<Union>i\<in>{0..<THREAD_COUNT cfg}. {thread_startY cfg i..<thread_endY cfg i})"
      by auto
  qed
  show "\<forall>i\<in>{0..<THREAD_COUNT cfg}. \<forall>j\<in>{0..<THREAD_COUNT cfg}. i \<noteq> j \<longrightarrow>
             {thread_startY cfg i..<thread_endY cfg i} \<inter> {thread_startY cfg j..<thread_endY cfg j} = {}"
  proof (intro ballI impI)
    fix i j assume ij: "i \<in> {0..<THREAD_COUNT cfg}" "j \<in> {0..<THREAD_COUNT cfg}" "i \<noteq> j"
    then consider "i < j" | "j < i" by linarith
    then show "{thread_startY cfg i..<thread_endY cfg i} \<inter> {thread_startY cfg j..<thread_endY cfg j} = {}"
    proof cases
      case 1
      from thread_range_before[OF h assms(2) _ 1] ij show ?thesis by auto
    next
      case 2
      from thread_range_before[OF h assms(2) _ 2] ij show ?thesis by auto
    qed
  qed
  show "\<forall>i\<in>{0..<THREAD_COUNT cfg}. thread_startY cfg i \<le> thread_endY cfg i"
    using thread_range_ordered(2)[OF h assms(2)] by simp
qed

text \<open>
  The partition of the source (600 rows, 32 threads: 18 rows each and 42 for the last) and
  a partition of 3 rows among 5 threads (the last thread takes all three).
\<close>

theorem C7_partition_witness:
  "1 \<le> SCREEN_HEIGHT source_config \<and> 1 \<le> THREAD_COUNT source_config
   \<and> (\<Union>i\<in>{0..<32}. {thread_startY source_config i..<thread_endY source_config i}) = {0..<600}
   \<and> thread_startY source_config 31 = 558 \<and> thread_endY source_config 31 = 600
   \<and> thread_startY source_config 30 = 540 \<and> thread_endY source_config 30 = 558
   \<and> 1 \<le> SCREEN_HEIGHT more_threads_than_rows \<and> 1 \<le> THREAD_COUNT more_threads_than_rows
   \<and> (\<Union>i\<in>{0..<5}. {thread_startY more_threads_than_rows i..<thread_endY more_threads_than_rows i})
       = {0..<3}
   \<and> thread_startY more_threads_than_rows 0 = 0 \<and> thread_endY more_threads_than_rows 0 = 0
   \<and> thread_startY more_threads_than_rows 4 = 0 \<and> thread_endY more_threads_than_rows 4 = 3"
proof -
  have h: "1 \<le> SCREEN_HEIGHT source_config" "1 \<le> THREAD_COUNT source_config"
    by (simp_all add: source_config_def)
  have v: "SCREEN_HEIGHT source_config = 600" "THREAD_COUNT source_config = 32"
    by (simp_all add: source_config_def)
  have r: "rows_per_thread source_config = 18"
    by (simp add: rows_per_thread_def source_config_def signed_divide_int_def)
  have h': "1 \<le> SCREEN_HEIGHT more_threads_than_rows" "1 \<le> THREAD_COUNT more_threads_than_rows"
    by (simp_all add: more_threads_than_rows_def)
  have v': "SCREEN_HEIGHT more_threads_than_rows = 3" "THREAD_COUNT more_threads_than_rows = 5"
    by (simp_all add: more_threads_than_rows_def)
  have r': "rows_per_thread more_threads_than_rows = 0"
    by (simp add: rows_per_thread_def more_threads_than_rows_def signed_divide_int_def)
  have a: "(\<Union>i\<in>{0..<32}. {thread_startY source_config i..<thread_endY source_config i}) = {0..<600}"
    using C7_partition[OF h] unfolding v by blast
  have b: "(\<Union>i\<in>{0..<5}. {thread_startY more_threads_than_rows i..<thread_endY more_threads_than_rows i})
       = {0..<3}"
    using C7_partition[OF h'] unfolding v' by blast
  show ?thesis
    using a b h h' by (simp add: thread_startY_def thread_endY_def r v r' v')
qed

section \<open>One call over all rows and one call per thread\<close>

lemma for_rows_split:
  "i \<le> b \<Longrightarrow> b \<le> c \<Longrightarrow> for_rows c body i = for_rows b body i @ for_rows c body b"
proof (induction b body i rule: for_rows.induct)
  case (1 b body i)
  show ?case
  proof (cases "i < b")
    case True
    with 1 have "for_rows c body (i + 1) = for_rows b body (i + 1) @ for_rows c body b" by simp
    moreover have "for_rows c body i = body i @ for_rows c body (i + 1)"
      using True "1.prems" by (subst for_rows.simps) simp
    moreover have "for_rows b body i = body i @ for_rows b body (i + 1)"
      using True by (subst for_rows.simps) simp
    ultimately show ?thesis by simp
  next
    case False
    with "1.prems" have "i = b" by simp
    then show ?thesis by (simp add: for_rows.simps[of b body b])
  qed
qed

lemma for_rows_empty: "endY \<le> i \<Longrightarrow> for_rows endY body i = []"
  by (subst for_rows.simps) simp

lemma write_pixels_append:
  "write_pixels bpr px (xs @ ys) = write_pixels bpr (write_pixels bpr px xs) ys"
  by (simp add: write_pixels_def)

lemma mandelbrotAVX_split:
  assumes "a \<le> b" "b \<le> c"
  shows "mandelbrotAVX cfg offsetX offsetY zoom max_iterations
           (mandelbrotAVX cfg offsetX offsetY zoom max_iterations px bytesPerRow a b) bytesPerRow b c
         = mandelbrotAVX cfg offsetX offsetY zoom max_iterations px bytesPerRow a c"
  by (simp add: mandelbrotAVX_def AVX_stores_def for_rows_split[OF assms] write_pixels_append)

lemma mandelbrotAVX_empty:
  "endY \<le> startY \<Longrightarrow>
   mandelbrotAVX cfg offsetX offsetY zoom max_iterations px bytesPerRow startY endY = px"
  by (simp add: mandelbrotAVX_def AVX_stores_def for_rows_empty write_pixels_def)

lemma threads_for_rows:
  "0 \<le> SCREEN_HEIGHT cfg \<Longrightarrow> 1 \<le> THREAD_COUNT cfg \<Longrightarrow>
   worker = (\<lambda>startY endY p.
          mandelbrotAVX cfg offsetX offsetY zoom max_iterations p bytesPerRow startY endY) \<Longrightarrow>
   0 \<le> i \<Longrightarrow> i < THREAD_COUNT cfg \<Longrightarrow>
   p = mandelbrotAVX cfg offsetX offsetY zoom max_iterations px bytesPerRow 0 (thread_startY cfg i) \<Longrightarrow>
   threads_for cfg worker i p
     = mandelbrotAVX cfg offsetX offsetY zoom max_iterations px bytesPerRow 0 (SCREEN_HEIGHT cfg)"
proof (induction cfg worker i p rule: threads_for.induct)
  case (1 cfg worker i p)
  note o = thread_range_ordered[OF "1.prems"(1,2) "1.prems"(4,5)]
  have step: "worker (thread_startY cfg i) (thread_endY cfg i) p
      = mandelbrotAVX cfg offsetX offsetY zoom max_iterations px bytesPerRow 0 (thread_endY cfg i)"
    unfolding "1.prems"(3) "1.prems"(6) by (rule mandelbrotAVX_split[OF o(1) o(2)])
  have unfold: "threads_for cfg worker i p
      = threads_for cfg worker (i + 1) (worker (thread_startY cfg i) (thread_endY cfg i) p)"
    using "1.prems"(5) by (subst threads_for.simps) simp
  show ?case
  proof (cases "i = THREAD_COUNT cfg - 1")
    case True
    then have "threads_for cfg worker (i + 1) (worker (thread_startY cfg i) (thread_endY cfg i) p)
        = worker (thread_startY cfg i) (thread_endY cfg i) p"
      by (subst threads_for.simps) simp
    with unfold step True show ?thesis by (simp add: thread_range_last)
  next
    case False
    with "1.prems"(5) have lt: "i + 1 < THREAD_COUNT cfg" by simp
    have i1: "0 \<le> i + 1" using "1.prems"(4) by simp
    have p': "worker (thread_startY cfg i) (thread_endY cfg i) p
      = mandelbrotAVX cfg offsetX offsetY zoom max_iterations px bytesPerRow 0 (thread_startY cfg (i + 1))"
      using step thread_range_next[OF False] by simp
    from "1.IH"[OF "1.prems"(5) "1.prems"(1,2,3) i1 lt p'] unfold
    show ?thesis by simp
  qed
qed

lemma getColor_workers: "getColor (cfg\<lparr>THREAD_COUNT := workers\<rparr>) iter = getColor cfg iter"
  by (simp add: getColor_def Let_def)

lemma AVX_stores_workers:
  "AVX_stores (cfg\<lparr>THREAD_COUNT := workers\<rparr>) offsetX offsetY zoom max_iterations startY endY
     = AVX_stores cfg offsetX offsetY zoom max_iterations startY endY"
  by (simp add: AVX_stores_def AVX_batch_stores_def getColor_workers batch_ca_def batch_cb_def
        sample_re_def sample_im_def)

text \<open>
  C8. For every viewport, cap, buffer and row stride, running the ranges of
  \<^verbatim>\<open>mandelbrotThreads\<close> one after the other with any number of workers from 1 on (so for
  1, 2 and 32) gives the buffer of one call of \<^verbatim>\<open>mandelbrotAVX\<close> over the rows
  \<open>[0, SCREEN_HEIGHT)\<close>.
\<close>

theorem C8_worker_count_irrelevant:
  assumes "0 \<le> SCREEN_HEIGHT cfg" and "1 \<le> workers"
  shows "mandelbrotThreads (cfg\<lparr>THREAD_COUNT := workers\<rparr>) offsetX offsetY zoom max_iterations px bytesPerRow
       = mandelbrotAVX cfg offsetX offsetY zoom max_iterations px bytesPerRow 0 (SCREEN_HEIGHT cfg)"
proof -
  let ?cfg = "cfg\<lparr>THREAD_COUNT := workers\<rparr>"
  have h: "0 \<le> SCREEN_HEIGHT ?cfg" "1 \<le> THREAD_COUNT ?cfg" "(0::int) \<le> 0" "0 < THREAD_COUNT ?cfg"
    using assms by simp_all
  have same: "mandelbrotAVX ?cfg = mandelbrotAVX cfg"
    by (intro ext) (simp add: mandelbrotAVX_def AVX_stores_workers)
  have p0: "px = mandelbrotAVX ?cfg offsetX offsetY zoom max_iterations px bytesPerRow 0 (thread_startY ?cfg 0)"
    by (simp add: thread_startY_def mandelbrotAVX_empty)
  from threads_for_rows[OF h(1,2) refl h(3,4) p0]
  show ?thesis by (simp add: mandelbrotThreads_def same)
qed

text \<open>The statement for 1, 2 and 32 workers on the first frame of \<^verbatim>\<open>main\<close>.\<close>

theorem C8_worker_count_irrelevant_witness:
  "0 \<le> SCREEN_HEIGHT source_config \<and> (1::int) \<le> 1 \<and> (1::int) \<le> 2 \<and> (1::int) \<le> 32
   \<and> mandelbrotThreads (source_config\<lparr>THREAD_COUNT := 1\<rparr>) initial_offsetX initial_offsetY
        initial_zoom 1000 (\<lambda>_. 0) 3200
      = mandelbrotAVX source_config initial_offsetX initial_offsetY initial_zoom 1000 (\<lambda>_. 0) 3200 0 600
   \<and> mandelbrotThreads (source_config\<lparr>THREAD_COUNT := 2\<rparr>) initial_offsetX initial_offsetY
        initial_zoom 1000 (\<lambda>_. 0) 3200
      = mandelbrotAVX source_config initial_offsetX initial_offsetY initial_zoom 1000 (\<lambda>_. 0) 3200 0 600
   \<and> mandelbrotThreads (source_config\<lparr>THREAD_COUNT := 32\<rparr>) initial_offsetX initial_offsetY
        initial_zoom 1000 (\<lambda>_. 0) 3200
      = mandelbrotAVX source_config initial_offsetX initial_offsetY initial_zoom 1000 (\<lambda>_. 0) 3200 0 600"
proof -
  have h: "0 \<le> SCREEN_HEIGHT source_config" and v: "SCREEN_HEIGHT source_config = 600"
    by (simp_all add: source_config_def)
  from C8_worker_count_irrelevant[OF h, of 1] C8_worker_count_irrelevant[OF h, of 2]
    C8_worker_count_irrelevant[OF h, of 32] h
  show ?thesis unfolding v by simp
qed

section \<open>The cells a kernel stores to\<close>

lemma set_for_cols:
  "x \<in> set (for_cols w body j) \<longleftrightarrow> (\<exists>m::nat. j + 4 * int m < w \<and> x \<in> set (body (j + 4 * int m)))"
proof (induction w body j rule: for_cols.induct)
  case (1 w body j)
  show ?case
  proof (cases "j < w")
    case True
    have u: "for_cols w body j = body j @ for_cols w body (j + 4)"
      using True by (subst for_cols.simps) simp
    have "(\<exists>m::nat. j + 4 * int m < w \<and> x \<in> set (body (j + 4 * int m)))
        \<longleftrightarrow> x \<in> set (body j) \<or> (\<exists>m::nat. j + 4 + 4 * int m < w \<and> x \<in> set (body (j + 4 + 4 * int m)))"
      (is "?L \<longleftrightarrow> ?A \<or> ?R")
    proof
      assume ?L
      then obtain m :: nat where m: "j + 4 * int m < w" "x \<in> set (body (j + 4 * int m))" by blast
      show "?A \<or> ?R"
      proof (cases m)
        case 0
        with m show ?thesis by simp
      next
        case (Suc k)
        with m have "j + 4 + 4 * int k < w \<and> x \<in> set (body (j + 4 + 4 * int k))"
          by (simp add: algebra_simps)
        then show ?thesis by blast
      qed
    next
      assume "?A \<or> ?R"
      then show ?L
      proof
        assume ?A
        with True have "j + 4 * int 0 < w \<and> x \<in> set (body (j + 4 * int 0))" by simp
        then show ?L by blast
      next
        assume ?R
        then obtain k :: nat where "j + 4 + 4 * int k < w" "x \<in> set (body (j + 4 + 4 * int k))" by blast
        then have "j + 4 * int (Suc k) < w \<and> x \<in> set (body (j + 4 * int (Suc k)))"
          by (simp add: algebra_simps)
        then show ?L by blast
      qed
    qed
    with "1.IH"[OF True] u show ?thesis by simp
  next
    case False
    then have "for_cols w body j = []" by (subst for_cols.simps) simp
    moreover have "\<not> (\<exists>m::nat. j + 4 * int m < w \<and> x \<in> set (body (j + 4 * int m)))"
      using False by auto
    ultimately show ?thesis by simp
  qed
qed

lemma set_for_rows:
  "x \<in> set (for_rows endY body i) \<longleftrightarrow> (\<exists>i'. i \<le> i' \<and> i' < endY \<and> x \<in> set (body i'))"
proof (induction endY body i rule: for_rows.induct)
  case (1 endY body i)
  show ?case
  proof (cases "i < endY")
    case True
    have u: "for_rows endY body i = body i @ for_rows endY body (i + 1)"
      using True by (subst for_rows.simps) simp
    have "(\<exists>i'. i \<le> i' \<and> i' < endY \<and> x \<in> set (body i'))
        \<longleftrightarrow> x \<in> set (body i) \<or> (\<exists>i'. i + 1 \<le> i' \<and> i' < endY \<and> x \<in> set (body i'))"
      (is "?L \<longleftrightarrow> ?A \<or> ?R")
    proof
      assume ?L
      then obtain i' where i': "i \<le> i'" "i' < endY" "x \<in> set (body i')" by blast
      show "?A \<or> ?R"
      proof (cases "i' = i")
        case True
        with i' show ?thesis by simp
      next
        case False
        with i' have "i + 1 \<le> i' \<and> i' < endY \<and> x \<in> set (body i')" by simp
        then show ?thesis by blast
      qed
    next
      assume "?A \<or> ?R"
      then show ?L
      proof
        assume ?A
        with True have "i \<le> i \<and> i < endY \<and> x \<in> set (body i)" by simp
        then show ?L by blast
      next
        assume ?R
        then obtain i' where "i + 1 \<le> i'" "i' < endY" "x \<in> set (body i')" by blast
        then have "i \<le> i' \<and> i' < endY \<and> x \<in> set (body i')" by simp
        then show ?L by blast
      qed
    qed
    with "1.IH"[OF True] u show ?thesis by simp
  next
    case False
    then have "for_rows endY body i = []" by (subst for_rows.simps) simp
    moreover have "\<not> (\<exists>i'. i \<le> i' \<and> i' < endY \<and> x \<in> set (body i'))"
      using False by auto
    ultimately show ?thesis by simp
  qed
qed

text \<open>A grid of batches: every batch of row \<open>i\<close> at \<open>j\<close> stores to the columns \<open>j .. j + 3\<close> of row \<open>i\<close>.\<close>

lemma grid_in_bounds_iff:
  assumes w: "0 < w" and rows: "startY < endY"
    and cells: "\<And>i j. (\<lambda>st. (st_row st, st_col st)) ` set (batch i j)
                  = {(i, j), (i, j + 1), (i, j + 2), (i, j + 3)}"
  shows "(\<forall>st\<in>set (for_rows endY (\<lambda>i. for_cols w (batch i) 0) startY).
            startY \<le> st_row st \<and> st_row st < endY \<and> 0 \<le> st_col st \<and> st_col st < w)
         \<longleftrightarrow> w mod 4 = 0"
proof
  assume ok: "\<forall>st\<in>set (for_rows endY (\<lambda>i. for_cols w (batch i) 0) startY).
            startY \<le> st_row st \<and> st_row st < endY \<and> 0 \<le> st_col st \<and> st_col st < w"
  show "w mod 4 = 0"
  proof (rule ccontr)
    assume n: "w mod 4 \<noteq> 0"
    define m where "m = nat (w div 4)"
    have m: "4 * int m = 4 * (w div 4)" using w by (simp add: m_def)
    have lt: "0 + 4 * int m < w" using n m by presburger
    have "(startY, 0 + 4 * int m + 3) \<in> (\<lambda>st. (st_row st, st_col st)) ` set (batch startY (0 + 4 * int m))"
      unfolding cells by simp
    then obtain st where st: "st \<in> set (batch startY (0 + 4 * int m))"
      "st_row st = startY" "st_col st = 0 + 4 * int m + 3" by auto
    from st(1) lt have "st \<in> set (for_cols w (batch startY) 0)"
      unfolding set_for_cols by blast
    with rows have "st \<in> set (for_rows endY (\<lambda>i. for_cols w (batch i) 0) startY)"
      unfolding set_for_rows by auto
    with ok have "st_col st < w" by blast
    with st(3) m n show False by presburger
  qed
next
  assume d: "w mod 4 = 0"
  show "\<forall>st\<in>set (for_rows endY (\<lambda>i. for_cols w (batch i) 0) startY).
            startY \<le> st_row st \<and> st_row st < endY \<and> 0 \<le> st_col st \<and> st_col st < w"
  proof
    fix st assume "st \<in> set (for_rows endY (\<lambda>i. for_cols w (batch i) 0) startY)"
    then obtain i and m :: nat where i: "startY \<le> i" "i < endY" and m: "0 + 4 * int m < w"
      and st: "st \<in> set (batch i (0 + 4 * int m))"
      unfolding set_for_rows set_for_cols by blast
    from st have "(st_row st, st_col st) \<in> (\<lambda>st. (st_row st, st_col st)) ` set (batch i (0 + 4 * int m))"
      by (rule imageI)
    then have rc: "st_row st = i" "st_col st \<in> {4 * int m, 4 * int m + 1, 4 * int m + 2, 4 * int m + 3}"
      unfolding cells by auto
    have "4 * int m + 3 < w" using m d by presburger
    with rc i show "startY \<le> st_row st \<and> st_row st < endY \<and> 0 \<le> st_col st \<and> st_col st < w"
      by auto
  qed
qed

lemma AVX_batch_stores_cells:
  "(\<lambda>st. (st_row st, st_col st)) ` set (AVX_batch_stores cfg i j n)
     = {(i, j), (i, j + 1), (i, j + 2), (i, j + 3)}"
  by (auto simp add: AVX_batch_stores_def)

lemma AVXReal_batch_stores_cells:
  "(\<lambda>st. (st_row st, st_col st)) ` set (AVXReal_batch_stores cfg i j n)
     = {(i, j), (i, j + 1), (i, j + 2), (i, j + 3)}"
  by (auto simp add: AVXReal_batch_stores_def Let_def)

text \<open>
  C10. A store of the kernel goes to the cell \<open>st_row * (bytesPerRow / 4) + st_col\<close>
  (\<open>pixel_index\<close>). For a positive width and a non-empty range of rows, every store of
  \<^verbatim>\<open>mandelbrotAVX\<close> (of \<^verbatim>\<open>MBThreadsAndAVX.cpp\<close> over \<open>[startY, endY)\<close>, of \<^verbatim>\<open>MBAVXReal.cpp\<close>
  over all rows) has its row in the range and its column in \<open>[0, SCREEN_WIDTH)\<close> if and
  only if the width is a multiple of 4: otherwise the last batch of every row stores
  beyond the last column.
\<close>

theorem C10_stores_in_bounds:
  assumes "0 < SCREEN_WIDTH cfg" and "startY < endY" and "0 < SCREEN_HEIGHT cfg"
  shows "((\<forall>st\<in>set (AVX_stores cfg offsetX offsetY zoom max_iterations startY endY).
             startY \<le> st_row st \<and> st_row st < endY
             \<and> 0 \<le> st_col st \<and> st_col st < SCREEN_WIDTH cfg)
          \<longleftrightarrow> SCREEN_WIDTH cfg mod 4 = 0)
       \<and> ((\<forall>st\<in>set (AVXReal_stores cfg offsetX offsetY zoom max_iterations).
             0 \<le> st_row st \<and> st_row st < SCREEN_HEIGHT cfg
             \<and> 0 \<le> st_col st \<and> st_col st < SCREEN_WIDTH cfg)
          \<longleftrightarrow> SCREEN_WIDTH cfg mod 4 = 0)"
  unfolding AVX_stores_def AVXReal_stores_def
  by (intro conjI grid_in_bounds_iff assms AVX_batch_stores_cells AVXReal_batch_stores_cells)

text \<open>The statement at the constants of the source, where the width 800 is a multiple of 4.\<close>

theorem C10_stores_in_bounds_witness:
  "0 < SCREEN_WIDTH source_config \<and> (0::int) < 600 \<and> 0 < SCREEN_HEIGHT source_config
   \<and> SCREEN_WIDTH source_config mod 4 = 0
   \<and> list_all (\<lambda>st. 0 \<le> st_row st \<and> st_row st < 600 \<and> 0 \<le> st_col st \<and> st_col st < 800)
        (AVX_stores source_config initial_offsetX initial_offsetY initial_zoom 1000 0 600)
   \<and> list_all (\<lambda>st. 0 \<le> st_row st \<and> st_row st < 600 \<and> 0 \<le> st_col st \<and> st_col st < 800)
        (AVXReal_stores source_config initial_offsetX initial_offsetY initial_zoom 1000)"
proof -
  have h: "0 < SCREEN_WIDTH source_config" "(0::int) < 600" "0 < SCREEN_HEIGHT source_config"
    and d: "SCREEN_WIDTH source_config mod 4 = 0"
    and v: "SCREEN_WIDTH source_config = 800" "SCREEN_HEIGHT source_config = 600"
    by (simp_all add: source_config_def)
  from C10_stores_in_bounds[OF h, of initial_offsetX initial_offsetY initial_zoom 1000] d h
  show ?thesis unfolding v list_all_iff by simp
qed

section \<open>The order of the lanes in the write-back\<close>

text \<open>
  \<^verbatim>\<open>_mm256_set_pd\<close> puts the sample of column \<open>j + k\<close> into lane \<open>k\<close>, and the write-back
  stores lane \<open>3 - k\<close> to column \<open>j + k\<close> (\<^verbatim>\<open>_n[3]\<close> to \<open>j + 0\<close> in \<^verbatim>\<open>MBAVXReal.cpp\<close>,
  index \<open>3 - k\<close> in \<^verbatim>\<open>MBThreadsAndAVX.cpp\<close>). In the batch of row 285 at column 100 of
  \<^verbatim>\<open>MBAVXReal.cpp\<close> the counts of the lanes are \<open>(1, 3, 3, 3)\<close>: column 100, whose own sample
  has the count 1, receives the colour of the count 3, and column 103 the colour of the
  count 1.
\<close>

lemma row285_AVXReal_stores_mirrored:
  "map (\<lambda>st. (st_col st, st_val st))
     (AVXReal_batch_stores source_config 285 100
        (lane_count (AVXReal_batch source_config (MAX_ITER source_config) row285_ca row285_cb)))
   = [(100, pack_rgba (getColor source_config 3)), (101, pack_rgba (getColor source_config 3)),
      (102, pack_rgba (getColor source_config 3)), (103, pack_rgba (getColor source_config 1))]
   \<and> mandelbrot source_config (Complex (sample_re source_config initial_offsetX initial_zoom 100)
                                          (sample_im source_config initial_offsetY initial_zoom 285)) = 1"
proof -
  have m: "MAX_ITER source_config = 1000" by (simp add: source_config_def)
  have c: "sample_re source_config initial_offsetX initial_zoom 100 = e0 row285_ca"
    "sample_im source_config initial_offsetY initial_zoom 285 = e0 row285_cb"
    by (simp_all add: row285_ca_def row285_cb_def batch_ca_def batch_cb_def mm256_set_pd_def
          mm256_set1_def)
  show ?thesis
    unfolding c by (simp add: m row285_Real_batch row285_scalar0 AVXReal_batch_stores_def elem_def)
qed

text \<open>
  The counts 1 and 3 have different pixels: the red channel, 128 for the count 1 and 130
  for the count 3, is the top byte of the pixel. The sample of column 103 has the
  count 3.
\<close>

lemma pack_rgba_red: "ucast (drop_bit 24 (pack_rgba c)) = color_r c"
proof -
  have "(255 :: 32 word) = mask 8" by (simp add: mask_eq_exp_minus_1)
  then show ?thesis
    unfolding pack_rgba_def
    by (intro bit_word_eqI) (auto simp add: bit_simps dest: bit_imp_le_length)
qed

lemma pack_1_3: "pack_rgba (getColor source_config 3) \<noteq> pack_rgba (getColor source_config 1)"
proof
  assume "pack_rgba (getColor source_config 3) = pack_rgba (getColor source_config 1)"
  then have "color_r (getColor source_config 3) = color_r (getColor source_config 1)"
    by (metis pack_rgba_red)
  then show False by (simp add: red_1 red_3)
qed

lemma row285_scalar3: "mandelbrot source_config (Complex (e3 row285_ca) (e3 row285_cb)) = 3"
  by (simp add: mandelbrot_def source_config_def row285_ca row285_cb
        mandelbrot_while.simps[of _ _ _ 0] mandelbrot_while.simps[of _ _ _ 1]
        mandelbrot_while.simps[of _ _ _ 2] mandelbrot_while.simps[of _ _ _ 3] std_norm_def
        complex_eq_iff)

text \<open>
  The cell that a list of stores leaves at an index is the value of the stores to that
  index, when they all store the same value there.
\<close>

lemma write_pixels_at:
  assumes "\<forall>x\<in>set sts. pixel_index bpr x = idx \<longrightarrow> st_val x = v"
    and "\<exists>x\<in>set sts. pixel_index bpr x = idx"
  shows "write_pixels bpr px sts idx = v"
  using assms
proof (induction sts arbitrary: px rule: rev_induct)
  case Nil
  then show ?case by simp
next
  case (snoc x xs)
  show ?case
  proof (cases "pixel_index bpr x = idx")
    case True
    with snoc.prems show ?thesis by (simp add: write_pixels_def write_pixel_def)
  next
    case False
    with snoc.prems have "\<exists>x\<in>set xs. pixel_index bpr x = idx" by auto
    moreover from snoc.prems have "\<forall>x\<in>set xs. pixel_index bpr x = idx \<longrightarrow> st_val x = v" by simp
    ultimately have "write_pixels bpr px xs idx = v" by (rule snoc.IH[rotated])
    with False show ?thesis by (simp add: write_pixels_def write_pixel_def)
  qed
qed

lemma AVXReal_stores_mem:
  "st \<in> set (AVXReal_stores cfg offsetX offsetY zoom max_iterations) \<longleftrightarrow>
     (\<exists>i (m::nat). 0 \<le> i \<and> i < SCREEN_HEIGHT cfg \<and> 0 + 4 * int m < SCREEN_WIDTH cfg
        \<and> st \<in> set (AVXReal_batch_stores cfg i (0 + 4 * int m)
             (lane_count (AVXReal_batch cfg max_iterations
                (batch_ca cfg offsetX zoom (0 + 4 * int m)) (batch_cb cfg offsetY zoom i)))))"
  by (simp add: AVXReal_stores_def set_for_rows set_for_cols)

lemma AVX_stores_mem:
  "st \<in> set (AVX_stores cfg offsetX offsetY zoom max_iterations startY endY) \<longleftrightarrow>
     (\<exists>i (m::nat). startY \<le> i \<and> i < endY \<and> 0 + 4 * int m < SCREEN_WIDTH cfg
        \<and> st \<in> set (AVX_batch_stores cfg i (0 + 4 * int m)
             (lane_count (AVX_batch max_iterations
                (batch_ca cfg offsetX zoom (0 + 4 * int m)) (batch_cb cfg offsetY zoom i)))))"
  by (simp add: AVX_stores_def set_for_rows set_for_cols)

lemma AVXReal_batch_stores_mem:
  assumes "st \<in> set (AVXReal_batch_stores cfg i j n)"
  shows "\<exists>k. 0 \<le> k \<and> k \<le> 3 \<and> st_row st = i \<and> st_col st = j + k
            \<and> st_val st = pack_rgba (getColor cfg (elem n (3 - k)))"
proof -
  from assms consider
      "st = \<lparr>st_row = i, st_col = j + 0, st_val = pack_rgba (getColor cfg (elem n 3))\<rparr>"
    | "st = \<lparr>st_row = i, st_col = j + 1, st_val = pack_rgba (getColor cfg (elem n 2))\<rparr>"
    | "st = \<lparr>st_row = i, st_col = j + 2, st_val = pack_rgba (getColor cfg (elem n 1))\<rparr>"
    | "st = \<lparr>st_row = i, st_col = j + 3, st_val = pack_rgba (getColor cfg (elem n 0))\<rparr>"
    unfolding AVXReal_batch_stores_def Let_def by fastforce
  then show ?thesis
  proof cases
    case 1 then show ?thesis by (intro exI[of _ 0]) simp
  next
    case 2 then show ?thesis by (intro exI[of _ 1]) simp
  next
    case 3 then show ?thesis by (intro exI[of _ 2]) simp
  next
    case 4 then show ?thesis by (intro exI[of _ 3]) simp
  qed
qed

lemma AVX_batch_stores_mem:
  assumes "st \<in> set (AVX_batch_stores cfg i j n)"
  shows "\<exists>k. 0 \<le> k \<and> k \<le> 3 \<and> st_row st = i \<and> st_col st = j + k
            \<and> st_val st = pack_rgba (getColor cfg (elem n (3 - k)))"
proof -
  from assms consider
      "st = \<lparr>st_row = i, st_col = j + 0, st_val = pack_rgba (getColor cfg (elem n (3 - 0)))\<rparr>"
    | "st = \<lparr>st_row = i, st_col = j + 1, st_val = pack_rgba (getColor cfg (elem n (3 - 1)))\<rparr>"
    | "st = \<lparr>st_row = i, st_col = j + 2, st_val = pack_rgba (getColor cfg (elem n (3 - 2)))\<rparr>"
    | "st = \<lparr>st_row = i, st_col = j + 3, st_val = pack_rgba (getColor cfg (elem n (3 - 3)))\<rparr>"
    unfolding AVX_batch_stores_def by fastforce
  then show ?thesis
  proof cases
    case 1 then show ?thesis by (intro exI[of _ 0]) simp
  next
    case 2 then show ?thesis by (intro exI[of _ 1]) simp
  next
    case 3 then show ?thesis by (intro exI[of _ 2]) simp
  next
    case 4 then show ?thesis by (intro exI[of _ 3]) simp
  qed
qed

lemma cell_row_col:
  fixes i c c' :: int
  assumes "i * 800 + c' = 285 * 800 + c" "0 \<le> c'" "c' < 800" "0 \<le> c" "c < 800"
  shows "i = 285 \<and> c' = c"
proof -
  have "\<not> i \<le> 284" using assms by linarith
  moreover have "\<not> 286 \<le> i" using assms by linarith
  ultimately have "i = 285" by linarith
  with assms show ?thesis by simp
qed

lemma batch_of_column:
  fixes k c :: int and m :: nat
  assumes "4 * int m + k = 100 + c" "0 \<le> k" "k \<le> 3" "0 \<le> c" "c \<le> 3"
  shows "m = 25 \<and> k = c"
  using assms by presburger

text \<open>
  The cells of row 285, columns 100 to 103, after the first frame of \<^verbatim>\<open>main\<close>, with the
  row stride 3200 of a surface of 800 pixels of 4 bytes.
\<close>

lemma small_index:
  fixes c :: int
  assumes "0 \<le> c" "c \<le> 3"
  shows "c = 0 \<or> c = 1 \<or> c = 2 \<or> c = 3"
  using assms by arith

lemma AVXReal_batch_stores_has:
  assumes "0 \<le> c" "c \<le> 3"
  shows "\<exists>st\<in>set (AVXReal_batch_stores cfg i j n). st_row st = i \<and> st_col st = j + c"
  using small_index[OF assms] by (auto simp add: AVXReal_batch_stores_def Let_def)

lemma AVX_batch_stores_has:
  assumes "0 \<le> c" "c \<le> 3"
  shows "\<exists>st\<in>set (AVX_batch_stores cfg i j n). st_row st = i \<and> st_col st = j + c"
  using small_index[OF assms] by (auto simp add: AVX_batch_stores_def)

lemma stride_3200: "pixel_index 3200 st = st_row st * 800 + st_col st"
  by (simp add: pixel_index_def signed_divide_int_def)

lemma row285_batch_inputs:
  "batch_ca source_config initial_offsetX initial_zoom (0 + 4 * int 25) = row285_ca"
  "batch_cb source_config initial_offsetY initial_zoom 285 = row285_cb"
  by (simp_all add: row285_ca_def row285_cb_def)

lemma row285_AVXReal_cell:
  assumes "0 \<le> c" "c \<le> 3"
  shows "AVXReal_mandelbrotAVX source_config initial_offsetX initial_offsetY initial_zoom 1000 px 3200
           (285 * 800 + (100 + c))
         = pack_rgba (getColor source_config (elem (M256 1 3 3 3) (3 - c)))"
  unfolding AVXReal_mandelbrotAVX_def
proof (rule write_pixels_at)
  let ?sts = "AVXReal_stores source_config initial_offsetX initial_offsetY initial_zoom 1000"
  have w: "SCREEN_WIDTH source_config = 800" and h: "SCREEN_HEIGHT source_config = 600"
    by (simp_all add: source_config_def)
  show "\<forall>st\<in>set ?sts. pixel_index 3200 st = 285 * 800 + (100 + c) \<longrightarrow>
          st_val st = pack_rgba (getColor source_config (elem (M256 1 3 3 3) (3 - c)))"
  proof (intro ballI impI)
    fix st
    assume mem: "st \<in> set ?sts" and idx: "pixel_index 3200 st = 285 * 800 + (100 + c)"
    from mem obtain i and m :: nat where m: "0 + 4 * int m < 800"
      and b: "st \<in> set (AVXReal_batch_stores source_config i (0 + 4 * int m)
             (lane_count (AVXReal_batch source_config 1000
                (batch_ca source_config initial_offsetX initial_zoom (0 + 4 * int m))
                (batch_cb source_config initial_offsetY initial_zoom i))))"
      unfolding AVXReal_stores_mem w h by blast
    from AVXReal_batch_stores_mem[OF b] obtain k where k: "0 \<le> k" "k \<le> 3"
      and r: "st_row st = i" and cl: "st_col st = 0 + 4 * int m + k"
      and v: "st_val st = pack_rgba (getColor source_config
          (elem (lane_count (AVXReal_batch source_config 1000
                (batch_ca source_config initial_offsetX initial_zoom (0 + 4 * int m))
                (batch_cb source_config initial_offsetY initial_zoom i))) (3 - k)))"
      by blast
    from m have "int m \<le> 199" by linarith
    with k have c1: "0 \<le> 4 * int m + k" "4 * int m + k < 800" by linarith+
    from idx have "i * 800 + (4 * int m + k) = 285 * 800 + (100 + c)"
      by (simp add: stride_3200 r cl)
    from cell_row_col[OF this c1] assms have i: "i = 285" and "4 * int m + k = 100 + c"
      by simp_all
    from batch_of_column[OF this(2) k assms] have mk: "m = 25" "k = c" by simp_all
    show "st_val st = pack_rgba (getColor source_config (elem (M256 1 3 3 3) (3 - c)))"
      unfolding v mk i row285_batch_inputs row285_Real_batch ..
  qed
  have "0 + 4 * int 25 < SCREEN_WIDTH source_config" "(0::int) \<le> 285" "285 < SCREEN_HEIGHT source_config"
    by (simp_all add: w h)
  moreover from AVXReal_batch_stores_has[OF assms] obtain st
    where "st \<in> set (AVXReal_batch_stores source_config 285 (0 + 4 * int 25)
             (lane_count (AVXReal_batch source_config 1000
                (batch_ca source_config initial_offsetX initial_zoom (0 + 4 * int 25))
                (batch_cb source_config initial_offsetY initial_zoom 285))))"
      and s: "st_row st = 285" "st_col st = 0 + 4 * int 25 + c"
    by blast
  ultimately have "st \<in> set ?sts" unfolding AVXReal_stores_mem by blast
  moreover from s have "pixel_index 3200 st = 285 * 800 + (100 + c)" by (simp add: stride_3200)
  ultimately show "\<exists>st\<in>set ?sts. pixel_index 3200 st = 285 * 800 + (100 + c)" by blast
qed

lemma row285_AVX_cell:
  assumes "0 \<le> c" "c \<le> 3" "startY \<le> 285" "285 < endY"
  shows "mandelbrotAVX source_config initial_offsetX initial_offsetY initial_zoom 1000 px 3200
           startY endY (285 * 800 + (100 + c))
         = pack_rgba (getColor source_config 3)"
  unfolding mandelbrotAVX_def
proof (rule write_pixels_at)
  let ?sts = "AVX_stores source_config initial_offsetX initial_offsetY initial_zoom 1000 startY endY"
  have w: "SCREEN_WIDTH source_config = 800" by (simp add: source_config_def)
  have n: "lane_count (AVX_batch 1000 row285_ca row285_cb) = M256 3 3 3 3"
    by (simp add: row285_batch row285_pass3)
  have e: "elem (M256 3 3 3 3) (3 - k) = (3::int)" for k :: int
    by (simp add: elem_def)
  show "\<forall>st\<in>set ?sts. pixel_index 3200 st = 285 * 800 + (100 + c) \<longrightarrow>
          st_val st = pack_rgba (getColor source_config 3)"
  proof (intro ballI impI)
    fix st
    assume mem: "st \<in> set ?sts" and idx: "pixel_index 3200 st = 285 * 800 + (100 + c)"
    from mem obtain i and m :: nat where m: "0 + 4 * int m < 800"
      and b: "st \<in> set (AVX_batch_stores source_config i (0 + 4 * int m)
             (lane_count (AVX_batch 1000
                (batch_ca source_config initial_offsetX initial_zoom (0 + 4 * int m))
                (batch_cb source_config initial_offsetY initial_zoom i))))"
      unfolding AVX_stores_mem w by blast
    from AVX_batch_stores_mem[OF b] obtain k where k: "0 \<le> k" "k \<le> 3"
      and r: "st_row st = i" and cl: "st_col st = 0 + 4 * int m + k"
      and v: "st_val st = pack_rgba (getColor source_config
          (elem (lane_count (AVX_batch 1000
                (batch_ca source_config initial_offsetX initial_zoom (0 + 4 * int m))
                (batch_cb source_config initial_offsetY initial_zoom i))) (3 - k)))"
      by blast
    from m have "int m \<le> 199" by linarith
    with k have c1: "0 \<le> 4 * int m + k" "4 * int m + k < 800" by linarith+
    from idx have "i * 800 + (4 * int m + k) = 285 * 800 + (100 + c)"
      by (simp add: stride_3200 r cl)
    from cell_row_col[OF this c1] assms(1,2) have i: "i = 285" and "4 * int m + k = 100 + c"
      by simp_all
    from batch_of_column[OF this(2) k assms(1,2)] have mk: "m = 25" "k = c" by simp_all
    show "st_val st = pack_rgba (getColor source_config 3)"
      unfolding v mk i row285_batch_inputs n e ..
  qed
  have "0 + 4 * int 25 < SCREEN_WIDTH source_config" by (simp add: w)
  moreover from AVX_batch_stores_has[OF assms(1,2)] obtain st
    where "st \<in> set (AVX_batch_stores source_config 285 (0 + 4 * int 25)
             (lane_count (AVX_batch 1000
                (batch_ca source_config initial_offsetX initial_zoom (0 + 4 * int 25))
                (batch_cb source_config initial_offsetY initial_zoom 285))))"
      and s: "st_row st = 285" "st_col st = 0 + 4 * int 25 + c"
    by blast
  ultimately have "st \<in> set ?sts" unfolding AVX_stores_mem using assms(3,4) by blast
  moreover from s have "pixel_index 3200 st = 285 * 800 + (100 + c)" by (simp add: stride_3200)
  ultimately show "\<exists>st\<in>set ?sts. pixel_index 3200 st = 285 * 800 + (100 + c)" by blast
qed

lemma mandelbrotThreads_rows:
  assumes "0 \<le> SCREEN_HEIGHT cfg" and "1 \<le> THREAD_COUNT cfg"
  shows "mandelbrotThreads cfg offsetX offsetY zoom max_iterations px bytesPerRow
       = mandelbrotAVX cfg offsetX offsetY zoom max_iterations px bytesPerRow 0 (SCREEN_HEIGHT cfg)"
proof -
  have h: "(0::int) \<le> 0" "0 < THREAD_COUNT cfg" using assms by simp_all
  have p0: "px = mandelbrotAVX cfg offsetX offsetY zoom max_iterations px bytesPerRow 0 (thread_startY cfg 0)"
    by (simp add: thread_startY_def mandelbrotAVX_empty)
  from threads_for_rows[OF assms refl h p0]
  show ?thesis by (simp add: mandelbrotThreads_def)
qed

lemma row285_samples:
  "sample_re source_config initial_offsetX initial_zoom 100 = e0 row285_ca"
  "sample_re source_config initial_offsetX initial_zoom 103 = e3 row285_ca"
  "sample_im source_config initial_offsetY initial_zoom 285 = e0 row285_cb"
  "sample_im source_config initial_offsetY initial_zoom 285 = e3 row285_cb"
  by (simp_all add: row285_ca_def row285_cb_def batch_ca_def batch_cb_def mm256_set_pd_def
          mm256_set1_def)

lemma AVX_for_counts_equal:
  "\<exists>n. lane_count s = mm256_set1 n \<Longrightarrow>
   \<exists>n. lane_count (AVX_for max_iterations ca cb k s) = mm256_set1 n"
proof (induction max_iterations ca cb k s rule: AVX_for.induct)
  case (1 max_iterations ca cb k s)
  from "1.prems" obtain n where n: "lane_count s = mm256_set1 n" by blast
  have adv: "\<exists>n. lane_count (AVX_advance ca cb s) = mm256_set1 n"
    by (intro exI[of _ "n + 1"])
       (simp add: AVX_advance_def Let_def n mm256_add_epi64_def mm256_set1_def lanewise_def)
  show ?case
  proof (cases "k < max_iterations \<and> \<not> mm256_testz_si256 (AVX_mask s) (AVX_mask s)")
    case True
    with "1.IH"[OF _ _ adv] show ?thesis by (subst AVX_for.simps) simp
  next
    case False
    with "1.prems" show ?thesis by (subst AVX_for.simps) auto
  qed
qed

lemma AVX_batch_counts_equal: "\<exists>n. lane_count (AVX_batch max_iterations ca cb) = mm256_set1 n"
  unfolding AVX_batch_def
  by (rule AVX_for_counts_equal) (simp add: lanes_init_def exI[of _ 0])

text \<open>
  C3 on the first frame that \<^verbatim>\<open>main\<close> draws (800 by 600, cap 1000, offset \<open>(-0.5, 0)\<close>, zoom
  1, stride 3200), at row 285. After \<^verbatim>\<open>mandelbrotAVX\<close> of \<^verbatim>\<open>MBAVXReal.cpp\<close> the cell of
  column 100 holds the colour of the count 3 and the cell of column 103 the colour of the
  count 1, where the scalar \<^verbatim>\<open>mandelbrot\<close> returns 1 for the sample point of column 100 and
  3 for the sample point of column 103: the four results of the batch are stored in the
  reverse of the column order. After \<^verbatim>\<open>mandelbrotThreads\<close> of \<^verbatim>\<open>MBThreadsAndAVX.cpp\<close> the
  cell of column 100 holds the colour of the count 3 as well; there the four counters of a
  batch are always equal (\<open>AVX_batch_counts_equal\<close>), since the loop adds 1 to every lane,
  and the reversed order does not show. The two colours differ, so in both files the
  cell of column 100 does not hold the colour of the count of its own sample point.
\<close>

theorem C3_columns_mirrored:
  "AVXReal_mandelbrotAVX source_config initial_offsetX initial_offsetY initial_zoom
       (MAX_ITER source_config) px 3200 (285 * 800 + 100)
     = pack_rgba (getColor source_config 3)
   \<and> AVXReal_mandelbrotAVX source_config initial_offsetX initial_offsetY initial_zoom
       (MAX_ITER source_config) px 3200 (285 * 800 + 103)
     = pack_rgba (getColor source_config 1)
   \<and> mandelbrotThreads source_config initial_offsetX initial_offsetY initial_zoom
       (MAX_ITER source_config) px 3200 (285 * 800 + 100)
     = pack_rgba (getColor source_config 3)
   \<and> mandelbrot source_config (Complex (sample_re source_config initial_offsetX initial_zoom 100)
                                       (sample_im source_config initial_offsetY initial_zoom 285)) = 1
   \<and> mandelbrot source_config (Complex (sample_re source_config initial_offsetX initial_zoom 103)
                                       (sample_im source_config initial_offsetY initial_zoom 285)) = 3
   \<and> pack_rgba (getColor source_config 3) \<noteq> pack_rgba (getColor source_config 1)
   \<and> AVXReal_mandelbrotAVX source_config initial_offsetX initial_offsetY initial_zoom
       (MAX_ITER source_config) px 3200 (285 * 800 + 100)
     \<noteq> pack_rgba (getColor source_config (mandelbrot source_config
         (Complex (sample_re source_config initial_offsetX initial_zoom 100)
                  (sample_im source_config initial_offsetY initial_zoom 285))))
   \<and> AVXReal_mandelbrotAVX source_config initial_offsetX initial_offsetY initial_zoom
       (MAX_ITER source_config) px 3200 (285 * 800 + 103)
     \<noteq> pack_rgba (getColor source_config (mandelbrot source_config
         (Complex (sample_re source_config initial_offsetX initial_zoom 103)
                  (sample_im source_config initial_offsetY initial_zoom 285))))
   \<and> mandelbrotThreads source_config initial_offsetX initial_offsetY initial_zoom
       (MAX_ITER source_config) px 3200 (285 * 800 + 100)
     \<noteq> pack_rgba (getColor source_config (mandelbrot source_config
         (Complex (sample_re source_config initial_offsetX initial_zoom 100)
                  (sample_im source_config initial_offsetY initial_zoom 285))))"
proof -
  have m: "MAX_ITER source_config = 1000" and h: "SCREEN_HEIGHT source_config = 600"
    and t: "0 \<le> SCREEN_HEIGHT source_config" "1 \<le> THREAD_COUNT source_config"
    by (simp_all add: source_config_def)
  have a: "AVXReal_mandelbrotAVX source_config initial_offsetX initial_offsetY initial_zoom
       1000 px 3200 (285 * 800 + 100) = pack_rgba (getColor source_config 3)"
    using row285_AVXReal_cell[of 0 px] by (simp add: elem_def)
  have b: "AVXReal_mandelbrotAVX source_config initial_offsetX initial_offsetY initial_zoom
       1000 px 3200 (285 * 800 + 103) = pack_rgba (getColor source_config 1)"
    using row285_AVXReal_cell[of 3 px] by (simp add: elem_def)
  have c: "mandelbrotThreads source_config initial_offsetX initial_offsetY initial_zoom
       1000 px 3200 (285 * 800 + 100) = pack_rgba (getColor source_config 3)"
    unfolding mandelbrotThreads_rows[OF t] h using row285_AVX_cell[of 0 0 600 px] by simp
  have s0: "mandelbrot source_config (Complex (sample_re source_config initial_offsetX initial_zoom 100)
                                       (sample_im source_config initial_offsetY initial_zoom 285)) = 1"
    unfolding row285_samples(1,3) by (rule row285_scalar0)
  have s3: "mandelbrot source_config (Complex (sample_re source_config initial_offsetX initial_zoom 103)
                                       (sample_im source_config initial_offsetY initial_zoom 285)) = 3"
    unfolding row285_samples(2,4) by (rule row285_scalar3)
  show ?thesis
    unfolding m a b c s0 s3 using pack_1_3 by simp
qed

end
